theory Spec2Isabelle
  imports Main "HOL-Library.Word"
begin

section \<open>The add-event handler of the node disk manager\<close>

text \<open>
  A shallow embedding of \<^verbatim>\<open>cmd/ndm_daemonset/probe/addhandler.go\<close>. Every function of
  that file is a definition of the same name. The handler's receiver
  (\<^verbatim>\<open>pe.Controller\<close>) is passed explicitly and returned updated; a Go result
  \<^verbatim>\<open>(bool, error)\<close> is a pair \<open>bool \<times> error option\<close>, a Go result \<^verbatim>\<open>error\<close> is an
  \<open>error option\<close> (\<open>None\<close> is \<^verbatim>\<open>nil\<close>), and a nilable pointer is an option.
\<close>

subsection \<open>Data of the packages the handler imports\<close>

text \<open>
  Modelled from the spec: the type declarations of package \<^verbatim>\<open>blockdevice\<close> and of the
  API package are not in the source file; the spec's data model gives
  \<open>DeviceType \<in> {Disk, Partition}\<close>,
  \<open>UsedBy \<in> {None, Mayastor, ZFSLocalPV, CStor, LocalPV}\<close> and
  \<open>ClaimState \<in> {Unclaimed, Claimed, Released}\<close>. The records below hold exactly
  the fields that the handler reads or writes. The handler compares the device type
  with \<^verbatim>\<open>BlockDeviceTypePartition\<close> only, so \<open>BlockDeviceTypeDisk\<close> stands for every
  other type. The capacity is an unsigned 64 bit integer; the logical block size is
  converted by \<^verbatim>\<open>uint64(...)\<close> before it is handed to the partitioning collaborator and
  is taken as an unsigned 32 bit integer, so that the conversion is \<open>ucast\<close>.
\<close>

datatype BlockDeviceType = BlockDeviceTypeDisk | BlockDeviceTypePartition

datatype StorageEngine = NoEngine | Mayastor | ZFSLocalPV | CStor | LocalPV

datatype DeviceClaimState = BlockDeviceUnclaimed | BlockDeviceClaimed | BlockDeviceReleased

record CapacityInformation =
  Storage :: "64 word"

record DeviceAttribute =
  DeviceType :: BlockDeviceType
  LogicalBlockSize :: "32 word"

record DependentBlockDevices =
  Parent :: string
  Partitions :: "string list"
  Holders :: "string list"

record DeviceUsage =
  InUse :: bool
  UsedBy :: StorageEngine

record FileSystemInformation =
  FileSystemUUID :: string

record PartitionInformation =
  PartitionTableUUID :: string

record BlockDevice =
  DevPath :: string
  UUID :: string
  Capacity :: CapacityInformation
  DeviceAttributes :: DeviceAttribute
  DependentDevices :: DependentBlockDevices
  DevUse :: DeviceUsage
  FSInfo :: FileSystemInformation
  PartitionInfo :: PartitionInformation

record DeviceStatus =
  ClaimState :: DeviceClaimState
  Active :: bool

text \<open>The resource record of the store (\<^verbatim>\<open>apis.BlockDevice\<close>).\<close>

record BlockDeviceAPI =
  Name :: string
  Labels :: "string \<rightharpoonup> string"
  Annotations :: "string \<rightharpoonup> string"
  Status :: DeviceStatus

text \<open>The argument of the partitioning collaborator (\<^verbatim>\<open>partition.Disk\<close>).\<close>

record Disk =
  DiskDevPath :: string
  DiskSize :: "64 word"
  DiskLogicalBlockSize :: "64 word"

text \<open>
  Errors are values. \<open>Errorf\<close> is an error made by \<^verbatim>\<open>fmt.Errorf\<close> in the handler,
  with its formatted message; \<open>NotFoundError\<close> is the store's error that
  \<^verbatim>\<open>errors.IsNotFound\<close> recognises; \<open>OtherError\<close> is any other error of a collaborator.
\<close>

datatype error = Errorf string | NotFoundError | OtherError string

definition IsNotFound :: "error \<Rightarrow> bool" where
  "IsNotFound err = (err = NotFoundError)"

subsection \<open>The controller and its collaborators\<close>

text \<open>
  Every call that changes something outside the handler is appended to \<open>calls\<close>, in
  the order of issue: the three mutating calls of the store client and the call of the
  partitioning collaborator.
\<close>

datatype StoreCall =
    CreateCall BlockDeviceAPI
  | UpdateCall BlockDeviceAPI BlockDeviceAPI
  | DeactivateCall BlockDeviceAPI
  | PartitionCall Disk

text \<open>
  \<open>BDHierarchy\<close> is the hierarchy cache, \<open>Clientset\<close> the state of the resource
  store behind the client.
\<close>

record 's Controller =
  BDHierarchy :: "string \<rightharpoonup> BlockDevice"
  Clientset :: 's
  calls :: "StoreCall list"

text \<open>
  The functions that the handler calls and that are defined elsewhere in the repository
  are parameters: the three identifier derivations, the conversion of a device into a
  resource, the store client over a store state \<open>'s\<close>, the partitioning collaborator,
  the key of the tag label and the string of a storage engine's name. Nothing is
  assumed about them. \<^verbatim>\<open>GetBlockDevice\<close> answers with an error or with a resource;
  \<^verbatim>\<open>DeactivateBlockDevice\<close> has no result that the handler looks at.
\<close>

record ('s, 'd) Collaborators =
  generateUUID :: "BlockDevice \<Rightarrow> string \<times> bool"
  generateLegacyUUID :: "BlockDevice \<Rightarrow> string \<times> bool"
  generateUUIDFromPartitionTable :: "BlockDevice \<Rightarrow> string \<times> bool"
  NewDeviceInfoFromBlockDevice :: "BlockDevice \<Rightarrow> 'd"
  ToDevice :: "'d \<Rightarrow> BlockDeviceAPI"
  GetBlockDevice :: "'s \<Rightarrow> string \<Rightarrow> error + BlockDeviceAPI"
  CreateBlockDevice :: "'s \<Rightarrow> BlockDeviceAPI \<Rightarrow> error option \<times> 's"
  UpdateBlockDevice :: "'s \<Rightarrow> BlockDeviceAPI \<Rightarrow> BlockDeviceAPI \<Rightarrow> error option \<times> 's"
  DeactivateBlockDevice :: "'s \<Rightarrow> BlockDeviceAPI \<Rightarrow> 's"
  CreateSinglePartition :: "Disk \<Rightarrow> error option"
  BlockDeviceTagLabel :: string
  EngineName :: "StorageEngine \<Rightarrow> string"

text \<open>The controller's mutating methods: the collaborator's effect, and the log entry.\<close>

definition Controller_CreateBlockDevice ::
  "('s, 'd) Collaborators \<Rightarrow> BlockDeviceAPI \<Rightarrow> 's Controller \<Rightarrow> error option \<times> 's Controller" where
  "Controller_CreateBlockDevice env bdAPI pe =
     (let r = CreateBlockDevice env (Clientset pe) bdAPI
      in (fst r, pe\<lparr>Clientset := snd r, calls := calls pe @ [CreateCall bdAPI]\<rparr>))"

definition Controller_UpdateBlockDevice ::
  "('s, 'd) Collaborators \<Rightarrow> BlockDeviceAPI \<Rightarrow> BlockDeviceAPI \<Rightarrow> 's Controller
     \<Rightarrow> error option \<times> 's Controller" where
  "Controller_UpdateBlockDevice env bdAPI existingBD pe =
     (let r = UpdateBlockDevice env (Clientset pe) bdAPI existingBD
      in (fst r, pe\<lparr>Clientset := snd r, calls := calls pe @ [UpdateCall bdAPI existingBD]\<rparr>))"

definition Controller_DeactivateBlockDevice ::
  "('s, 'd) Collaborators \<Rightarrow> BlockDeviceAPI \<Rightarrow> 's Controller \<Rightarrow> 's Controller" where
  "Controller_DeactivateBlockDevice env bdAPI pe =
     pe\<lparr>Clientset := DeactivateBlockDevice env (Clientset pe) bdAPI,
        calls := calls pe @ [DeactivateCall bdAPI]\<rparr>"

definition Disk_CreateSinglePartition ::
  "('s, 'd) Collaborators \<Rightarrow> Disk \<Rightarrow> 's Controller \<Rightarrow> error option \<times> 's Controller" where
  "Disk_CreateSinglePartition env d pe =
     (CreateSinglePartition env d, pe\<lparr>calls := calls pe @ [PartitionCall d]\<rparr>)"

text \<open>
  Modelled from the spec: \<^verbatim>\<open>Controller.GetExistingBlockDeviceResource\<close> is not in the
  source file; the spec's interface gives
  \<open>ListExisting(snapshot, identifier) -> resource | nil\<close>, the lookup of an identifier
  within an already fetched snapshot. The snapshot is the list of its items.
\<close>

fun GetExistingBlockDeviceResource :: "BlockDeviceAPI list \<Rightarrow> string \<Rightarrow> BlockDeviceAPI option" where
  "GetExistingBlockDeviceResource [] uuid = None"
| "GetExistingBlockDeviceResource (item # items) uuid =
     (if uuid = Name item then Some item else GetExistingBlockDeviceResource items uuid)"

subsection \<open>The handler\<close>

definition internalUUIDSchemeAnnotation :: string where
  "internalUUIDSchemeAnnotation = ''internal.openebs.io/uuid-scheme''"

definition legacyUUIDScheme :: string where
  "legacyUUIDScheme = ''legacy''"

definition gptUUIDScheme :: string where
  "gptUUIDScheme = ''gpt''"

definition internalFSUUIDAnnotation :: string where
  "internalFSUUIDAnnotation = ''internal.openebs.io/fsuuid''"

definition internalPartitionUUIDAnnotation :: string where
  "internalPartitionUUIDAnnotation = ''internal.openebs.io/partition-uuid''"

definition addBlockDeviceToHierarchyCache ::
  "BlockDevice \<Rightarrow> 's Controller \<Rightarrow> bool \<times> 's Controller" where
  "addBlockDeviceToHierarchyCache bd pe =
     (let deviceAlreadyExistsInCache = (BDHierarchy pe (DevPath bd) \<noteq> None)
      in (deviceAlreadyExistsInCache,
          pe\<lparr>BDHierarchy := (BDHierarchy pe)(DevPath bd \<mapsto> bd)\<rparr>))"

definition createOrUpdateWithAnnotation ::
  "('s, 'd) Collaborators \<Rightarrow> (string \<rightharpoonup> string) \<Rightarrow> BlockDevice \<Rightarrow> BlockDeviceAPI option
     \<Rightarrow> 's Controller \<Rightarrow> error option \<times> 's Controller" where
  "createOrUpdateWithAnnotation env annotation bd existingBD pe =
     (let deviceInfo = NewDeviceInfoFromBlockDevice env bd;
          bdAPI = (ToDevice env deviceInfo)\<lparr>Annotations := annotation\<rparr>
      in (case existingBD of
            Some existing \<Rightarrow> Controller_UpdateBlockDevice env bdAPI existing pe
          | None \<Rightarrow> Controller_CreateBlockDevice env bdAPI pe))"

definition createOrUpdateWithFSUUID ::
  "('s, 'd) Collaborators \<Rightarrow> BlockDevice \<Rightarrow> BlockDeviceAPI option \<Rightarrow> 's Controller
     \<Rightarrow> error option \<times> 's Controller" where
  "createOrUpdateWithFSUUID env bd existingBD pe =
     (let annotation = [internalUUIDSchemeAnnotation \<mapsto> legacyUUIDScheme,
                        internalFSUUIDAnnotation \<mapsto> FileSystemUUID (FSInfo bd)]
      in createOrUpdateWithAnnotation env annotation bd existingBD pe)"

definition createOrUpdateWithPartitionUUID ::
  "('s, 'd) Collaborators \<Rightarrow> BlockDevice \<Rightarrow> BlockDeviceAPI option \<Rightarrow> 's Controller
     \<Rightarrow> error option \<times> 's Controller" where
  "createOrUpdateWithPartitionUUID env bd existingBD pe =
     (let annotation = [internalUUIDSchemeAnnotation \<mapsto> legacyUUIDScheme,
                        internalPartitionUUIDAnnotation \<mapsto> PartitionTableUUID (PartitionInfo bd)]
      in createOrUpdateWithAnnotation env annotation bd existingBD pe)"

text \<open>The two scans of the snapshot for a correlation annotation: the first match wins.\<close>

fun rangeFsUuid :: "string \<Rightarrow> BlockDeviceAPI list \<Rightarrow> BlockDeviceAPI option" where
  "rangeFsUuid u [] = None"
| "rangeFsUuid u (bdAPI # items) =
     (case Annotations bdAPI internalFSUUIDAnnotation of
        None \<Rightarrow> rangeFsUuid u items
      | Some fsUUID \<Rightarrow> if fsUUID = u then Some bdAPI else rangeFsUuid u items)"

definition getExistingBDWithFsUuid :: "BlockDevice \<Rightarrow> BlockDeviceAPI list \<Rightarrow> BlockDeviceAPI option" where
  "getExistingBDWithFsUuid bd bdAPIList =
     (if length (FileSystemUUID (FSInfo bd)) = 0 then None
      else rangeFsUuid (FileSystemUUID (FSInfo bd)) bdAPIList)"

fun rangePartitionUUID :: "string \<Rightarrow> BlockDeviceAPI list \<Rightarrow> BlockDeviceAPI option" where
  "rangePartitionUUID u [] = None"
| "rangePartitionUUID u (bdAPI # items) =
     (case Annotations bdAPI internalPartitionUUIDAnnotation of
        None \<Rightarrow> rangePartitionUUID u items
      | Some partitionUUID \<Rightarrow> if partitionUUID = u then Some bdAPI else rangePartitionUUID u items)"

definition getExistingBDWithPartitionUUID ::
  "BlockDevice \<Rightarrow> BlockDeviceAPI list \<Rightarrow> BlockDeviceAPI option" where
  "getExistingBDWithPartitionUUID bd bdAPIList =
     (if length (PartitionTableUUID (PartitionInfo bd)) = 0 then None
      else rangePartitionUUID (PartitionTableUUID (PartitionInfo bd)) bdAPIList)"

definition isParentDeviceInUse :: "BlockDevice \<Rightarrow> 's Controller \<Rightarrow> bool \<times> error option" where
  "isParentDeviceInUse bd pe =
     (if DeviceType (DeviceAttributes bd) \<noteq> BlockDeviceTypePartition then (False, None)
      else (case BDHierarchy pe (Parent (DependentDevices bd)) of
              None \<Rightarrow> (False, Some (Errorf (''cannot find parent device of '' @ DevPath bd)))
            | Some parentBD \<Rightarrow> (InUse (DevUse parentBD), None)))"

definition deviceInUseByMayastor ::
  "('s, 'd) Collaborators \<Rightarrow> BlockDevice \<Rightarrow> BlockDeviceAPI list \<Rightarrow> 's Controller
     \<Rightarrow> (bool \<times> error option) \<times> 's Controller" where
  "deviceInUseByMayastor env bd bdAPIList pe =
     (if \<not> InUse (DevUse bd) then ((True, None), pe)
      else if UsedBy (DevUse bd) \<noteq> Mayastor then ((True, None), pe)
      else ((False, None), pe))"

definition deviceInUseByZFSLocalPV ::
  "('s, 'd) Collaborators \<Rightarrow> BlockDevice \<Rightarrow> BlockDeviceAPI list \<Rightarrow> 's Controller
     \<Rightarrow> (bool \<times> error option) \<times> 's Controller" where
  "deviceInUseByZFSLocalPV env bd bdAPIList pe =
     (if DeviceType (DeviceAttributes bd) = BlockDeviceTypePartition
         \<and> BDHierarchy pe (Parent (DependentDevices bd)) = None
      then ((False, Some (Errorf (''error in getting parent device for '' @ DevPath bd
                                    @ '' from device hierarchy''))), pe)
      else if DeviceType (DeviceAttributes bd) = BlockDeviceTypePartition
         \<and> (case BDHierarchy pe (Parent (DependentDevices bd)) of
               None \<Rightarrow> False
             | Some parentBD \<Rightarrow> InUse (DevUse parentBD) \<and> UsedBy (DevUse parentBD) = ZFSLocalPV)
      then ((False, None), pe)
      else if \<not> InUse (DevUse bd) then ((True, None), pe)
      else if UsedBy (DevUse bd) \<noteq> ZFSLocalPV then ((True, None), pe)
      else (let r = generateUUIDFromPartitionTable env bd; uuid = fst r; ok = snd r
            in if \<not> ok
               then ((False, Some (Errorf (''error generating uuid for zfs-localPV disk: ''
                                             @ DevPath bd))), pe)
               else (let bd' = bd\<lparr>UUID := uuid\<rparr>;
                         deviceInfo = NewDeviceInfoFromBlockDevice env bd';
                         bdAPI = ToDevice env deviceInfo;
                         bdAPI' = bdAPI\<lparr>Labels := (Labels bdAPI)
                                    (BlockDeviceTagLabel env \<mapsto> EngineName env ZFSLocalPV)\<rparr>;
                         c = Controller_CreateBlockDevice env bdAPI' pe
                     in (case fst c of
                           Some err \<Rightarrow> ((False, Some err), snd c)
                         | None \<Rightarrow> ((False, None), snd c)))))"

definition handleUnmanagedDevices ::
  "('s, 'd) Collaborators \<Rightarrow> BlockDevice \<Rightarrow> BlockDeviceAPI list \<Rightarrow> 's Controller
     \<Rightarrow> (bool \<times> error option) \<times> 's Controller" where
  "handleUnmanagedDevices env bd bdAPIList pe =
     (let m = deviceInUseByMayastor env bd bdAPIList pe
      in if snd (fst m) \<noteq> None then m
         else if \<not> fst (fst m) then ((False, None), snd m)
         else (let z = deviceInUseByZFSLocalPV env bd bdAPIList (snd m)
               in if snd (fst z) \<noteq> None then z
                  else if \<not> fst (fst z) then ((False, None), snd z)
                  else ((True, None), snd z)))"

definition createBlockDeviceResourceIfNoHolders ::
  "('s, 'd) Collaborators \<Rightarrow> BlockDevice \<Rightarrow> BlockDeviceAPI list \<Rightarrow> 's Controller
     \<Rightarrow> error option \<times> 's Controller" where
  "createBlockDeviceResourceIfNoHolders env bd bdAPIList pe =
     (if length (Holders (DependentDevices bd)) > 0 then (None, pe)
      else (let existingBlockDeviceResource = GetExistingBlockDeviceResource bdAPIList (UUID bd);
                annotations = [internalUUIDSchemeAnnotation \<mapsto> gptUUIDScheme]
            in createOrUpdateWithAnnotation env annotations bd existingBlockDeviceResource pe))"

definition upgradeDeviceInUseByCStor ::
  "('s, 'd) Collaborators \<Rightarrow> BlockDevice \<Rightarrow> BlockDeviceAPI list \<Rightarrow> 's Controller
     \<Rightarrow> (bool \<times> error option) \<times> 's Controller" where
  "upgradeDeviceInUseByCStor env bd bdAPIList pe =
     (let g = generateUUID env bd; uuid = fst g; ok = snd g
      in (case (if ok then GetExistingBlockDeviceResource bdAPIList uuid else None) of
            Some existingBD \<Rightarrow>
              if ClaimState (Status existingBD) \<noteq> BlockDeviceUnclaimed then ((True, None), pe)
              else ((False, Some (Errorf ''unreachable state'')), pe)
          | None \<Rightarrow>
              (let l = generateLegacyUUID env bd; legacyUUID = fst l; isVirt = snd l;
                   existingLegacyBD =
                     (case getExistingBDWithPartitionUUID bd bdAPIList of
                        Some r \<Rightarrow> Some r
                      | None \<Rightarrow> GetExistingBlockDeviceResource bdAPIList legacyUUID)
               in (case existingLegacyBD of
                     None \<Rightarrow>
                       (let c = createOrUpdateWithPartitionUUID env (bd\<lparr>UUID := legacyUUID\<rparr>) None pe
                        in ((False, fst c), snd c))
                   | Some existing \<Rightarrow>
                       if ClaimState (Status existing) \<noteq> BlockDeviceUnclaimed
                       then (let c = createOrUpdateWithPartitionUUID env
                                       (bd\<lparr>UUID := Name existing\<rparr>) (Some existing) pe
                             in ((False, fst c), snd c))
                       else if isVirt
                       then (let c = createOrUpdateWithPartitionUUID env
                                       (bd\<lparr>UUID := Name existing\<rparr>) (Some existing) pe
                             in ((False, fst c), snd c))
                       else ((False, Some (Errorf ''unreachable state'')), pe)))))"

definition upgradeDeviceInUseByLocalPV ::
  "('s, 'd) Collaborators \<Rightarrow> BlockDevice \<Rightarrow> BlockDeviceAPI list \<Rightarrow> 's Controller
     \<Rightarrow> (bool \<times> error option) \<times> 's Controller" where
  "upgradeDeviceInUseByLocalPV env bd bdAPIList pe =
     (let g = generateUUID env bd; uuid = fst g; ok = snd g
      in (case (if ok then GetExistingBlockDeviceResource bdAPIList uuid else None) of
            Some existingBD \<Rightarrow>
              if ClaimState (Status existingBD) \<noteq> BlockDeviceUnclaimed then ((True, None), pe)
              else ((False, Some (Errorf ''unreachable state'')), pe)
          | None \<Rightarrow>
              (let l = generateLegacyUUID env bd; legacyUUID = fst l; isVirt = snd l;
                   existingLegacyBD =
                     (case getExistingBDWithFsUuid bd bdAPIList of
                        Some r \<Rightarrow> Some r
                      | None \<Rightarrow> GetExistingBlockDeviceResource bdAPIList legacyUUID)
               in (case existingLegacyBD of
                     None \<Rightarrow>
                       (let c = createOrUpdateWithFSUUID env (bd\<lparr>UUID := legacyUUID\<rparr>) None pe
                        in ((False, fst c), snd c))
                   | Some existing \<Rightarrow>
                       if ClaimState (Status existing) \<noteq> BlockDeviceUnclaimed
                       then (let c = createOrUpdateWithFSUUID env
                                       (bd\<lparr>UUID := Name existing\<rparr>) (Some existing) pe
                             in ((False, fst c), snd c))
                       else if isVirt
                       then (let c = createOrUpdateWithFSUUID env
                                       (bd\<lparr>UUID := Name existing\<rparr>) (Some existing) pe
                             in ((False, fst c), snd c))
                       else ((False, Some (Errorf ''unreachable state'')), pe)))))"

definition upgradeBD ::
  "('s, 'd) Collaborators \<Rightarrow> BlockDevice \<Rightarrow> BlockDeviceAPI list \<Rightarrow> 's Controller
     \<Rightarrow> (bool \<times> error option) \<times> 's Controller" where
  "upgradeBD env bd bdAPIList pe =
     (if \<not> InUse (DevUse bd) then ((True, None), pe)
      else if UsedBy (DevUse bd) = LocalPV
      then (let r = upgradeDeviceInUseByLocalPV env bd bdAPIList pe
            in if snd (fst r) \<noteq> None then ((False, snd (fst r)), snd r)
               else ((fst (fst r), None), snd r))
      else if UsedBy (DevUse bd) = CStor
      then (let r = upgradeDeviceInUseByCStor env bd bdAPIList pe
            in if snd (fst r) \<noteq> None then ((False, snd (fst r)), snd r)
               else ((fst (fst r), None), snd r))
      else ((True, None), pe))"

text \<open>
  \<^verbatim>\<open>addBlockDevice\<close> is written in two parts. \<open>addBlockDevice_generic\<close> is the body of
  the function from the derivation of the identifier to its end (from the line
  \<^verbatim>\<open>uuid, ok := generateUUID(bd)\<close> on); \<open>addBlockDevice\<close> is the three checks before
  it, each of which returns early or hands over.
\<close>

definition addBlockDevice_generic ::
  "('s, 'd) Collaborators \<Rightarrow> BlockDevice \<Rightarrow> BlockDeviceAPI list \<Rightarrow> 's Controller
     \<Rightarrow> error option \<times> 's Controller" where
  "addBlockDevice_generic env bd bdAPIList pe2 =
     (let g = generateUUID env bd; uuid = fst g; ok = snd g
      in if \<not> ok
      then (if length (Partitions (DependentDevices bd)) > 0
               \<or> length (Holders (DependentDevices bd)) > 0
            then (None, pe2)
            else (let d = \<lparr>DiskDevPath = DevPath bd,
                           DiskSize = Storage (Capacity bd),
                           DiskLogicalBlockSize = ucast (LogicalBlockSize (DeviceAttributes bd))\<rparr>
                  in Disk_CreateSinglePartition env d pe2))
      else
     (let bd' = bd\<lparr>UUID := uuid\<rparr>;
          pe3 = snd (addBlockDeviceToHierarchyCache bd' pe2)
      in (case GetBlockDevice env (Clientset pe3) uuid of
            Inl err \<Rightarrow>
              if IsNotFound err
              then (if DeviceType (DeviceAttributes bd') = BlockDeviceTypePartition
                    then (case BDHierarchy pe3 (Parent (DependentDevices bd')) of
                            None \<Rightarrow>
                              (Some (Errorf (''cannot get parent device for device: '' @ DevPath bd')),
                               pe3)
                          | Some parentBD \<Rightarrow>
                              (let pg = generateUUID env parentBD;
                                   parentUUID = fst pg; parentOK = snd pg
                               in if \<not> parentOK
                                  then createBlockDeviceResourceIfNoHolders env bd' bdAPIList pe3
                                  else (case GetBlockDevice env (Clientset pe3) parentUUID of
                                          Inl perr \<Rightarrow>
                                            if IsNotFound perr
                                            then createBlockDeviceResourceIfNoHolders env bd'
                                                   bdAPIList pe3
                                            else (Some perr, pe3)
                                        | Inr parentBDAPI \<Rightarrow>
                                            if ClaimState (Status parentBDAPI) \<noteq> BlockDeviceUnclaimed
                                            then (None, pe3)
                                            else (let pe4 = Controller_DeactivateBlockDevice env
                                                              parentBDAPI pe3;
                                                      existingBlockDeviceResource =
                                                        GetExistingBlockDeviceResource bdAPIList (UUID bd');
                                                      annotations =
                                                        [internalUUIDSchemeAnnotation \<mapsto> gptUUIDScheme]
                                                  in createOrUpdateWithAnnotation env annotations bd'
                                                       existingBlockDeviceResource pe4))))
                    else if DeviceType (DeviceAttributes bd') \<noteq> BlockDeviceTypePartition
                            \<and> length (Partitions (DependentDevices bd')) > 0
                    then (None, pe3)
                    else createBlockDeviceResourceIfNoHolders env bd' bdAPIList pe3)
              else (Some err, pe3)
          | Inr bdAPI \<Rightarrow>
              if ClaimState (Status bdAPI) \<noteq> BlockDeviceUnclaimed
              then (let annotation = [internalUUIDSchemeAnnotation \<mapsto> gptUUIDScheme]
                    in createOrUpdateWithAnnotation env annotation bd' (Some bdAPI) pe3)
              else (let existingBlockDeviceResource =
                          GetExistingBlockDeviceResource bdAPIList (UUID bd');
                        annotations = [internalUUIDSchemeAnnotation \<mapsto> gptUUIDScheme]
                    in createOrUpdateWithAnnotation env annotations bd'
                         existingBlockDeviceResource pe3))))"

definition addBlockDevice ::
  "('s, 'd) Collaborators \<Rightarrow> BlockDevice \<Rightarrow> BlockDeviceAPI list \<Rightarrow> 's Controller
     \<Rightarrow> error option \<times> 's Controller" where
  "addBlockDevice env bd bdAPIList pe =
     (let h = handleUnmanagedDevices env bd bdAPIList pe
      in if snd (fst h) \<noteq> None then (snd (fst h), snd h)
      else if \<not> fst (fst h) then (None, snd h)
      else
     (let pe1 = snd h; p = isParentDeviceInUse bd pe1
      in if snd p \<noteq> None then (snd p, pe1)
      else if fst p then (None, pe1)
      else
     (let u = upgradeBD env bd bdAPIList pe1
      in if snd (fst u) \<noteq> None then (snd (fst u), snd u)
      else if \<not> fst (fst u) then (None, snd u)
      else addBlockDevice_generic env bd bdAPIList (snd u))))"

text \<open>
  An event reaches the generic reconciliation when the three checks at the head of
  \<^verbatim>\<open>addBlockDevice\<close> all hand over: the device is not an unmanaged one, its parent is
  not in use, and the upgrade asks for further processing.
\<close>

definition reachesGeneric ::
  "('s, 'd) Collaborators \<Rightarrow> BlockDevice \<Rightarrow> BlockDeviceAPI list \<Rightarrow> 's Controller \<Rightarrow> bool" where
  "reachesGeneric env bd bdAPIList pe =
     (fst (handleUnmanagedDevices env bd bdAPIList pe) = (True, None)
      \<and> isParentDeviceInUse bd pe = (False, None)
      \<and> fst (upgradeBD env bd bdAPIList pe) = (True, None))"

text \<open>The calls issued between two states of the controller.\<close>

definition issued :: "'s Controller \<Rightarrow> 's Controller \<Rightarrow> StoreCall list" where
  "issued pe pe' = drop (length (calls pe)) (calls pe')"

text \<open>The resource that a create or update call writes, if the call is one.\<close>

fun written :: "StoreCall \<Rightarrow> BlockDeviceAPI option" where
  "written (CreateCall bdAPI) = Some bdAPI"
| "written (UpdateCall bdAPI existingBD) = Some bdAPI"
| "written (DeactivateCall bdAPI) = None"
| "written (PartitionCall d) = None"

subsection \<open>The resource store of the spec\<close>

text \<open>
  Modelled from the spec: the store client (\<^verbatim>\<open>Controller.GetBlockDevice\<close>,
  \<^verbatim>\<open>CreateBlockDevice\<close>, \<^verbatim>\<open>UpdateBlockDevice\<close>, \<^verbatim>\<open>DeactivateBlockDevice\<close>) is not in
  the source file. The spec keys resource records by identifier, with at most one
  record per identifier, and gives the contract
  \<open>Get(identifier) -> (resource, NotFoundError | OtherError)\<close>,
  \<open>Create(resource) -> error\<close>,
  \<open>Update(newResource, existingResource) -> error\<close> (existing record required; the
  update is in place and does not alter the claim state) and
  \<open>Deactivate(resource)\<close> (marks a resource inactive without deleting it).
  The store is a map from identifiers to records and every call answers at once.
\<close>

type_synonym Store = "string \<rightharpoonup> BlockDeviceAPI"

definition Store_Get :: "Store \<Rightarrow> string \<Rightarrow> error + BlockDeviceAPI" where
  "Store_Get s identifier =
     (case s identifier of None \<Rightarrow> Inl NotFoundError | Some resource \<Rightarrow> Inr resource)"

definition Store_Create :: "Store \<Rightarrow> BlockDeviceAPI \<Rightarrow> error option \<times> Store" where
  "Store_Create s resource =
     (case s (Name resource) of
        Some current \<Rightarrow> (Some (OtherError ''already exists''), s)
      | None \<Rightarrow> (None, s(Name resource \<mapsto> resource)))"

definition Store_Update :: "Store \<Rightarrow> BlockDeviceAPI \<Rightarrow> BlockDeviceAPI \<Rightarrow> error option \<times> Store" where
  "Store_Update s newResource existingResource =
     (case s (Name existingResource) of
        None \<Rightarrow> (Some NotFoundError, s)
      | Some current \<Rightarrow>
          (None, s(Name existingResource \<mapsto>
                     newResource\<lparr>Name := Name existingResource,
                                 Status := (Status newResource)
                                   \<lparr>ClaimState := ClaimState (Status current)\<rparr>\<rparr>)))"

definition Store_Deactivate :: "Store \<Rightarrow> BlockDeviceAPI \<Rightarrow> Store" where
  "Store_Deactivate s resource =
     (case s (Name resource) of
        None \<Rightarrow> s
      | Some current \<Rightarrow>
          s(Name resource \<mapsto> current\<lparr>Status := (Status current)\<lparr>Active := False\<rparr>\<rparr>))"

text \<open>
  Modelled from the spec: a resource \<open>r\<close> recorded under the identifier \<open>k\<close> is kept by a
  later store when that store still has a record under \<open>k\<close>, named \<open>k\<close>, with the claim
  state of \<open>r\<close>, and active if \<open>r\<close> was (the spec's claim stickiness, read on the store).
\<close>

definition claimKept :: "string \<Rightarrow> BlockDeviceAPI \<Rightarrow> Store \<Rightarrow> bool" where
  "claimKept k r s =
     (case s k of
        None \<Rightarrow> False
      | Some r' \<Rightarrow> Name r' = k \<and> ClaimState (Status r') = ClaimState (Status r)
                   \<and> (Active (Status r) \<longrightarrow> Active (Status r')))"

text \<open>
  Modelled from the spec: the conversion of a device into a resource
  (\<^verbatim>\<open>NewDeviceInfoFromBlockDevice\<close>, \<^verbatim>\<open>ToDevice\<close>) is not in the source file. The spec
  names a resource by the device's identifier; a new resource is unclaimed and active
  and carries no annotation yet.
\<close>

definition Spec_ToDevice :: "BlockDevice \<Rightarrow> BlockDeviceAPI" where
  "Spec_ToDevice bd =
     \<lparr>Name = UUID bd, Labels = Map.empty, Annotations = Map.empty,
      Status = \<lparr>ClaimState = BlockDeviceUnclaimed, Active = True\<rparr>\<rparr>"

definition Spec_EngineName :: "StorageEngine \<Rightarrow> string" where
  "Spec_EngineName e =
     (case e of NoEngine \<Rightarrow> [] | Mayastor \<Rightarrow> ''mayastor'' | ZFSLocalPV \<Rightarrow> ''zfs-localpv''
      | CStor \<Rightarrow> ''cstor'' | LocalPV \<Rightarrow> ''localpv'')"

text \<open>
  The handler over the store of the spec. The identifier derivations and the
  partitioning collaborator stay parameters.
\<close>

definition specEnv ::
  "(BlockDevice \<Rightarrow> string \<times> bool) \<Rightarrow> (BlockDevice \<Rightarrow> string \<times> bool)
     \<Rightarrow> (BlockDevice \<Rightarrow> string \<times> bool) \<Rightarrow> (Disk \<Rightarrow> error option)
     \<Rightarrow> (Store, BlockDevice) Collaborators" where
  "specEnv primary legacy fromPartitionTable partitioner =
     \<lparr>generateUUID = primary,
      generateLegacyUUID = legacy,
      generateUUIDFromPartitionTable = fromPartitionTable,
      NewDeviceInfoFromBlockDevice = (\<lambda>bd. bd),
      ToDevice = Spec_ToDevice,
      GetBlockDevice = Store_Get,
      CreateBlockDevice = Store_Create,
      UpdateBlockDevice = Store_Update,
      DeactivateBlockDevice = Store_Deactivate,
      CreateSinglePartition = partitioner,
      BlockDeviceTagLabel = ''block-device-tag'',
      EngineName = Spec_EngineName\<rparr>"

subsection \<open>Example devices\<close>

text \<open>
  Devices and derivations for the examples: a device has a primary identifier unless
  its path is \<open>vda\<close> (a virtual disk), and every device has a legacy identifier.
\<close>

definition exampleDevice ::
  "string \<Rightarrow> BlockDeviceType \<Rightarrow> string \<Rightarrow> string list \<Rightarrow> string list \<Rightarrow> bool
     \<Rightarrow> StorageEngine \<Rightarrow> BlockDevice" where
  "exampleDevice path ty parent partitions holders inUse usedBy =
     \<lparr>DevPath = path, UUID = [],
      Capacity = \<lparr>Storage = 1024\<rparr>,
      DeviceAttributes = \<lparr>DeviceType = ty, LogicalBlockSize = 512\<rparr>,
      DependentDevices = \<lparr>Parent = parent, Partitions = partitions, Holders = holders\<rparr>,
      DevUse = \<lparr>InUse = inUse, UsedBy = usedBy\<rparr>,
      FSInfo = \<lparr>FileSystemUUID = ''fs1''\<rparr>,
      PartitionInfo = \<lparr>PartitionTableUUID = ''pt1''\<rparr>\<rparr>"

definition exampleResource :: "string \<Rightarrow> DeviceClaimState \<Rightarrow> BlockDeviceAPI" where
  "exampleResource name claim =
     \<lparr>Name = name, Labels = Map.empty, Annotations = Map.empty,
      Status = \<lparr>ClaimState = claim, Active = True\<rparr>\<rparr>"

definition examplePrimary :: "BlockDevice \<Rightarrow> string \<times> bool" where
  "examplePrimary bd = (if DevPath bd = ''vda'' then ([], False) else (''id-'' @ DevPath bd, True))"

definition exampleLegacy :: "BlockDevice \<Rightarrow> string \<times> bool" where
  "exampleLegacy bd = (''old-'' @ DevPath bd, DevPath bd = ''vda'')"

definition exampleEnv :: "(Store, BlockDevice) Collaborators" where
  "exampleEnv = specEnv examplePrimary exampleLegacy (\<lambda>bd. (''zfs-'' @ DevPath bd, True))
                  (\<lambda>d. None)"

definition exampleController :: "(string \<rightharpoonup> BlockDevice) \<Rightarrow> Store \<Rightarrow> Store Controller" where
  "exampleController cache store = \<lparr>BDHierarchy = cache, Clientset = store, calls = []\<rparr>"

section \<open>Properties\<close>

subsection \<open>What each part of the handler returns and leaves behind\<close>

lemma issued_append: "calls pe' = calls pe @ cs \<Longrightarrow> issued pe pe' = cs"
  by (simp add: issued_def)

lemma issued_same: "issued pe pe = []"
  by (simp add: issued_def)

lemma deviceInUseByMayastor_eq:
  "deviceInUseByMayastor env bd bdAPIList pe =
     ((\<not> (InUse (DevUse bd) \<and> UsedBy (DevUse bd) = Mayastor), None), pe)"
  by (simp add: deviceInUseByMayastor_def)

lemma deviceInUseByZFSLocalPV_frame:
  "fst (fst (deviceInUseByZFSLocalPV env bd bdAPIList pe)) \<longrightarrow>
     deviceInUseByZFSLocalPV env bd bdAPIList pe = ((True, None), pe)"
  by (simp add: deviceInUseByZFSLocalPV_def Let_def split: option.split)

lemma handleUnmanagedDevices_eq:
  "handleUnmanagedDevices env bd bdAPIList pe =
     (if InUse (DevUse bd) \<and> UsedBy (DevUse bd) = Mayastor then ((False, None), pe)
      else if fst (fst (deviceInUseByZFSLocalPV env bd bdAPIList pe)) then ((True, None), pe)
      else ((False, snd (fst (deviceInUseByZFSLocalPV env bd bdAPIList pe))),
            snd (deviceInUseByZFSLocalPV env bd bdAPIList pe)))"
proof -
  let ?z = "deviceInUseByZFSLocalPV env bd bdAPIList pe"
  have z: "fst (fst ?z) \<longrightarrow> ?z = ((True, None), pe)"
    by (rule deviceInUseByZFSLocalPV_frame)
  obtain ok err pe' where ze: "?z = ((ok, err), pe')"
    by (metis prod.collapse)
  show ?thesis
    using z
    by (cases ok; cases err)
       (simp_all add: handleUnmanagedDevices_def deviceInUseByMayastor_eq Let_def ze)
qed

lemma handleUnmanagedDevices_continue:
  "fst (fst (handleUnmanagedDevices env bd bdAPIList pe))
   \<Longrightarrow> handleUnmanagedDevices env bd bdAPIList pe = ((True, None), pe)"
  by (simp add: handleUnmanagedDevices_eq split: if_splits)

lemma createOrUpdateWithAnnotation_eq:
  "createOrUpdateWithAnnotation env annotation bd existingBD pe =
     (let bdAPI = (ToDevice env (NewDeviceInfoFromBlockDevice env bd))\<lparr>Annotations := annotation\<rparr>
      in case existingBD of
        Some existing \<Rightarrow>
          (fst (UpdateBlockDevice env (Clientset pe) bdAPI existing),
           pe\<lparr>Clientset := snd (UpdateBlockDevice env (Clientset pe) bdAPI existing),
              calls := calls pe @ [UpdateCall bdAPI existing]\<rparr>)
      | None \<Rightarrow>
          (fst (CreateBlockDevice env (Clientset pe) bdAPI),
           pe\<lparr>Clientset := snd (CreateBlockDevice env (Clientset pe) bdAPI),
              calls := calls pe @ [CreateCall bdAPI]\<rparr>))"
  by (simp add: createOrUpdateWithAnnotation_def Controller_UpdateBlockDevice_def
      Controller_CreateBlockDevice_def Let_def split: option.splits)

lemma upgradeDeviceInUseByCStor_frame:
  "fst (fst (upgradeDeviceInUseByCStor env bd bdAPIList pe)) \<longrightarrow>
     upgradeDeviceInUseByCStor env bd bdAPIList pe = ((True, None), pe)"
  by (simp add: upgradeDeviceInUseByCStor_def Let_def split: option.split)

lemma upgradeDeviceInUseByLocalPV_frame:
  "fst (fst (upgradeDeviceInUseByLocalPV env bd bdAPIList pe)) \<longrightarrow>
     upgradeDeviceInUseByLocalPV env bd bdAPIList pe = ((True, None), pe)"
  by (simp add: upgradeDeviceInUseByLocalPV_def Let_def split: option.split)

lemma upgradeBD_continue:
  "fst (fst (upgradeBD env bd bdAPIList pe))
   \<Longrightarrow> upgradeBD env bd bdAPIList pe = ((True, None), pe)"
  using upgradeDeviceInUseByCStor_frame [of env bd bdAPIList pe]
    upgradeDeviceInUseByLocalPV_frame [of env bd bdAPIList pe]
  by (simp add: upgradeBD_def Let_def split: if_splits)

lemma addBlockDevice_eq:
  "addBlockDevice env bd bdAPIList pe =
     (if \<not> fst (fst (handleUnmanagedDevices env bd bdAPIList pe))
      then (snd (fst (handleUnmanagedDevices env bd bdAPIList pe)),
            snd (handleUnmanagedDevices env bd bdAPIList pe))
      else if snd (isParentDeviceInUse bd pe) \<noteq> None then (snd (isParentDeviceInUse bd pe), pe)
      else if fst (isParentDeviceInUse bd pe) then (None, pe)
      else if \<not> fst (fst (upgradeBD env bd bdAPIList pe))
      then (snd (fst (upgradeBD env bd bdAPIList pe)), snd (upgradeBD env bd bdAPIList pe))
      else addBlockDevice_generic env bd bdAPIList pe)"
proof (cases "fst (fst (handleUnmanagedDevices env bd bdAPIList pe))")
  case False
  then show ?thesis
    by (cases "snd (fst (handleUnmanagedDevices env bd bdAPIList pe))")
       (simp_all add: addBlockDevice_def Let_def)
next
  case True
  note h = handleUnmanagedDevices_continue [OF True]
  show ?thesis
  proof (cases "fst (fst (upgradeBD env bd bdAPIList pe))")
    case True
    note u = upgradeBD_continue [OF True]
    show ?thesis by (simp add: addBlockDevice_def Let_def h u)
  next
    case False
    then show ?thesis
      by (cases "snd (fst (upgradeBD env bd bdAPIList pe))")
         (simp_all add: addBlockDevice_def Let_def h)
  qed
qed

lemma reachesGeneric_eq:
  "reachesGeneric env bd bdAPIList pe \<Longrightarrow>
     addBlockDevice env bd bdAPIList pe = addBlockDevice_generic env bd bdAPIList pe"
  by (simp add: reachesGeneric_def addBlockDevice_eq)

lemma reachesGeneric_iff:
  "reachesGeneric env bd bdAPIList pe \<longleftrightarrow>
     fst (fst (handleUnmanagedDevices env bd bdAPIList pe))
     \<and> isParentDeviceInUse bd pe = (False, None)
     \<and> fst (fst (upgradeBD env bd bdAPIList pe))"
  using handleUnmanagedDevices_continue [of env bd bdAPIList pe]
    upgradeBD_continue [of env bd bdAPIList pe]
  by (auto simp: reachesGeneric_def)

lemma snd_handleUnmanagedDevices:
  "snd (handleUnmanagedDevices env bd bdAPIList pe) =
     (if InUse (DevUse bd) \<and> UsedBy (DevUse bd) = Mayastor then pe
      else snd (deviceInUseByZFSLocalPV env bd bdAPIList pe))"
  using deviceInUseByZFSLocalPV_frame [of env bd bdAPIList pe]
  by (simp add: handleUnmanagedDevices_eq)

lemma snd_upgradeBD:
  "snd (upgradeBD env bd bdAPIList pe) =
     (if \<not> InUse (DevUse bd) then pe
      else if UsedBy (DevUse bd) = LocalPV
      then snd (upgradeDeviceInUseByLocalPV env bd bdAPIList pe)
      else if UsedBy (DevUse bd) = CStor
      then snd (upgradeDeviceInUseByCStor env bd bdAPIList pe)
      else pe)"
  by (simp add: upgradeBD_def Let_def)

lemma deviceInUseByZFSLocalPV_silent:
  "\<not> (InUse (DevUse bd) \<and> UsedBy (DevUse bd) = ZFSLocalPV)
   \<Longrightarrow> snd (deviceInUseByZFSLocalPV env bd bdAPIList pe) = pe"
  by (auto simp: deviceInUseByZFSLocalPV_def)

lemma handleUnmanagedDevices_silent:
  "\<not> (InUse (DevUse bd) \<and> UsedBy (DevUse bd) = ZFSLocalPV)
   \<Longrightarrow> snd (handleUnmanagedDevices env bd bdAPIList pe) = pe"
  by (simp add: handleUnmanagedDevices_eq deviceInUseByZFSLocalPV_silent)

lemma upgradeBD_silent:
  "\<not> (InUse (DevUse bd) \<and> (UsedBy (DevUse bd) = LocalPV \<or> UsedBy (DevUse bd) = CStor))
   \<Longrightarrow> upgradeBD env bd bdAPIList pe = ((True, None), pe)"
  by (auto simp: upgradeBD_def)

subsection \<open>The hierarchy cache\<close>

lemma cache_createOrUpdateWithAnnotation:
  "BDHierarchy (snd (createOrUpdateWithAnnotation env annotation bd existingBD pe)) = BDHierarchy pe"
  by (simp add: createOrUpdateWithAnnotation_eq Let_def split: option.split)

lemma cache_createBlockDeviceResourceIfNoHolders:
  "BDHierarchy (snd (createBlockDeviceResourceIfNoHolders env bd bdAPIList pe)) = BDHierarchy pe"
  by (simp add: createBlockDeviceResourceIfNoHolders_def cache_createOrUpdateWithAnnotation Let_def)

lemma cache_deviceInUseByZFSLocalPV:
  "BDHierarchy (snd (deviceInUseByZFSLocalPV env bd bdAPIList pe)) = BDHierarchy pe"
  by (simp add: deviceInUseByZFSLocalPV_def Controller_CreateBlockDevice_def Let_def
      split: option.split)

lemma cache_handleUnmanagedDevices:
  "BDHierarchy (snd (handleUnmanagedDevices env bd bdAPIList pe)) = BDHierarchy pe"
  by (simp add: handleUnmanagedDevices_eq cache_deviceInUseByZFSLocalPV)

lemma cache_upgradeDeviceInUseByCStor:
  "BDHierarchy (snd (upgradeDeviceInUseByCStor env bd bdAPIList pe)) = BDHierarchy pe"
  by (simp add: upgradeDeviceInUseByCStor_def createOrUpdateWithPartitionUUID_def
      cache_createOrUpdateWithAnnotation Let_def split: option.split)

lemma cache_upgradeDeviceInUseByLocalPV:
  "BDHierarchy (snd (upgradeDeviceInUseByLocalPV env bd bdAPIList pe)) = BDHierarchy pe"
  by (simp add: upgradeDeviceInUseByLocalPV_def createOrUpdateWithFSUUID_def
      cache_createOrUpdateWithAnnotation Let_def split: option.split)

lemma cache_upgradeBD:
  "BDHierarchy (snd (upgradeBD env bd bdAPIList pe)) = BDHierarchy pe"
  by (simp add: upgradeBD_def cache_upgradeDeviceInUseByCStor cache_upgradeDeviceInUseByLocalPV
      Let_def)

lemma cache_addBlockDevice_generic:
  "BDHierarchy (snd (addBlockDevice_generic env bd bdAPIList pe)) =
     (if snd (generateUUID env bd)
      then (BDHierarchy pe)(DevPath bd \<mapsto> bd\<lparr>UUID := fst (generateUUID env bd)\<rparr>)
      else BDHierarchy pe)"
  by (simp add: addBlockDevice_generic_def addBlockDeviceToHierarchyCache_def
      Disk_CreateSinglePartition_def Controller_DeactivateBlockDevice_def
      cache_createOrUpdateWithAnnotation cache_createBlockDeviceResourceIfNoHolders Let_def
      split: sum.split option.split)

subsection \<open>The example environment\<close>

lemma specEnv_simps:
  "generateUUID (specEnv a b c d) = a"
  "generateLegacyUUID (specEnv a b c d) = b"
  "generateUUIDFromPartitionTable (specEnv a b c d) = c"
  "NewDeviceInfoFromBlockDevice (specEnv a b c d) = (\<lambda>bd. bd)"
  "ToDevice (specEnv a b c d) = Spec_ToDevice"
  "GetBlockDevice (specEnv a b c d) = Store_Get"
  "CreateBlockDevice (specEnv a b c d) = Store_Create"
  "UpdateBlockDevice (specEnv a b c d) = Store_Update"
  "DeactivateBlockDevice (specEnv a b c d) = Store_Deactivate"
  "CreateSinglePartition (specEnv a b c d) = d"
  "BlockDeviceTagLabel (specEnv a b c d) = ''block-device-tag''"
  "EngineName (specEnv a b c d) = Spec_EngineName"
  by (simp_all add: specEnv_def)

lemma exampleEnv_simps:
  "generateUUID exampleEnv = examplePrimary"
  "generateLegacyUUID exampleEnv = exampleLegacy"
  "generateUUIDFromPartitionTable exampleEnv = (\<lambda>bd. (''zfs-'' @ DevPath bd, True))"
  "NewDeviceInfoFromBlockDevice exampleEnv = (\<lambda>bd. bd)"
  "ToDevice exampleEnv = Spec_ToDevice"
  "GetBlockDevice exampleEnv = Store_Get"
  "CreateBlockDevice exampleEnv = Store_Create"
  "UpdateBlockDevice exampleEnv = Store_Update"
  "DeactivateBlockDevice exampleEnv = Store_Deactivate"
  "CreateSinglePartition exampleEnv = (\<lambda>d. None)"
  "BlockDeviceTagLabel exampleEnv = ''block-device-tag''"
  "EngineName exampleEnv = Spec_EngineName"
  by (simp_all add: exampleEnv_def specEnv_simps)

subsection \<open>The calls of each part\<close>

lemma issued_createOrUpdateWithAnnotation:
  "issued pe (snd (createOrUpdateWithAnnotation env annotation bd existingBD pe)) =
     [case existingBD of
        Some existing \<Rightarrow>
          UpdateCall ((ToDevice env (NewDeviceInfoFromBlockDevice env bd))\<lparr>Annotations := annotation\<rparr>)
            existing
      | None \<Rightarrow>
          CreateCall ((ToDevice env (NewDeviceInfoFromBlockDevice env bd))\<lparr>Annotations := annotation\<rparr>)]"
  by (simp add: createOrUpdateWithAnnotation_eq issued_def Let_def split: option.split)

lemma calls_createOrUpdateWithAnnotation:
  "calls (snd (createOrUpdateWithAnnotation env annotation bd existingBD pe)) =
     calls pe @
     [case existingBD of
        Some existing \<Rightarrow>
          UpdateCall ((ToDevice env (NewDeviceInfoFromBlockDevice env bd))\<lparr>Annotations := annotation\<rparr>)
            existing
      | None \<Rightarrow>
          CreateCall ((ToDevice env (NewDeviceInfoFromBlockDevice env bd))\<lparr>Annotations := annotation\<rparr>)]"
  by (simp add: createOrUpdateWithAnnotation_eq Let_def split: option.split)

lemma calls_createBlockDeviceResourceIfNoHolders:
  "calls (snd (createBlockDeviceResourceIfNoHolders env bd bdAPIList pe)) =
     calls pe @
     (if Holders (DependentDevices bd) \<noteq> [] then []
      else [case GetExistingBlockDeviceResource bdAPIList (UUID bd) of
              Some existing \<Rightarrow>
                UpdateCall ((ToDevice env (NewDeviceInfoFromBlockDevice env bd))
                              \<lparr>Annotations := [internalUUIDSchemeAnnotation \<mapsto> gptUUIDScheme]\<rparr>)
                  existing
            | None \<Rightarrow>
                CreateCall ((ToDevice env (NewDeviceInfoFromBlockDevice env bd))
                              \<lparr>Annotations := [internalUUIDSchemeAnnotation \<mapsto> gptUUIDScheme]\<rparr>)])"
  by (simp add: createBlockDeviceResourceIfNoHolders_def calls_createOrUpdateWithAnnotation Let_def)

lemma calls_deviceInUseByZFSLocalPV:
  "calls (snd (deviceInUseByZFSLocalPV env bd bdAPIList pe)) = calls pe
   \<or> calls (snd (deviceInUseByZFSLocalPV env bd bdAPIList pe)) =
       calls pe @
       [CreateCall
          ((ToDevice env (NewDeviceInfoFromBlockDevice env
                            (bd\<lparr>UUID := fst (generateUUIDFromPartitionTable env bd)\<rparr>)))
             \<lparr>Labels := (Labels (ToDevice env (NewDeviceInfoFromBlockDevice env
                            (bd\<lparr>UUID := fst (generateUUIDFromPartitionTable env bd)\<rparr>))))
                  (BlockDeviceTagLabel env \<mapsto> EngineName env ZFSLocalPV)\<rparr>)]"
  by (simp add: deviceInUseByZFSLocalPV_def Controller_CreateBlockDevice_def Let_def
      split: option.split)

lemma calls_handleUnmanagedDevices:
  "calls (snd (handleUnmanagedDevices env bd bdAPIList pe)) = calls pe
   \<or> calls (snd (handleUnmanagedDevices env bd bdAPIList pe)) =
       calls pe @
       [CreateCall
          ((ToDevice env (NewDeviceInfoFromBlockDevice env
                            (bd\<lparr>UUID := fst (generateUUIDFromPartitionTable env bd)\<rparr>)))
             \<lparr>Labels := (Labels (ToDevice env (NewDeviceInfoFromBlockDevice env
                            (bd\<lparr>UUID := fst (generateUUIDFromPartitionTable env bd)\<rparr>))))
                  (BlockDeviceTagLabel env \<mapsto> EngineName env ZFSLocalPV)\<rparr>)]"
  using calls_deviceInUseByZFSLocalPV [of env bd bdAPIList pe]
  by (simp add: handleUnmanagedDevices_eq)

lemma calls_upgradeDeviceInUseByCStor:
  "calls (snd (upgradeDeviceInUseByCStor env bd bdAPIList pe)) = calls pe
   \<or> (\<exists>c w. calls (snd (upgradeDeviceInUseByCStor env bd bdAPIList pe)) = calls pe @ [c]
          \<and> written c = Some w
          \<and> Annotations w = [internalUUIDSchemeAnnotation \<mapsto> legacyUUIDScheme,
                internalPartitionUUIDAnnotation \<mapsto> PartitionTableUUID (PartitionInfo bd)])"
  by (simp add: upgradeDeviceInUseByCStor_def createOrUpdateWithPartitionUUID_def
      calls_createOrUpdateWithAnnotation Let_def split: option.split)

lemma calls_upgradeDeviceInUseByLocalPV:
  "calls (snd (upgradeDeviceInUseByLocalPV env bd bdAPIList pe)) = calls pe
   \<or> (\<exists>c w. calls (snd (upgradeDeviceInUseByLocalPV env bd bdAPIList pe)) = calls pe @ [c]
          \<and> written c = Some w
          \<and> Annotations w = [internalUUIDSchemeAnnotation \<mapsto> legacyUUIDScheme,
                internalFSUUIDAnnotation \<mapsto> FileSystemUUID (FSInfo bd)])"
  by (simp add: upgradeDeviceInUseByLocalPV_def createOrUpdateWithFSUUID_def
      calls_createOrUpdateWithAnnotation Let_def split: option.split)

lemma calls_upgradeBD:
  "calls (snd (upgradeBD env bd bdAPIList pe)) = calls pe
   \<or> (\<exists>c w. calls (snd (upgradeBD env bd bdAPIList pe)) = calls pe @ [c]
          \<and> written c = Some w
          \<and> (Annotations w = [internalUUIDSchemeAnnotation \<mapsto> legacyUUIDScheme,
                internalFSUUIDAnnotation \<mapsto> FileSystemUUID (FSInfo bd)]
             \<or> Annotations w = [internalUUIDSchemeAnnotation \<mapsto> legacyUUIDScheme,
                internalPartitionUUIDAnnotation \<mapsto> PartitionTableUUID (PartitionInfo bd)]))"
  using calls_upgradeDeviceInUseByCStor [of env bd bdAPIList pe]
    calls_upgradeDeviceInUseByLocalPV [of env bd bdAPIList pe]
  by (auto simp: upgradeBD_def Let_def)

text \<open>
  The calls of the generic reconciliation, path by path, as a function of what the
  handler reads.
\<close>

lemma calls_addBlockDevice_generic_eq:
  "calls (snd (addBlockDevice_generic env bd bdAPIList pe)) = calls pe @
     (let uuid = fst (generateUUID env bd);
          cache = (BDHierarchy pe)(DevPath bd \<mapsto> bd\<lparr>UUID := uuid\<rparr>);
          bdAPI = (ToDevice env (NewDeviceInfoFromBlockDevice env (bd\<lparr>UUID := uuid\<rparr>)))
                    \<lparr>Annotations := [internalUUIDSchemeAnnotation \<mapsto> gptUUIDScheme]\<rparr>;
          write = (case GetExistingBlockDeviceResource bdAPIList uuid of
                     Some existing \<Rightarrow> UpdateCall bdAPI existing
                   | None \<Rightarrow> CreateCall bdAPI);
          guarded = (if Holders (DependentDevices bd) \<noteq> [] then [] else [write])
      in if \<not> snd (generateUUID env bd)
         then (if Partitions (DependentDevices bd) \<noteq> [] \<or> Holders (DependentDevices bd) \<noteq> []
               then []
               else [PartitionCall \<lparr>DiskDevPath = DevPath bd, DiskSize = Storage (Capacity bd),
                       DiskLogicalBlockSize = ucast (LogicalBlockSize (DeviceAttributes bd))\<rparr>])
         else (case GetBlockDevice env (Clientset pe) uuid of
                 Inr found \<Rightarrow>
                   if ClaimState (Status found) \<noteq> BlockDeviceUnclaimed
                   then [UpdateCall bdAPI found] else [write]
               | Inl err \<Rightarrow>
                   if \<not> IsNotFound err then []
                   else if DeviceType (DeviceAttributes bd) = BlockDeviceTypePartition
                   then (case cache (Parent (DependentDevices bd)) of
                           None \<Rightarrow> []
                         | Some parentBD \<Rightarrow>
                             if \<not> snd (generateUUID env parentBD) then guarded
                             else (case GetBlockDevice env (Clientset pe)
                                          (fst (generateUUID env parentBD)) of
                                     Inl perr \<Rightarrow> if IsNotFound perr then guarded else []
                                   | Inr parentBDAPI \<Rightarrow>
                                       if ClaimState (Status parentBDAPI) \<noteq> BlockDeviceUnclaimed
                                       then []
                                       else [DeactivateCall parentBDAPI, write]))
                   else if Partitions (DependentDevices bd) \<noteq> [] then []
                   else guarded))"
  by (simp add: addBlockDevice_generic_def addBlockDeviceToHierarchyCache_def
      Disk_CreateSinglePartition_def Controller_DeactivateBlockDevice_def
      calls_createOrUpdateWithAnnotation calls_createBlockDeviceResourceIfNoHolders Let_def
      split: sum.split option.split)

subsection \<open>The handler over the store of the spec\<close>

lemma Store_Get_eq:
  "Store_Get s identifier = Inl err \<longleftrightarrow> s identifier = None \<and> err = NotFoundError"
  "Store_Get s identifier = Inr r \<longleftrightarrow> s identifier = Some r"
  by (auto simp: Store_Get_def split: option.splits)

lemma store_createOrUpdateWithAnnotation:
  "Clientset (snd (createOrUpdateWithAnnotation (specEnv a b c d) annotation bd existingBD pe)) =
     (case existingBD of
        Some existing \<Rightarrow>
          snd (Store_Update (Clientset pe) ((Spec_ToDevice bd)\<lparr>Annotations := annotation\<rparr>) existing)
      | None \<Rightarrow> snd (Store_Create (Clientset pe) ((Spec_ToDevice bd)\<lparr>Annotations := annotation\<rparr>)))"
  by (simp add: createOrUpdateWithAnnotation_eq specEnv_simps Let_def split: option.split)

lemma store_createBlockDeviceResourceIfNoHolders:
  "Clientset (snd (createBlockDeviceResourceIfNoHolders (specEnv a b c d) bd bdAPIList pe)) =
     (if Holders (DependentDevices bd) \<noteq> [] then Clientset pe
      else (case GetExistingBlockDeviceResource bdAPIList (UUID bd) of
              Some existing \<Rightarrow>
                snd (Store_Update (Clientset pe)
                       ((Spec_ToDevice bd)\<lparr>Annotations := [internalUUIDSchemeAnnotation \<mapsto> gptUUIDScheme]\<rparr>)
                       existing)
            | None \<Rightarrow>
                snd (Store_Create (Clientset pe)
                       ((Spec_ToDevice bd)\<lparr>Annotations := [internalUUIDSchemeAnnotation \<mapsto> gptUUIDScheme]\<rparr>))))"
  by (simp add: createBlockDeviceResourceIfNoHolders_def store_createOrUpdateWithAnnotation Let_def)

lemma store_addBlockDevice_generic:
  "Clientset (snd (addBlockDevice_generic (specEnv p lg z part) bd bdAPIList pe)) =
     (let s = Clientset pe;
          uuid = fst (p bd);
          cache = (BDHierarchy pe)(DevPath bd \<mapsto> bd\<lparr>UUID := uuid\<rparr>);
          bdAPI = (Spec_ToDevice (bd\<lparr>UUID := uuid\<rparr>))
                    \<lparr>Annotations := [internalUUIDSchemeAnnotation \<mapsto> gptUUIDScheme]\<rparr>;
          write = (\<lambda>s'. case GetExistingBlockDeviceResource bdAPIList uuid of
                           Some existing \<Rightarrow> snd (Store_Update s' bdAPI existing)
                         | None \<Rightarrow> snd (Store_Create s' bdAPI));
          guarded = (if Holders (DependentDevices bd) \<noteq> [] then s else write s)
      in if \<not> snd (p bd) then s
         else (case s uuid of
                 Some found \<Rightarrow>
                   if ClaimState (Status found) \<noteq> BlockDeviceUnclaimed
                   then snd (Store_Update s bdAPI found) else write s
               | None \<Rightarrow>
                   if DeviceType (DeviceAttributes bd) = BlockDeviceTypePartition
                   then (case cache (Parent (DependentDevices bd)) of
                           None \<Rightarrow> s
                         | Some parentBD \<Rightarrow>
                             if \<not> snd (p parentBD) then guarded
                             else (case s (fst (p parentBD)) of
                                     None \<Rightarrow> guarded
                                   | Some parentBDAPI \<Rightarrow>
                                       if ClaimState (Status parentBDAPI) \<noteq> BlockDeviceUnclaimed
                                       then s
                                       else write (Store_Deactivate s parentBDAPI)))
                   else if Partitions (DependentDevices bd) \<noteq> [] then s
                   else guarded))"
  by (simp add: addBlockDevice_generic_def addBlockDeviceToHierarchyCache_def
      Disk_CreateSinglePartition_def Controller_DeactivateBlockDevice_def
      store_createOrUpdateWithAnnotation store_createBlockDeviceResourceIfNoHolders
      specEnv_simps Store_Get_def IsNotFound_def Let_def
      split: sum.split option.split)

subsection \<open>The upgrade path when the primary identifier has a resource\<close>

text \<open>
  Claim C8. In the upgrade of a device in use by LocalPV or by CStor, when the primary
  identifier resolves and the snapshot holds a resource under it: if the resource's
  claim state is not Unclaimed the function returns \<open>(true, nil)\<close>, and if it is
  Unclaimed the function returns the error "unreachable state"; in both cases the
  controller is returned as it was, so nothing is written to the store.
\<close>

theorem upgrade_primary_resource_exists:
  assumes "generateUUID env bd = (uuid, True)"
    and "GetExistingBlockDeviceResource bdAPIList uuid = Some existingBD"
  shows "upgradeDeviceInUseByLocalPV env bd bdAPIList pe =
           (if ClaimState (Status existingBD) \<noteq> BlockDeviceUnclaimed then ((True, None), pe)
            else ((False, Some (Errorf ''unreachable state'')), pe))
       \<and> upgradeDeviceInUseByCStor env bd bdAPIList pe =
           (if ClaimState (Status existingBD) \<noteq> BlockDeviceUnclaimed then ((True, None), pe)
            else ((False, Some (Errorf ''unreachable state'')), pe))"
  using assms by (simp add: upgradeDeviceInUseByLocalPV_def upgradeDeviceInUseByCStor_def)

theorem upgrade_primary_resource_exists_witness:
  "generateUUID exampleEnv (exampleDevice ''sda'' BlockDeviceTypeDisk [] [] [] True LocalPV)
     = (''id-sda'', True)
   \<and> GetExistingBlockDeviceResource [exampleResource ''id-sda'' BlockDeviceClaimed] ''id-sda''
     = Some (exampleResource ''id-sda'' BlockDeviceClaimed)
   \<and> upgradeDeviceInUseByLocalPV exampleEnv
       (exampleDevice ''sda'' BlockDeviceTypeDisk [] [] [] True LocalPV)
       [exampleResource ''id-sda'' BlockDeviceClaimed] (exampleController Map.empty Map.empty)
     = ((True, None), exampleController Map.empty Map.empty)
   \<and> upgradeDeviceInUseByCStor exampleEnv
       (exampleDevice ''sda'' BlockDeviceTypeDisk [] [] [] True LocalPV)
       [exampleResource ''id-sda'' BlockDeviceClaimed] (exampleController Map.empty Map.empty)
     = ((True, None), exampleController Map.empty Map.empty)
   \<and> GetExistingBlockDeviceResource [exampleResource ''id-sda'' BlockDeviceUnclaimed] ''id-sda''
     = Some (exampleResource ''id-sda'' BlockDeviceUnclaimed)
   \<and> upgradeDeviceInUseByLocalPV exampleEnv
       (exampleDevice ''sda'' BlockDeviceTypeDisk [] [] [] True LocalPV)
       [exampleResource ''id-sda'' BlockDeviceUnclaimed] (exampleController Map.empty Map.empty)
     = ((False, Some (Errorf ''unreachable state'')), exampleController Map.empty Map.empty)
   \<and> upgradeDeviceInUseByCStor exampleEnv
       (exampleDevice ''sda'' BlockDeviceTypeDisk [] [] [] True LocalPV)
       [exampleResource ''id-sda'' BlockDeviceUnclaimed] (exampleController Map.empty Map.empty)
     = ((False, Some (Errorf ''unreachable state'')), exampleController Map.empty Map.empty)"
proof -
  let ?bd = "exampleDevice ''sda'' BlockDeviceTypeDisk [] [] [] True LocalPV"
  let ?pe = "exampleController Map.empty Map.empty :: Store Controller"
  have g: "generateUUID exampleEnv ?bd = (''id-sda'', True)"
    by (simp add: exampleEnv_simps examplePrimary_def exampleDevice_def)
  have e: "GetExistingBlockDeviceResource [exampleResource ''id-sda'' BlockDeviceClaimed] ''id-sda''
             = Some (exampleResource ''id-sda'' BlockDeviceClaimed)"
    by (simp add: exampleResource_def)
  have e': "GetExistingBlockDeviceResource [exampleResource ''id-sda'' BlockDeviceUnclaimed] ''id-sda''
             = Some (exampleResource ''id-sda'' BlockDeviceUnclaimed)"
    by (simp add: exampleResource_def)
  have c: "ClaimState (Status (exampleResource ''id-sda'' BlockDeviceClaimed)) \<noteq> BlockDeviceUnclaimed"
    "ClaimState (Status (exampleResource ''id-sda'' BlockDeviceUnclaimed)) = BlockDeviceUnclaimed"
    by (simp_all add: exampleResource_def)
  show ?thesis
    using g e e' upgrade_primary_resource_exists [OF g e, of ?pe]
      upgrade_primary_resource_exists [OF g e', of ?pe]
    by (simp add: c)
qed

subsection \<open>A device without identifier, partitions and holders\<close>

text \<open>
  Claim C7. For an add event that reaches the generic reconciliation, whose primary
  identifier derivation fails and whose device has no partitions and no holders, the
  handler issues exactly one call, \<^verbatim>\<open>CreateSinglePartition\<close> on the device's path,
  capacity and logical block size, leaves the store and the cache as they were, and
  returns what the partitioning collaborator returned: its error on failure, \<open>nil\<close> on
  success. The claim speaks of a disk; the theorem holds for every device type.
\<close>

theorem single_partition_when_unidentified:
  assumes "reachesGeneric env bd bdAPIList pe"
    and "\<not> snd (generateUUID env bd)"
    and "Partitions (DependentDevices bd) = []"
    and "Holders (DependentDevices bd) = []"
  shows "fst (addBlockDevice env bd bdAPIList pe) =
           CreateSinglePartition env
             \<lparr>DiskDevPath = DevPath bd, DiskSize = Storage (Capacity bd),
              DiskLogicalBlockSize = ucast (LogicalBlockSize (DeviceAttributes bd))\<rparr>
       \<and> issued pe (snd (addBlockDevice env bd bdAPIList pe)) =
           [PartitionCall
             \<lparr>DiskDevPath = DevPath bd, DiskSize = Storage (Capacity bd),
              DiskLogicalBlockSize = ucast (LogicalBlockSize (DeviceAttributes bd))\<rparr>]
       \<and> Clientset (snd (addBlockDevice env bd bdAPIList pe)) = Clientset pe
       \<and> BDHierarchy (snd (addBlockDevice env bd bdAPIList pe)) = BDHierarchy pe"
  using assms
  by (simp add: reachesGeneric_eq addBlockDevice_generic_def Disk_CreateSinglePartition_def
      issued_def Let_def)

lemma example_vda_reachesGeneric:
  "reachesGeneric (specEnv examplePrimary exampleLegacy z p)
     (exampleDevice ''vda'' BlockDeviceTypeDisk [] [] [] False NoEngine) []
     (exampleController Map.empty Map.empty)"
  by (simp add: reachesGeneric_def handleUnmanagedDevices_eq deviceInUseByZFSLocalPV_def
      isParentDeviceInUse_def upgradeBD_def exampleDevice_def)

theorem single_partition_when_unidentified_witness:
  "reachesGeneric exampleEnv (exampleDevice ''vda'' BlockDeviceTypeDisk [] [] [] False NoEngine) []
     (exampleController Map.empty Map.empty)
   \<and> \<not> snd (generateUUID exampleEnv (exampleDevice ''vda'' BlockDeviceTypeDisk [] [] [] False NoEngine))
   \<and> fst (addBlockDevice exampleEnv
            (exampleDevice ''vda'' BlockDeviceTypeDisk [] [] [] False NoEngine) []
            (exampleController Map.empty Map.empty)) = None
   \<and> issued (exampleController Map.empty Map.empty)
       (snd (addBlockDevice exampleEnv
              (exampleDevice ''vda'' BlockDeviceTypeDisk [] [] [] False NoEngine) []
              (exampleController Map.empty Map.empty)))
     = [PartitionCall \<lparr>DiskDevPath = ''vda'', DiskSize = 1024, DiskLogicalBlockSize = 512\<rparr>]
   \<and> fst (addBlockDevice
            (specEnv examplePrimary exampleLegacy (\<lambda>bd. ([], False)) (\<lambda>d. Some (OtherError ''busy'')))
            (exampleDevice ''vda'' BlockDeviceTypeDisk [] [] [] False NoEngine) []
            (exampleController Map.empty Map.empty)) = Some (OtherError ''busy'')"
proof -
  let ?bd = "exampleDevice ''vda'' BlockDeviceTypeDisk [] [] [] False NoEngine"
  let ?pe = "exampleController Map.empty Map.empty :: Store Controller"
  let ?env2 = "specEnv examplePrimary exampleLegacy (\<lambda>bd. ([], False))
                 (\<lambda>d. Some (OtherError ''busy''))"
  have r: "reachesGeneric exampleEnv ?bd [] ?pe"
    unfolding exampleEnv_def by (rule example_vda_reachesGeneric)
  have r2: "reachesGeneric ?env2 ?bd [] ?pe"
    by (rule example_vda_reachesGeneric)
  have g: "\<not> snd (generateUUID exampleEnv ?bd)"
    by (simp add: exampleEnv_def specEnv_def examplePrimary_def exampleDevice_def)
  have g2: "\<not> snd (generateUUID ?env2 ?bd)"
    by (simp add: specEnv_def examplePrimary_def exampleDevice_def)
  have p: "Partitions (DependentDevices ?bd) = []" and h: "Holders (DependentDevices ?bd) = []"
    by (simp_all add: exampleDevice_def)
  show ?thesis
    using r g single_partition_when_unidentified [OF r g p h]
      single_partition_when_unidentified [OF r2 g2 p h]
    by (simp add: exampleEnv_def specEnv_def exampleDevice_def)
qed

subsection \<open>A partition whose parent is not in the cache\<close>

text \<open>
  Claim C5, as stated, fails: a partition that is in use by Mayastor is absorbed by the
  first check of the classifier, before the parent is looked up, and the handler
  returns \<open>nil\<close>.
\<close>

theorem mayastor_partition_without_parent_succeeds:
  "DeviceType (DeviceAttributes (exampleDevice ''sda1'' BlockDeviceTypePartition ''sda'' [] [] True Mayastor))
     = BlockDeviceTypePartition
   \<and> BDHierarchy (exampleController Map.empty Map.empty)
       (Parent (DependentDevices
          (exampleDevice ''sda1'' BlockDeviceTypePartition ''sda'' [] [] True Mayastor))) = None
   \<and> addBlockDevice exampleEnv
       (exampleDevice ''sda1'' BlockDeviceTypePartition ''sda'' [] [] True Mayastor) []
       (exampleController Map.empty Map.empty)
     = (None, exampleController Map.empty Map.empty)"
  by (simp add: addBlockDevice_eq handleUnmanagedDevices_eq exampleDevice_def
      exampleController_def)

text \<open>
  Claim C5, amended. For every add event whose device is a partition that is not in use
  by Mayastor and whose parent path is absent from the hierarchy cache, the handler
  returns the missing-parent error of the classifier and returns the controller as it
  was: no create, update or deactivate call is issued.
\<close>

theorem partition_without_parent_fails:
  assumes "DeviceType (DeviceAttributes bd) = BlockDeviceTypePartition"
    and "BDHierarchy pe (Parent (DependentDevices bd)) = None"
    and "\<not> (InUse (DevUse bd) \<and> UsedBy (DevUse bd) = Mayastor)"
  shows "addBlockDevice env bd bdAPIList pe =
           (Some (Errorf (''error in getting parent device for '' @ DevPath bd
                            @ '' from device hierarchy'')), pe)"
proof -
  have z: "deviceInUseByZFSLocalPV env bd bdAPIList pe =
             ((False, Some (Errorf (''error in getting parent device for '' @ DevPath bd
                            @ '' from device hierarchy''))), pe)"
    using assms(1,2) by (simp add: deviceInUseByZFSLocalPV_def)
  have h: "handleUnmanagedDevices env bd bdAPIList pe =
             ((False, Some (Errorf (''error in getting parent device for '' @ DevPath bd
                            @ '' from device hierarchy''))), pe)"
    using assms(3) by (auto simp: handleUnmanagedDevices_eq z)
  show ?thesis
    by (simp add: addBlockDevice_eq h)
qed

theorem partition_without_parent_fails_witness:
  "DeviceType (DeviceAttributes (exampleDevice ''sda1'' BlockDeviceTypePartition ''sda'' [] [] False NoEngine))
     = BlockDeviceTypePartition
   \<and> BDHierarchy (exampleController Map.empty Map.empty)
       (Parent (DependentDevices
          (exampleDevice ''sda1'' BlockDeviceTypePartition ''sda'' [] [] False NoEngine))) = None
   \<and> addBlockDevice exampleEnv
       (exampleDevice ''sda1'' BlockDeviceTypePartition ''sda'' [] [] False NoEngine) []
       (exampleController Map.empty Map.empty)
     = (Some (Errorf ''error in getting parent device for sda1 from device hierarchy''),
        exampleController Map.empty Map.empty)"
proof -
  let ?bd = "exampleDevice ''sda1'' BlockDeviceTypePartition ''sda'' [] [] False NoEngine"
  let ?pe = "exampleController Map.empty Map.empty :: Store Controller"
  have a: "DeviceType (DeviceAttributes ?bd) = BlockDeviceTypePartition"
    by (simp add: exampleDevice_def)
  have b: "BDHierarchy ?pe (Parent (DependentDevices ?bd)) = None"
    by (simp add: exampleController_def)
  have c: "\<not> (InUse (DevUse ?bd) \<and> UsedBy (DevUse ?bd) = Mayastor)"
    by (simp add: exampleDevice_def)
  show ?thesis
    using a b partition_without_parent_fails [OF a b c, of exampleEnv "[]"]
    by (simp add: exampleDevice_def)
qed

text \<open>
  Claim C9, as stated, fails for the same reason: the classifier's first check is the
  in-use check for Mayastor, and it does not need the parent. A partition in use by
  Mayastor whose parent is missing leaves the classifier without error.
\<close>

theorem classifier_checks_mayastor_before_parent:
  "DeviceType (DeviceAttributes (exampleDevice ''sdb1'' BlockDeviceTypePartition ''sdb'' [] [] True Mayastor))
     = BlockDeviceTypePartition
   \<and> BDHierarchy (exampleController Map.empty Map.empty) ''sdb'' = None
   \<and> handleUnmanagedDevices exampleEnv
       (exampleDevice ''sdb1'' BlockDeviceTypePartition ''sdb'' [] [] True Mayastor) []
       (exampleController Map.empty Map.empty)
     = ((False, None), exampleController Map.empty Map.empty)
   \<and> fst (addBlockDevice exampleEnv
            (exampleDevice ''sdb1'' BlockDeviceTypePartition ''sdb'' [] [] True Mayastor) []
            (exampleController Map.empty Map.empty)) = None"
  by (simp add: addBlockDevice_eq handleUnmanagedDevices_eq exampleDevice_def
      exampleController_def)

text \<open>
  Claim C9, amended. For every add event whose device is a partition with a parent that
  is missing from the hierarchy cache, \<^verbatim>\<open>deviceInUseByZFSLocalPV\<close> returns
  \<open>(false, error)\<close> before it looks at any in-use flag, whatever the use of the
  partition. The classifier and the whole event fail with that error and with the
  controller as it was, unless the partition is in use by Mayastor: then the classifier
  returns \<open>(false, nil)\<close> before the parent is looked up.
\<close>

theorem partition_parent_required_by_zfs_check:
  assumes "DeviceType (DeviceAttributes bd) = BlockDeviceTypePartition"
    and "BDHierarchy pe (Parent (DependentDevices bd)) = None"
  shows "deviceInUseByZFSLocalPV env bd bdAPIList pe =
           ((False, Some (Errorf (''error in getting parent device for '' @ DevPath bd
                                    @ '' from device hierarchy''))), pe)
       \<and> (if InUse (DevUse bd) \<and> UsedBy (DevUse bd) = Mayastor
          then handleUnmanagedDevices env bd bdAPIList pe = ((False, None), pe)
          else handleUnmanagedDevices env bd bdAPIList pe =
                 ((False, Some (Errorf (''error in getting parent device for '' @ DevPath bd
                                          @ '' from device hierarchy''))), pe)
             \<and> addBlockDevice env bd bdAPIList pe =
                 (Some (Errorf (''error in getting parent device for '' @ DevPath bd
                                  @ '' from device hierarchy'')), pe))"
proof -
  have z: "deviceInUseByZFSLocalPV env bd bdAPIList pe =
             ((False, Some (Errorf (''error in getting parent device for '' @ DevPath bd
                            @ '' from device hierarchy''))), pe)"
    using assms by (simp add: deviceInUseByZFSLocalPV_def)
  show ?thesis
    by (auto simp: addBlockDevice_eq handleUnmanagedDevices_eq z)
qed

theorem partition_parent_required_by_zfs_check_witness:
  "DeviceType (DeviceAttributes (exampleDevice ''sdb2'' BlockDeviceTypePartition ''sdb'' [] [] True CStor))
     = BlockDeviceTypePartition
   \<and> BDHierarchy (exampleController Map.empty Map.empty)
       (Parent (DependentDevices
          (exampleDevice ''sdb2'' BlockDeviceTypePartition ''sdb'' [] [] True CStor))) = None
   \<and> deviceInUseByZFSLocalPV exampleEnv
       (exampleDevice ''sdb2'' BlockDeviceTypePartition ''sdb'' [] [] True CStor) []
       (exampleController Map.empty Map.empty)
     = ((False, Some (Errorf ''error in getting parent device for sdb2 from device hierarchy'')),
        exampleController Map.empty Map.empty)
   \<and> addBlockDevice exampleEnv
       (exampleDevice ''sdb2'' BlockDeviceTypePartition ''sdb'' [] [] True CStor) []
       (exampleController Map.empty Map.empty)
     = (Some (Errorf ''error in getting parent device for sdb2 from device hierarchy''),
        exampleController Map.empty Map.empty)"
proof -
  let ?bd = "exampleDevice ''sdb2'' BlockDeviceTypePartition ''sdb'' [] [] True CStor"
  let ?pe = "exampleController Map.empty Map.empty :: Store Controller"
  have a: "DeviceType (DeviceAttributes ?bd) = BlockDeviceTypePartition"
    by (simp add: exampleDevice_def)
  have b: "BDHierarchy ?pe (Parent (DependentDevices ?bd)) = None"
    by (simp add: exampleController_def)
  show ?thesis
    using a b partition_parent_required_by_zfs_check [OF a b, of exampleEnv "[]"]
    by (simp add: exampleDevice_def)
qed

subsection \<open>When the cache is updated\<close>

text \<open>
  Claim C4, as stated, fails: the handler updates the cache in one place only, after
  the primary identifier has been derived. A disk without identifier (here with a
  partition, so that nothing else happens either) is not entered into the cache.
\<close>

theorem cache_not_updated_without_identifier:
  "fst (fst (handleUnmanagedDevices exampleEnv
               (exampleDevice ''vda'' BlockDeviceTypeDisk [] [''vda1''] [] False NoEngine) []
               (exampleController Map.empty Map.empty)))
   \<and> BDHierarchy (snd (addBlockDevice exampleEnv
                         (exampleDevice ''vda'' BlockDeviceTypeDisk [] [''vda1''] [] False NoEngine) []
                         (exampleController Map.empty Map.empty)))
       (DevPath (exampleDevice ''vda'' BlockDeviceTypeDisk [] [''vda1''] [] False NoEngine))
     = None"
proof -
  let ?bd = "exampleDevice ''vda'' BlockDeviceTypeDisk [] [''vda1''] [] False NoEngine"
  let ?pe = "exampleController Map.empty Map.empty :: Store Controller"
  have r: "reachesGeneric exampleEnv ?bd [] ?pe"
    by (simp add: reachesGeneric_def handleUnmanagedDevices_eq deviceInUseByZFSLocalPV_def
        isParentDeviceInUse_def upgradeBD_def exampleDevice_def)
  have g: "\<not> snd (generateUUID exampleEnv ?bd)"
    by (simp add: exampleEnv_def specEnv_def examplePrimary_def exampleDevice_def)
  have "BDHierarchy (snd (addBlockDevice exampleEnv ?bd [] ?pe)) = BDHierarchy ?pe"
    using g by (simp add: reachesGeneric_eq [OF r] cache_addBlockDevice_generic)
  then show ?thesis
    using r by (simp add: reachesGeneric_def exampleController_def)
qed

text \<open>
  Claim C4, amended. After processing an add event, the hierarchy cache differs from
  the cache before only if the event reached the generic reconciliation and the
  primary identifier derivation succeeded; then the entry for the device's path holds
  the snapshot delivered by the event with its \<open>UUID\<close> set to the derived identifier. On
  every other event the handler leaves the cache as it was.
\<close>

theorem cache_after_addBlockDevice:
  "BDHierarchy (snd (addBlockDevice env bd bdAPIList pe)) =
     (if reachesGeneric env bd bdAPIList pe \<and> snd (generateUUID env bd)
      then (BDHierarchy pe)(DevPath bd \<mapsto> bd\<lparr>UUID := fst (generateUUID env bd)\<rparr>)
      else BDHierarchy pe)"
proof (cases "reachesGeneric env bd bdAPIList pe")
  case True
  then show ?thesis
    by (simp add: reachesGeneric_eq cache_addBlockDevice_generic)
next
  case False
  then have "BDHierarchy (snd (addBlockDevice env bd bdAPIList pe)) = BDHierarchy pe"
    by (auto simp: reachesGeneric_iff addBlockDevice_eq cache_handleUnmanagedDevices
        cache_upgradeBD isParentDeviceInUse_def split: option.splits if_splits)
  with False show ?thesis by simp
qed

theorem cache_after_addBlockDevice_witness:
  "BDHierarchy (snd (addBlockDevice exampleEnv
                       (exampleDevice ''sda'' BlockDeviceTypeDisk [] [] [] False NoEngine) []
                       (exampleController Map.empty Map.empty))) ''sda''
     = Some ((exampleDevice ''sda'' BlockDeviceTypeDisk [] [] [] False NoEngine)\<lparr>UUID := ''id-sda''\<rparr>)"
proof -
  let ?bd = "exampleDevice ''sda'' BlockDeviceTypeDisk [] [] [] False NoEngine"
  let ?pe = "exampleController Map.empty Map.empty :: Store Controller"
  have r: "reachesGeneric exampleEnv ?bd [] ?pe"
    by (simp add: reachesGeneric_def handleUnmanagedDevices_eq deviceInUseByZFSLocalPV_def
        isParentDeviceInUse_def upgradeBD_def exampleDevice_def)
  have g: "generateUUID exampleEnv ?bd = (''id-sda'', True)"
    by (simp add: exampleEnv_def specEnv_def examplePrimary_def exampleDevice_def)
  show ?thesis
    using r g cache_after_addBlockDevice [of exampleEnv ?bd "[]" ?pe]
    by (simp add: exampleDevice_def)
qed

subsection \<open>Devices with holders\<close>

text \<open>
  Claim C1, as stated, fails on each of the three paths that the claim names: the
  holders are looked at only inside \<^verbatim>\<open>createBlockDeviceResourceIfNoHolders\<close>, and these
  paths call \<^verbatim>\<open>createOrUpdateWithAnnotation\<close> directly. A disk with a holder whose
  resource is found claimed is updated; one whose resource is found unclaimed is
  created or updated; a partition with a holder whose parent's resource is unclaimed
  has its parent deactivated and its own resource created.
\<close>

theorem holders_do_not_stop_found_paths:
  "Holders (DependentDevices (exampleDevice ''sdb'' BlockDeviceTypeDisk [] [] [''dm-0''] False NoEngine))
     = [''dm-0'']
   \<and> issued (exampleController Map.empty [''id-sdb'' \<mapsto> exampleResource ''id-sdb'' BlockDeviceClaimed])
       (snd (addBlockDevice exampleEnv
               (exampleDevice ''sdb'' BlockDeviceTypeDisk [] [] [''dm-0''] False NoEngine)
               [exampleResource ''id-sdb'' BlockDeviceClaimed]
               (exampleController Map.empty
                  [''id-sdb'' \<mapsto> exampleResource ''id-sdb'' BlockDeviceClaimed])))
     = [UpdateCall
          ((Spec_ToDevice ((exampleDevice ''sdb'' BlockDeviceTypeDisk [] [] [''dm-0''] False NoEngine)
                             \<lparr>UUID := ''id-sdb''\<rparr>))
             \<lparr>Annotations := [internalUUIDSchemeAnnotation \<mapsto> gptUUIDScheme]\<rparr>)
          (exampleResource ''id-sdb'' BlockDeviceClaimed)]
   \<and> issued (exampleController Map.empty [''id-sdb'' \<mapsto> exampleResource ''id-sdb'' BlockDeviceUnclaimed])
       (snd (addBlockDevice exampleEnv
               (exampleDevice ''sdb'' BlockDeviceTypeDisk [] [] [''dm-0''] False NoEngine)
               [exampleResource ''id-sdb'' BlockDeviceUnclaimed]
               (exampleController Map.empty
                  [''id-sdb'' \<mapsto> exampleResource ''id-sdb'' BlockDeviceUnclaimed])))
     = [UpdateCall
          ((Spec_ToDevice ((exampleDevice ''sdb'' BlockDeviceTypeDisk [] [] [''dm-0''] False NoEngine)
                             \<lparr>UUID := ''id-sdb''\<rparr>))
             \<lparr>Annotations := [internalUUIDSchemeAnnotation \<mapsto> gptUUIDScheme]\<rparr>)
          (exampleResource ''id-sdb'' BlockDeviceUnclaimed)]
   \<and> issued (exampleController
               [''sdb'' \<mapsto> exampleDevice ''sdb'' BlockDeviceTypeDisk [] [''sdb1''] [] False NoEngine]
               [''id-sdb'' \<mapsto> exampleResource ''id-sdb'' BlockDeviceUnclaimed])
       (snd (addBlockDevice exampleEnv
               (exampleDevice ''sdb1'' BlockDeviceTypePartition ''sdb'' [] [''dm-0''] False NoEngine)
               [exampleResource ''id-sdb'' BlockDeviceUnclaimed]
               (exampleController
                  [''sdb'' \<mapsto> exampleDevice ''sdb'' BlockDeviceTypeDisk [] [''sdb1''] [] False NoEngine]
                  [''id-sdb'' \<mapsto> exampleResource ''id-sdb'' BlockDeviceUnclaimed])))
     = [DeactivateCall (exampleResource ''id-sdb'' BlockDeviceUnclaimed),
        CreateCall
          ((Spec_ToDevice ((exampleDevice ''sdb1'' BlockDeviceTypePartition ''sdb'' [] [''dm-0'']
                              False NoEngine)\<lparr>UUID := ''id-sdb1''\<rparr>))
             \<lparr>Annotations := [internalUUIDSchemeAnnotation \<mapsto> gptUUIDScheme]\<rparr>)]"
  by (simp add: addBlockDevice_eq handleUnmanagedDevices_eq deviceInUseByZFSLocalPV_def
      isParentDeviceInUse_def upgradeBD_def addBlockDevice_generic_def
      addBlockDeviceToHierarchyCache_def createOrUpdateWithAnnotation_eq
      Controller_DeactivateBlockDevice_def issued_def IsNotFound_def
      exampleEnv_def specEnv_def examplePrimary_def exampleDevice_def exampleController_def
      exampleResource_def Store_Get_def Let_def)

text \<open>
  Claim C1, amended. For every add event whose device has a non-empty holder list and
  is not in use by ZFS-LocalPV, LocalPV or CStor: if no resource is found under the
  device's identifier (the identifier cannot be derived, the store has no such
  resource, or the lookup fails), and the device is not a partition whose parent's
  resource is found Unclaimed, then processing the event issues no call at all and
  leaves the store as it was. These are the paths that end in
  \<^verbatim>\<open>createBlockDeviceResourceIfNoHolders\<close>. The parent of a partition is looked up
  in the cache after the device itself has been entered.
\<close>

theorem holders_stop_creation:
  assumes "Holders (DependentDevices bd) \<noteq> []"
    and "\<not> (InUse (DevUse bd) \<and> (UsedBy (DevUse bd) = ZFSLocalPV
              \<or> UsedBy (DevUse bd) = LocalPV \<or> UsedBy (DevUse bd) = CStor))"
    and "snd (generateUUID env bd) \<longrightarrow>
           (\<exists>err. GetBlockDevice env (Clientset pe) (fst (generateUUID env bd)) = Inl err)"
    and "\<forall>parentBD parentBDAPI.
           DeviceType (DeviceAttributes bd) = BlockDeviceTypePartition
           \<and> ((BDHierarchy pe)(DevPath bd \<mapsto> bd\<lparr>UUID := fst (generateUUID env bd)\<rparr>))
               (Parent (DependentDevices bd)) = Some parentBD
           \<and> snd (generateUUID env parentBD)
           \<and> GetBlockDevice env (Clientset pe) (fst (generateUUID env parentBD)) = Inr parentBDAPI
           \<longrightarrow> ClaimState (Status parentBDAPI) \<noteq> BlockDeviceUnclaimed"
  shows "issued pe (snd (addBlockDevice env bd bdAPIList pe)) = []
       \<and> Clientset (snd (addBlockDevice env bd bdAPIList pe)) = Clientset pe"
proof -
  have h: "snd (handleUnmanagedDevices env bd bdAPIList pe) = pe"
    using assms(2) by (auto intro: handleUnmanagedDevices_silent)
  have u: "upgradeBD env bd bdAPIList pe = ((True, None), pe)"
    using assms(2) by (auto intro: upgradeBD_silent)
  have g: "issued pe (snd (addBlockDevice_generic env bd bdAPIList pe)) = []
         \<and> Clientset (snd (addBlockDevice_generic env bd bdAPIList pe)) = Clientset pe"
  proof (cases "snd (generateUUID env bd)")
    case False
    then show ?thesis
      using assms(1) by (simp add: addBlockDevice_generic_def issued_def)
  next
    case True
    then obtain err where e: "GetBlockDevice env (Clientset pe) (fst (generateUUID env bd)) = Inl err"
      using assms(3) by blast
    show ?thesis
      using True e assms(1) assms(4)
      by (auto simp: addBlockDevice_generic_def addBlockDeviceToHierarchyCache_def
          createBlockDeviceResourceIfNoHolders_def issued_def Let_def
          split: option.split sum.split)
  qed
  show ?thesis
    using g by (simp add: addBlockDevice_eq h u issued_same)
qed

theorem holders_stop_creation_witness:
  "Holders (DependentDevices
      (exampleDevice ''sdc1'' BlockDeviceTypePartition ''sdc'' [] [''dm-1''] False NoEngine)) \<noteq> []
   \<and> GetBlockDevice exampleEnv Map.empty ''id-sdc1'' = Inl NotFoundError
   \<and> GetBlockDevice exampleEnv Map.empty ''id-sdc'' = Inl NotFoundError
   \<and> addBlockDevice exampleEnv
       (exampleDevice ''sdc1'' BlockDeviceTypePartition ''sdc'' [] [''dm-1''] False NoEngine) []
       (exampleController
          [''sdc'' \<mapsto> exampleDevice ''sdc'' BlockDeviceTypeDisk [] [''sdc1''] [] False NoEngine]
          Map.empty)
     = (None,
        exampleController
          [''sdc'' \<mapsto> exampleDevice ''sdc'' BlockDeviceTypeDisk [] [''sdc1''] [] False NoEngine,
           ''sdc1'' \<mapsto> (exampleDevice ''sdc1'' BlockDeviceTypePartition ''sdc'' [] [''dm-1'']
                           False NoEngine)\<lparr>UUID := ''id-sdc1''\<rparr>]
          Map.empty)
   \<and> issued (exampleController
               [''sdc'' \<mapsto> exampleDevice ''sdc'' BlockDeviceTypeDisk [] [''sdc1''] [] False NoEngine]
               Map.empty)
       (snd (addBlockDevice exampleEnv
               (exampleDevice ''sdc1'' BlockDeviceTypePartition ''sdc'' [] [''dm-1''] False NoEngine) []
               (exampleController
                  [''sdc'' \<mapsto> exampleDevice ''sdc'' BlockDeviceTypeDisk [] [''sdc1''] [] False NoEngine]
                  Map.empty))) = []"
proof -
  let ?bd = "exampleDevice ''sdc1'' BlockDeviceTypePartition ''sdc'' [] [''dm-1''] False NoEngine"
  let ?pe = "exampleController
               [''sdc'' \<mapsto> exampleDevice ''sdc'' BlockDeviceTypeDisk [] [''sdc1''] [] False NoEngine]
               Map.empty :: Store Controller"
  have a: "Holders (DependentDevices ?bd) \<noteq> []"
    by (simp add: exampleDevice_def)
  have b: "\<not> (InUse (DevUse ?bd) \<and> (UsedBy (DevUse ?bd) = ZFSLocalPV
              \<or> UsedBy (DevUse ?bd) = LocalPV \<or> UsedBy (DevUse ?bd) = CStor))"
    by (simp add: exampleDevice_def)
  have n: "GetBlockDevice exampleEnv Map.empty ''id-sdc1'' = Inl NotFoundError"
    "GetBlockDevice exampleEnv Map.empty ''id-sdc'' = Inl NotFoundError"
    by (simp_all add: exampleEnv_def specEnv_def Store_Get_def)
  have c: "snd (generateUUID exampleEnv ?bd) \<longrightarrow>
           (\<exists>err. GetBlockDevice exampleEnv (Clientset ?pe) (fst (generateUUID exampleEnv ?bd)) = Inl err)"
    by (simp add: exampleEnv_def specEnv_def Store_Get_def exampleController_def)
  have d: "\<forall>parentBD parentBDAPI.
           DeviceType (DeviceAttributes ?bd) = BlockDeviceTypePartition
           \<and> ((BDHierarchy ?pe)(DevPath ?bd \<mapsto> ?bd\<lparr>UUID := fst (generateUUID exampleEnv ?bd)\<rparr>))
               (Parent (DependentDevices ?bd)) = Some parentBD
           \<and> snd (generateUUID exampleEnv parentBD)
           \<and> GetBlockDevice exampleEnv (Clientset ?pe) (fst (generateUUID exampleEnv parentBD))
               = Inr parentBDAPI
           \<longrightarrow> ClaimState (Status parentBDAPI) \<noteq> BlockDeviceUnclaimed"
    by (simp add: exampleEnv_def specEnv_def Store_Get_def exampleController_def)
  have r: "addBlockDevice exampleEnv ?bd [] ?pe =
             (None, exampleController
                [''sdc'' \<mapsto> exampleDevice ''sdc'' BlockDeviceTypeDisk [] [''sdc1''] [] False NoEngine,
                 ''sdc1'' \<mapsto> ?bd\<lparr>UUID := ''id-sdc1''\<rparr>] Map.empty)"
    by (simp add: addBlockDevice_eq handleUnmanagedDevices_eq deviceInUseByZFSLocalPV_def
      isParentDeviceInUse_def upgradeBD_def addBlockDevice_generic_def
      addBlockDeviceToHierarchyCache_def createBlockDeviceResourceIfNoHolders_def IsNotFound_def
      exampleEnv_def specEnv_def examplePrimary_def exampleDevice_def exampleController_def
      Store_Get_def Let_def)
  show ?thesis
    using a n r holders_stop_creation [OF a b c d, of "[]"]
    by simp
qed

subsection \<open>A partition of an unclaimed parent\<close>

text \<open>
  Claim C6, as stated, fails: the second call is a create only if the list snapshot
  that came with the event holds no resource under the partition's identifier. With a
  snapshot that still lists such a resource, while the store itself has none, the
  parent is deactivated and the partition's resource is updated against the listed
  one.
\<close>

theorem unclaimed_parent_then_update_from_snapshot:
  "reachesGeneric exampleEnv
     (exampleDevice ''sdd1'' BlockDeviceTypePartition ''sdd'' [] [] False NoEngine)
     [exampleResource ''id-sdd1'' BlockDeviceUnclaimed]
     (exampleController
        [''sdd'' \<mapsto> exampleDevice ''sdd'' BlockDeviceTypeDisk [] [''sdd1''] [] False NoEngine]
        [''id-sdd'' \<mapsto> exampleResource ''id-sdd'' BlockDeviceUnclaimed])
   \<and> generateUUID exampleEnv
       (exampleDevice ''sdd1'' BlockDeviceTypePartition ''sdd'' [] [] False NoEngine)
     = (''id-sdd1'', True)
   \<and> GetBlockDevice exampleEnv [''id-sdd'' \<mapsto> exampleResource ''id-sdd'' BlockDeviceUnclaimed]
       ''id-sdd1'' = Inl NotFoundError
   \<and> generateUUID exampleEnv
       (exampleDevice ''sdd'' BlockDeviceTypeDisk [] [''sdd1''] [] False NoEngine)
     = (''id-sdd'', True)
   \<and> GetBlockDevice exampleEnv [''id-sdd'' \<mapsto> exampleResource ''id-sdd'' BlockDeviceUnclaimed]
       ''id-sdd'' = Inr (exampleResource ''id-sdd'' BlockDeviceUnclaimed)
   \<and> issued
       (exampleController
          [''sdd'' \<mapsto> exampleDevice ''sdd'' BlockDeviceTypeDisk [] [''sdd1''] [] False NoEngine]
          [''id-sdd'' \<mapsto> exampleResource ''id-sdd'' BlockDeviceUnclaimed])
       (snd (addBlockDevice exampleEnv
               (exampleDevice ''sdd1'' BlockDeviceTypePartition ''sdd'' [] [] False NoEngine)
               [exampleResource ''id-sdd1'' BlockDeviceUnclaimed]
               (exampleController
                  [''sdd'' \<mapsto> exampleDevice ''sdd'' BlockDeviceTypeDisk [] [''sdd1''] [] False NoEngine]
                  [''id-sdd'' \<mapsto> exampleResource ''id-sdd'' BlockDeviceUnclaimed])))
     = [DeactivateCall (exampleResource ''id-sdd'' BlockDeviceUnclaimed),
        UpdateCall
          ((Spec_ToDevice ((exampleDevice ''sdd1'' BlockDeviceTypePartition ''sdd'' [] [] False NoEngine)
                             \<lparr>UUID := ''id-sdd1''\<rparr>))
             \<lparr>Annotations := [internalUUIDSchemeAnnotation \<mapsto> gptUUIDScheme]\<rparr>)
          (exampleResource ''id-sdd1'' BlockDeviceUnclaimed)]"
  by (simp add: reachesGeneric_def addBlockDevice_eq handleUnmanagedDevices_eq
      deviceInUseByZFSLocalPV_def
      isParentDeviceInUse_def upgradeBD_def addBlockDevice_generic_def
      addBlockDeviceToHierarchyCache_def createOrUpdateWithAnnotation_eq
      Controller_DeactivateBlockDevice_def issued_def IsNotFound_def
      exampleEnv_def specEnv_def examplePrimary_def exampleDevice_def exampleController_def
      exampleResource_def Store_Get_def Let_def)

text \<open>
  Claim C6, amended. For every add event for a partition that reaches the generic
  reconciliation, whose own identifier has no resource in the store, and whose parent
  (looked up in the cache after the partition itself has been entered) has a primary
  identifier with a store resource in claim state Unclaimed: the handler issues
  exactly two calls, one Deactivate call on the parent's resource followed by one write
  of the partition's resource, annotated \<open>uuid-scheme=gpt\<close>. The write is a Create call
  when the event's snapshot lists no resource under the partition's identifier, and an
  Update call against the listed resource when it does. The handler returns what the
  write returned.
\<close>

theorem unclaimed_parent_deactivated_then_partition_written:
  assumes "reachesGeneric env bd bdAPIList pe"
    and "DeviceType (DeviceAttributes bd) = BlockDeviceTypePartition"
    and "generateUUID env bd = (uuid, True)"
    and "GetBlockDevice env (Clientset pe) uuid = Inl NotFoundError"
    and "((BDHierarchy pe)(DevPath bd \<mapsto> bd\<lparr>UUID := uuid\<rparr>)) (Parent (DependentDevices bd))
           = Some parentBD"
    and "generateUUID env parentBD = (parentUUID, True)"
    and "GetBlockDevice env (Clientset pe) parentUUID = Inr parentBDAPI"
    and "ClaimState (Status parentBDAPI) = BlockDeviceUnclaimed"
  shows "issued pe (snd (addBlockDevice env bd bdAPIList pe)) =
           [DeactivateCall parentBDAPI,
            (case GetExistingBlockDeviceResource bdAPIList uuid of
               None \<Rightarrow>
                 CreateCall ((ToDevice env (NewDeviceInfoFromBlockDevice env (bd\<lparr>UUID := uuid\<rparr>)))
                               \<lparr>Annotations := [internalUUIDSchemeAnnotation \<mapsto> gptUUIDScheme]\<rparr>)
             | Some existing \<Rightarrow>
                 UpdateCall ((ToDevice env (NewDeviceInfoFromBlockDevice env (bd\<lparr>UUID := uuid\<rparr>)))
                               \<lparr>Annotations := [internalUUIDSchemeAnnotation \<mapsto> gptUUIDScheme]\<rparr>)
                   existing)]
       \<and> fst (addBlockDevice env bd bdAPIList pe) =
           (case GetExistingBlockDeviceResource bdAPIList uuid of
              None \<Rightarrow>
                fst (CreateBlockDevice env (DeactivateBlockDevice env (Clientset pe) parentBDAPI)
                       ((ToDevice env (NewDeviceInfoFromBlockDevice env (bd\<lparr>UUID := uuid\<rparr>)))
                          \<lparr>Annotations := [internalUUIDSchemeAnnotation \<mapsto> gptUUIDScheme]\<rparr>))
            | Some existing \<Rightarrow>
                fst (UpdateBlockDevice env (DeactivateBlockDevice env (Clientset pe) parentBDAPI)
                       ((ToDevice env (NewDeviceInfoFromBlockDevice env (bd\<lparr>UUID := uuid\<rparr>)))
                          \<lparr>Annotations := [internalUUIDSchemeAnnotation \<mapsto> gptUUIDScheme]\<rparr>)
                       existing))"
  using assms(2-8)
  by (simp add: reachesGeneric_eq [OF assms(1)] addBlockDevice_generic_def
      addBlockDeviceToHierarchyCache_def createOrUpdateWithAnnotation_eq
      Controller_DeactivateBlockDevice_def issued_def IsNotFound_def Let_def
      split: option.split)

theorem unclaimed_parent_deactivated_then_partition_written_witness:
  "reachesGeneric exampleEnv
     (exampleDevice ''sde1'' BlockDeviceTypePartition ''sde'' [] [] False NoEngine)
     [exampleResource ''id-sde'' BlockDeviceUnclaimed]
     (exampleController
        [''sde'' \<mapsto> exampleDevice ''sde'' BlockDeviceTypeDisk [] [''sde1''] [] False NoEngine]
        [''id-sde'' \<mapsto> exampleResource ''id-sde'' BlockDeviceUnclaimed])
   \<and> GetBlockDevice exampleEnv [''id-sde'' \<mapsto> exampleResource ''id-sde'' BlockDeviceUnclaimed]
       ''id-sde1'' = Inl NotFoundError
   \<and> GetBlockDevice exampleEnv [''id-sde'' \<mapsto> exampleResource ''id-sde'' BlockDeviceUnclaimed]
       ''id-sde'' = Inr (exampleResource ''id-sde'' BlockDeviceUnclaimed)
   \<and> issued
       (exampleController
          [''sde'' \<mapsto> exampleDevice ''sde'' BlockDeviceTypeDisk [] [''sde1''] [] False NoEngine]
          [''id-sde'' \<mapsto> exampleResource ''id-sde'' BlockDeviceUnclaimed])
       (snd (addBlockDevice exampleEnv
               (exampleDevice ''sde1'' BlockDeviceTypePartition ''sde'' [] [] False NoEngine)
               [exampleResource ''id-sde'' BlockDeviceUnclaimed]
               (exampleController
                  [''sde'' \<mapsto> exampleDevice ''sde'' BlockDeviceTypeDisk [] [''sde1''] [] False NoEngine]
                  [''id-sde'' \<mapsto> exampleResource ''id-sde'' BlockDeviceUnclaimed])))
     = [DeactivateCall (exampleResource ''id-sde'' BlockDeviceUnclaimed),
        CreateCall
          ((Spec_ToDevice ((exampleDevice ''sde1'' BlockDeviceTypePartition ''sde'' [] [] False NoEngine)
                             \<lparr>UUID := ''id-sde1''\<rparr>))
             \<lparr>Annotations := [internalUUIDSchemeAnnotation \<mapsto> gptUUIDScheme]\<rparr>)]
   \<and> fst (addBlockDevice exampleEnv
               (exampleDevice ''sde1'' BlockDeviceTypePartition ''sde'' [] [] False NoEngine)
               [exampleResource ''id-sde'' BlockDeviceUnclaimed]
               (exampleController
                  [''sde'' \<mapsto> exampleDevice ''sde'' BlockDeviceTypeDisk [] [''sde1''] [] False NoEngine]
                  [''id-sde'' \<mapsto> exampleResource ''id-sde'' BlockDeviceUnclaimed])) = None"
proof -
  let ?bd = "exampleDevice ''sde1'' BlockDeviceTypePartition ''sde'' [] [] False NoEngine"
  let ?parent = "exampleDevice ''sde'' BlockDeviceTypeDisk [] [''sde1''] [] False NoEngine"
  let ?res = "exampleResource ''id-sde'' BlockDeviceUnclaimed"
  let ?pe = "exampleController [''sde'' \<mapsto> ?parent] [''id-sde'' \<mapsto> ?res]"
  have r: "reachesGeneric exampleEnv ?bd [?res] ?pe"
    by (simp add: reachesGeneric_def handleUnmanagedDevices_eq deviceInUseByZFSLocalPV_def
        isParentDeviceInUse_def upgradeBD_def exampleDevice_def exampleController_def)
  have t: "DeviceType (DeviceAttributes ?bd) = BlockDeviceTypePartition"
    by (simp add: exampleDevice_def)
  have g: "generateUUID exampleEnv ?bd = (''id-sde1'', True)"
    by (simp add: exampleEnv_def specEnv_def examplePrimary_def exampleDevice_def)
  have n: "GetBlockDevice exampleEnv (Clientset ?pe) ''id-sde1'' = Inl NotFoundError"
    by (simp add: exampleEnv_def specEnv_def Store_Get_def exampleController_def)
  have c: "((BDHierarchy ?pe)(DevPath ?bd \<mapsto> ?bd\<lparr>UUID := ''id-sde1''\<rparr>)) (Parent (DependentDevices ?bd))
             = Some ?parent"
    by (simp add: exampleDevice_def exampleController_def)
  have pg: "generateUUID exampleEnv ?parent = (''id-sde'', True)"
    by (simp add: exampleEnv_def specEnv_def examplePrimary_def exampleDevice_def)
  have pn: "GetBlockDevice exampleEnv (Clientset ?pe) ''id-sde'' = Inr ?res"
    by (simp add: exampleEnv_def specEnv_def Store_Get_def exampleController_def)
  have u: "ClaimState (Status ?res) = BlockDeviceUnclaimed"
    by (simp add: exampleResource_def)
  have s: "Store_Create (Store_Deactivate [''id-sde'' \<mapsto> ?res] ?res)
             ((Spec_ToDevice (?bd\<lparr>UUID := ''id-sde1''\<rparr>))
                \<lparr>Annotations := [internalUUIDSchemeAnnotation \<mapsto> gptUUIDScheme]\<rparr>) =
           (None, (Store_Deactivate [''id-sde'' \<mapsto> ?res] ?res)
              (''id-sde1'' \<mapsto> (Spec_ToDevice (?bd\<lparr>UUID := ''id-sde1''\<rparr>))
                \<lparr>Annotations := [internalUUIDSchemeAnnotation \<mapsto> gptUUIDScheme]\<rparr>))"
    by (simp add: Store_Create_def Store_Deactivate_def Spec_ToDevice_def exampleResource_def)
  note w = unclaimed_parent_deactivated_then_partition_written [OF r t g n c pg pn u]
  have i: "issued ?pe (snd (addBlockDevice exampleEnv ?bd [?res] ?pe)) =
             [DeactivateCall ?res,
              CreateCall ((Spec_ToDevice (?bd\<lparr>UUID := ''id-sde1''\<rparr>))
                            \<lparr>Annotations := [internalUUIDSchemeAnnotation \<mapsto> gptUUIDScheme]\<rparr>)]"
    using w by (simp add: exampleEnv_simps exampleResource_def)
  have f: "fst (addBlockDevice exampleEnv ?bd [?res] ?pe) = None"
    using w s by (simp add: exampleEnv_simps exampleController_def exampleResource_def)
  have n': "GetBlockDevice exampleEnv [''id-sde'' \<mapsto> ?res] ''id-sde1'' = Inl NotFoundError"
    using n by (simp add: exampleController_def)
  have pn': "GetBlockDevice exampleEnv [''id-sde'' \<mapsto> ?res] ''id-sde'' = Inr ?res"
    using pn by (simp add: exampleController_def)
  show ?thesis
    using r n' pn' i f by blast
qed

subsection \<open>Claimed resources in the store of the spec\<close>

lemma claimKept_init:
  "s k = Some r \<Longrightarrow> Name r = k \<Longrightarrow> claimKept k r s"
  by (simp add: claimKept_def)

lemma claimKept_create:
  "claimKept k r s \<Longrightarrow> claimKept k r (snd (Store_Create s w))"
  by (auto simp: claimKept_def Store_Create_def split: option.splits)

lemma claimKept_update:
  "claimKept k r s \<Longrightarrow> Active (Status w) \<Longrightarrow> claimKept k r (snd (Store_Update s w e))"
  by (auto simp: claimKept_def Store_Update_def split: option.splits)

lemma claimKept_deactivate:
  "claimKept k r s \<Longrightarrow> Name pr \<noteq> k \<Longrightarrow> claimKept k r (Store_Deactivate s pr)"
  by (auto simp: claimKept_def Store_Deactivate_def split: option.splits)

lemma Spec_ToDevice_active:
  "Active (Status (Spec_ToDevice bd))"
  by (simp add: Spec_ToDevice_def)

lemma claimKept_write:
  "claimKept k r s \<Longrightarrow>
     claimKept k r
       (case ex of
          Some existing \<Rightarrow> snd (Store_Update s ((Spec_ToDevice bd)\<lparr>Annotations := a\<rparr>) existing)
        | None \<Rightarrow> snd (Store_Create s ((Spec_ToDevice bd)\<lparr>Annotations := a\<rparr>)))"
  by (simp add: claimKept_update claimKept_create Spec_ToDevice_active split: option.split)

lemma claimKept_createOrUpdateWithAnnotation:
  "claimKept k r (Clientset pe) \<Longrightarrow>
     claimKept k r (Clientset (snd (createOrUpdateWithAnnotation (specEnv p lg z part)
                                      annotation bd existingBD pe)))"
  by (simp add: store_createOrUpdateWithAnnotation claimKept_write)

lemma claimKept_upgradeDeviceInUseByLocalPV:
  "claimKept k r (Clientset pe) \<Longrightarrow>
     claimKept k r (Clientset (snd (upgradeDeviceInUseByLocalPV (specEnv p lg z part)
                                      bd bdAPIList pe)))"
  by (simp add: upgradeDeviceInUseByLocalPV_def createOrUpdateWithFSUUID_def
      claimKept_createOrUpdateWithAnnotation Let_def split: option.split)

lemma claimKept_upgradeDeviceInUseByCStor:
  "claimKept k r (Clientset pe) \<Longrightarrow>
     claimKept k r (Clientset (snd (upgradeDeviceInUseByCStor (specEnv p lg z part)
                                      bd bdAPIList pe)))"
  by (simp add: upgradeDeviceInUseByCStor_def createOrUpdateWithPartitionUUID_def
      claimKept_createOrUpdateWithAnnotation Let_def split: option.split)

lemma claimKept_upgradeBD:
  "claimKept k r (Clientset pe) \<Longrightarrow>
     claimKept k r (Clientset (snd (upgradeBD (specEnv p lg z part) bd bdAPIList pe)))"
  by (simp add: snd_upgradeBD claimKept_upgradeDeviceInUseByLocalPV
      claimKept_upgradeDeviceInUseByCStor)

lemma claimKept_deviceInUseByZFSLocalPV:
  "claimKept k r (Clientset pe) \<Longrightarrow>
     claimKept k r (Clientset (snd (deviceInUseByZFSLocalPV (specEnv p lg z part)
                                      bd bdAPIList pe)))"
  by (simp add: deviceInUseByZFSLocalPV_def Controller_CreateBlockDevice_def specEnv_simps
      claimKept_create Let_def split: option.split)

lemma claimKept_handleUnmanagedDevices:
  "claimKept k r (Clientset pe) \<Longrightarrow>
     claimKept k r (Clientset (snd (handleUnmanagedDevices (specEnv p lg z part)
                                      bd bdAPIList pe)))"
  by (simp add: snd_handleUnmanagedDevices claimKept_deviceInUseByZFSLocalPV)

lemma claimKept_addBlockDevice_generic:
  assumes wf: "\<forall>k' r'. Clientset pe k' = Some r' \<longrightarrow> Name r' = k'"
    and r: "Clientset pe k = Some r"
    and c: "ClaimState (Status r) \<noteq> BlockDeviceUnclaimed"
  shows "claimKept k r (Clientset (snd (addBlockDevice_generic (specEnv p lg z part)
                                          bd bdAPIList pe)))"
proof -
  have i: "claimKept k r (Clientset pe)"
    using wf r by (simp add: claimKept_init)
  have d: "claimKept k r (Store_Deactivate (Clientset pe) pr)"
    if "Clientset pe u = Some pr" and "ClaimState (Status pr) = BlockDeviceUnclaimed" for u pr
  proof -
    have "Name pr = u" using wf that by blast
    with that r c have "Name pr \<noteq> k" by auto
    with i show ?thesis by (rule claimKept_deactivate)
  qed
  show ?thesis
    unfolding store_addBlockDevice_generic
    by (simp add: Let_def i d claimKept_create claimKept_update Spec_ToDevice_active
        del: fun_upd_apply split: option.split)
qed

lemma claimKept_addBlockDevice:
  assumes wf: "\<forall>k' r'. Clientset pe k' = Some r' \<longrightarrow> Name r' = k'"
    and r: "Clientset pe k = Some r"
    and c: "ClaimState (Status r) \<noteq> BlockDeviceUnclaimed"
  shows "claimKept k r (Clientset (snd (addBlockDevice (specEnv p lg z part) bd bdAPIList pe)))"
proof -
  have i: "claimKept k r (Clientset pe)"
    using wf r by (simp add: claimKept_init)
  show ?thesis
    by (simp add: addBlockDevice_eq i claimKept_handleUnmanagedDevices [OF i]
        claimKept_upgradeBD [OF i] claimKept_addBlockDevice_generic [OF wf r c])
qed

subsection \<open>Resources that are claimed\<close>

lemma issued_addBlockDevice_generic:
  "issued pe (snd (addBlockDevice_generic env bd bdAPIList pe)) =
     drop (length (calls pe)) (calls (snd (addBlockDevice_generic env bd bdAPIList pe)))"
  by (simp add: issued_def)

lemma deactivate_addBlockDevice_generic:
  assumes "DeactivateCall r \<in> set (issued pe (snd (addBlockDevice_generic env bd bdAPIList pe)))"
  shows "ClaimState (Status r) = BlockDeviceUnclaimed
       \<and> DeviceType (DeviceAttributes bd) = BlockDeviceTypePartition
       \<and> (\<exists>parentBD.
             ((BDHierarchy pe)(DevPath bd \<mapsto> bd\<lparr>UUID := fst (generateUUID env bd)\<rparr>))
               (Parent (DependentDevices bd)) = Some parentBD
             \<and> GetBlockDevice env (Clientset pe) (fst (generateUUID env parentBD)) = Inr r)"
  using assms
  unfolding issued_addBlockDevice_generic calls_addBlockDevice_generic_eq
  by (auto simp: Let_def simp del: fun_upd_apply split: if_splits sum.splits option.splits)
     metis+

lemma no_deactivate_handleUnmanagedDevices:
  "DeactivateCall r \<notin> set (issued pe (snd (handleUnmanagedDevices env bd bdAPIList pe)))"
  using calls_handleUnmanagedDevices [of env bd bdAPIList pe]
  by (auto simp: issued_def)

lemma no_deactivate_upgradeBD:
  "DeactivateCall r \<notin> set (issued pe (snd (upgradeBD env bd bdAPIList pe)))"
  using calls_upgradeBD [of env bd bdAPIList pe]
  by (auto simp: issued_def)

lemma update_addBlockDevice_generic:
  assumes "UpdateCall w e \<in> set (issued pe (snd (addBlockDevice_generic env bd bdAPIList pe)))"
  shows "w = (ToDevice env (NewDeviceInfoFromBlockDevice env
                              (bd\<lparr>UUID := fst (generateUUID env bd)\<rparr>)))
               \<lparr>Annotations := [internalUUIDSchemeAnnotation \<mapsto> gptUUIDScheme]\<rparr>
         \<and> (GetExistingBlockDeviceResource bdAPIList (fst (generateUUID env bd)) = Some e
            \<or> GetBlockDevice env (Clientset pe) (fst (generateUUID env bd)) = Inr e)"
  using assms
  unfolding issued_addBlockDevice_generic calls_addBlockDevice_generic_eq
  by (auto simp: Let_def simp del: fun_upd_apply split: if_splits sum.splits option.splits)

lemma no_update_handleUnmanagedDevices:
  "UpdateCall w e \<notin> set (issued pe (snd (handleUnmanagedDevices env bd bdAPIList pe)))"
  using calls_handleUnmanagedDevices [of env bd bdAPIList pe]
  by (auto simp: issued_def)

lemma update_upgradeDeviceInUseByLocalPV:
  "UpdateCall w e \<in> set (issued pe (snd (upgradeDeviceInUseByLocalPV env bd bdAPIList pe)))
   \<Longrightarrow> w = (ToDevice env (NewDeviceInfoFromBlockDevice env (bd\<lparr>UUID := Name e\<rparr>)))
             \<lparr>Annotations := [internalUUIDSchemeAnnotation \<mapsto> legacyUUIDScheme,
                              internalFSUUIDAnnotation \<mapsto> FileSystemUUID (FSInfo bd)]\<rparr>"
  by (auto simp: upgradeDeviceInUseByLocalPV_def createOrUpdateWithFSUUID_def issued_def
      calls_createOrUpdateWithAnnotation Let_def split: option.splits if_splits)

lemma update_upgradeDeviceInUseByCStor:
  "UpdateCall w e \<in> set (issued pe (snd (upgradeDeviceInUseByCStor env bd bdAPIList pe)))
   \<Longrightarrow> w = (ToDevice env (NewDeviceInfoFromBlockDevice env (bd\<lparr>UUID := Name e\<rparr>)))
             \<lparr>Annotations := [internalUUIDSchemeAnnotation \<mapsto> legacyUUIDScheme,
                              internalPartitionUUIDAnnotation \<mapsto>
                                PartitionTableUUID (PartitionInfo bd)]\<rparr>"
  by (auto simp: upgradeDeviceInUseByCStor_def createOrUpdateWithPartitionUUID_def issued_def
      calls_createOrUpdateWithAnnotation Let_def split: option.splits if_splits)

lemma update_upgradeBD:
  "UpdateCall w e \<in> set (issued pe (snd (upgradeBD env bd bdAPIList pe)))
   \<Longrightarrow> \<exists>a. w = (ToDevice env (NewDeviceInfoFromBlockDevice env (bd\<lparr>UUID := Name e\<rparr>)))
                  \<lparr>Annotations := a\<rparr>"
  using update_upgradeDeviceInUseByLocalPV [of w e pe env bd bdAPIList]
    update_upgradeDeviceInUseByCStor [of w e pe env bd bdAPIList]
  by (auto simp: snd_upgradeBD issued_same split: if_splits)

lemma upgradeDeviceInUseByLocalPV_claimed:
  assumes "(if snd (generateUUID env bd)
            then GetExistingBlockDeviceResource bdAPIList (fst (generateUUID env bd))
            else None) = None"
    and "(case getExistingBDWithFsUuid bd bdAPIList of
            Some r \<Rightarrow> Some r
          | None \<Rightarrow> GetExistingBlockDeviceResource bdAPIList (fst (generateLegacyUUID env bd)))
         = Some existing"
    and "ClaimState (Status existing) \<noteq> BlockDeviceUnclaimed"
  shows "upgradeDeviceInUseByLocalPV env bd bdAPIList pe =
           (let w = (ToDevice env (NewDeviceInfoFromBlockDevice env (bd\<lparr>UUID := Name existing\<rparr>)))
                      \<lparr>Annotations := [internalUUIDSchemeAnnotation \<mapsto> legacyUUIDScheme,
                                       internalFSUUIDAnnotation \<mapsto> FileSystemUUID (FSInfo bd)]\<rparr>
            in ((False, fst (UpdateBlockDevice env (Clientset pe) w existing)),
                pe\<lparr>Clientset := snd (UpdateBlockDevice env (Clientset pe) w existing),
                   calls := calls pe @ [UpdateCall w existing]\<rparr>))"
  using assms
  by (simp add: upgradeDeviceInUseByLocalPV_def createOrUpdateWithFSUUID_def
      createOrUpdateWithAnnotation_eq Let_def)

lemma upgradeDeviceInUseByCStor_claimed:
  assumes "(if snd (generateUUID env bd)
            then GetExistingBlockDeviceResource bdAPIList (fst (generateUUID env bd))
            else None) = None"
    and "(case getExistingBDWithPartitionUUID bd bdAPIList of
            Some r \<Rightarrow> Some r
          | None \<Rightarrow> GetExistingBlockDeviceResource bdAPIList (fst (generateLegacyUUID env bd)))
         = Some existing"
    and "ClaimState (Status existing) \<noteq> BlockDeviceUnclaimed"
  shows "upgradeDeviceInUseByCStor env bd bdAPIList pe =
           (let w = (ToDevice env (NewDeviceInfoFromBlockDevice env (bd\<lparr>UUID := Name existing\<rparr>)))
                      \<lparr>Annotations := [internalUUIDSchemeAnnotation \<mapsto> legacyUUIDScheme,
                                       internalPartitionUUIDAnnotation \<mapsto>
                                         PartitionTableUUID (PartitionInfo bd)]\<rparr>
            in ((False, fst (UpdateBlockDevice env (Clientset pe) w existing)),
                pe\<lparr>Clientset := snd (UpdateBlockDevice env (Clientset pe) w existing),
                   calls := calls pe @ [UpdateCall w existing]\<rparr>))"
  using assms
  by (simp add: upgradeDeviceInUseByCStor_def createOrUpdateWithPartitionUUID_def
      createOrUpdateWithAnnotation_eq Let_def)

lemma addBlockDevice_upgrade_stops:
  assumes "fst (fst (handleUnmanagedDevices env bd bdAPIList pe))"
    and "isParentDeviceInUse bd pe = (False, None)"
    and "upgradeBD env bd bdAPIList pe = ((False, err), pe')"
  shows "addBlockDevice env bd bdAPIList pe = (err, pe')"
  using assms by (simp add: addBlockDevice_eq)

lemma addBlockDevice_LocalPV_claimed:
  assumes h: "fst (fst (handleUnmanagedDevices env bd bdAPIList pe))"
    and p: "isParentDeviceInUse bd pe = (False, None)"
    and u: "InUse (DevUse bd)" "UsedBy (DevUse bd) = LocalPV"
    and n: "(if snd (generateUUID env bd)
            then GetExistingBlockDeviceResource bdAPIList (fst (generateUUID env bd))
            else None) = None"
    and e: "(case getExistingBDWithFsUuid bd bdAPIList of
            Some r \<Rightarrow> Some r
          | None \<Rightarrow> GetExistingBlockDeviceResource bdAPIList (fst (generateLegacyUUID env bd)))
         = Some existing"
    and c: "ClaimState (Status existing) \<noteq> BlockDeviceUnclaimed"
  shows "addBlockDevice env bd bdAPIList pe =
           (let w = (ToDevice env (NewDeviceInfoFromBlockDevice env (bd\<lparr>UUID := Name existing\<rparr>)))
                      \<lparr>Annotations := [internalUUIDSchemeAnnotation \<mapsto> legacyUUIDScheme,
                                       internalFSUUIDAnnotation \<mapsto> FileSystemUUID (FSInfo bd)]\<rparr>
            in (fst (UpdateBlockDevice env (Clientset pe) w existing),
                pe\<lparr>Clientset := snd (UpdateBlockDevice env (Clientset pe) w existing),
                   calls := calls pe @ [UpdateCall w existing]\<rparr>))"
proof -
  note l = upgradeDeviceInUseByLocalPV_claimed [OF n e c, of pe]
  have "upgradeBD env bd bdAPIList pe =
          (let w = (ToDevice env (NewDeviceInfoFromBlockDevice env (bd\<lparr>UUID := Name existing\<rparr>)))
                      \<lparr>Annotations := [internalUUIDSchemeAnnotation \<mapsto> legacyUUIDScheme,
                                       internalFSUUIDAnnotation \<mapsto> FileSystemUUID (FSInfo bd)]\<rparr>
           in ((False, fst (UpdateBlockDevice env (Clientset pe) w existing)),
               pe\<lparr>Clientset := snd (UpdateBlockDevice env (Clientset pe) w existing),
                  calls := calls pe @ [UpdateCall w existing]\<rparr>))"
    using u by (simp add: upgradeBD_def l Let_def)
  then show ?thesis
    using h p by (simp add: addBlockDevice_eq Let_def)
qed

lemma addBlockDevice_CStor_claimed:
  assumes h: "fst (fst (handleUnmanagedDevices env bd bdAPIList pe))"
    and p: "isParentDeviceInUse bd pe = (False, None)"
    and u: "InUse (DevUse bd)" "UsedBy (DevUse bd) = CStor"
    and n: "(if snd (generateUUID env bd)
            then GetExistingBlockDeviceResource bdAPIList (fst (generateUUID env bd))
            else None) = None"
    and e: "(case getExistingBDWithPartitionUUID bd bdAPIList of
            Some r \<Rightarrow> Some r
          | None \<Rightarrow> GetExistingBlockDeviceResource bdAPIList (fst (generateLegacyUUID env bd)))
         = Some existing"
    and c: "ClaimState (Status existing) \<noteq> BlockDeviceUnclaimed"
  shows "addBlockDevice env bd bdAPIList pe =
           (let w = (ToDevice env (NewDeviceInfoFromBlockDevice env (bd\<lparr>UUID := Name existing\<rparr>)))
                      \<lparr>Annotations := [internalUUIDSchemeAnnotation \<mapsto> legacyUUIDScheme,
                                       internalPartitionUUIDAnnotation \<mapsto>
                                         PartitionTableUUID (PartitionInfo bd)]\<rparr>
            in (fst (UpdateBlockDevice env (Clientset pe) w existing),
                pe\<lparr>Clientset := snd (UpdateBlockDevice env (Clientset pe) w existing),
                   calls := calls pe @ [UpdateCall w existing]\<rparr>))"
proof -
  note l = upgradeDeviceInUseByCStor_claimed [OF n e c, of pe]
  have "upgradeBD env bd bdAPIList pe =
          (let w = (ToDevice env (NewDeviceInfoFromBlockDevice env (bd\<lparr>UUID := Name existing\<rparr>)))
                      \<lparr>Annotations := [internalUUIDSchemeAnnotation \<mapsto> legacyUUIDScheme,
                                       internalPartitionUUIDAnnotation \<mapsto>
                                         PartitionTableUUID (PartitionInfo bd)]\<rparr>
           in ((False, fst (UpdateBlockDevice env (Clientset pe) w existing)),
               pe\<lparr>Clientset := snd (UpdateBlockDevice env (Clientset pe) w existing),
                  calls := calls pe @ [UpdateCall w existing]\<rparr>))"
    using u by (simp add: upgradeBD_def l Let_def)
  then show ?thesis
    using h p by (simp add: addBlockDevice_eq Let_def)
qed

lemma deactivate_addBlockDevice:
  assumes "DeactivateCall r \<in> set (issued pe (snd (addBlockDevice env bd bdAPIList pe)))"
  shows "ClaimState (Status r) = BlockDeviceUnclaimed
       \<and> DeviceType (DeviceAttributes bd) = BlockDeviceTypePartition
       \<and> (\<exists>parentBD.
             ((BDHierarchy pe)(DevPath bd \<mapsto> bd\<lparr>UUID := fst (generateUUID env bd)\<rparr>))
               (Parent (DependentDevices bd)) = Some parentBD
             \<and> GetBlockDevice env (Clientset pe) (fst (generateUUID env parentBD)) = Inr r)"
proof (cases "reachesGeneric env bd bdAPIList pe")
  case True
  then show ?thesis
    using assms deactivate_addBlockDevice_generic [of r pe env bd bdAPIList]
    by (simp add: reachesGeneric_eq del: fun_upd_apply)
next
  case False
  have "DeactivateCall r \<notin> set (issued pe (snd (addBlockDevice env bd bdAPIList pe)))"
    using False no_deactivate_handleUnmanagedDevices [of r pe env bd bdAPIList]
      no_deactivate_upgradeBD [of r pe env bd bdAPIList]
    by (auto simp: reachesGeneric_iff addBlockDevice_eq issued_same isParentDeviceInUse_def
        split: if_splits option.splits)
  with assms show ?thesis by blast
qed

lemma update_addBlockDevice:
  assumes "UpdateCall w e \<in> set (issued pe (snd (addBlockDevice env bd bdAPIList pe)))"
  shows "\<exists>u a. w = (ToDevice env (NewDeviceInfoFromBlockDevice env (bd\<lparr>UUID := u\<rparr>)))
                     \<lparr>Annotations := a\<rparr>
              \<and> (u = Name e
                 \<or> GetExistingBlockDeviceResource bdAPIList u = Some e
                 \<or> GetBlockDevice env (Clientset pe) u = Inr e)"
proof (cases "reachesGeneric env bd bdAPIList pe")
  case True
  then show ?thesis
    using assms update_addBlockDevice_generic [of w e pe env bd bdAPIList]
    by (auto simp: reachesGeneric_eq)
next
  case False
  then have "UpdateCall w e \<in> set (issued pe (snd (upgradeBD env bd bdAPIList pe)))"
    using assms no_update_handleUnmanagedDevices [of w e pe env bd bdAPIList]
    by (auto simp: reachesGeneric_iff addBlockDevice_eq issued_same isParentDeviceInUse_def
        split: if_splits option.splits)
  from update_upgradeBD [OF this] show ?thesis by blast
qed

text \<open>
  Claim C2. On the calls of the handler, for every store client: every Deactivate call
  that the handler issues is on the resource that the store returned for the
  identifier of the partition's parent, and that resource's claim state is Unclaimed;
  every Update call is against a resource that the handler looked up, with the
  converted device under that resource's own identifier (the resource's name, or the
  identifier it was found under in the snapshot or in the store) and a fresh annotation
  map. When the resource found under the device's own identifier is not Unclaimed, the
  handler issues exactly one call, an Update against that resource with the refreshed
  device data and the annotation \<open>uuid-scheme=gpt\<close>, and returns what the update
  returned. When an upgrade (LocalPV or CStor) finds no resource under the primary
  identifier and a legacy resource that is not Unclaimed, the handler issues exactly
  one call, an Update against that resource with the device under the resource's name
  and the legacy annotations, and returns what the update returned. On the store of the
  spec, whose records are named by their identifiers: a resource that is not Unclaimed
  before the event is still recorded under its identifier after it, with the same name
  and the same claim state, and it is active if it was.
\<close>

theorem claimed_resource_only_updated_in_place:
  "(\<forall>c \<in> set (issued pe (snd (addBlockDevice env bd bdAPIList pe))).
      \<forall>r. c = DeactivateCall r \<longrightarrow>
        ClaimState (Status r) = BlockDeviceUnclaimed
        \<and> DeviceType (DeviceAttributes bd) = BlockDeviceTypePartition
        \<and> (\<exists>parentBD.
              ((BDHierarchy pe)(DevPath bd \<mapsto> bd\<lparr>UUID := fst (generateUUID env bd)\<rparr>))
                (Parent (DependentDevices bd)) = Some parentBD
              \<and> GetBlockDevice env (Clientset pe) (fst (generateUUID env parentBD)) = Inr r))
   \<and> (\<forall>c \<in> set (issued pe (snd (addBlockDevice env bd bdAPIList pe))).
      \<forall>w e. c = UpdateCall w e \<longrightarrow>
        (\<exists>u a. w = (ToDevice env (NewDeviceInfoFromBlockDevice env (bd\<lparr>UUID := u\<rparr>)))
                     \<lparr>Annotations := a\<rparr>
              \<and> (u = Name e
                 \<or> GetExistingBlockDeviceResource bdAPIList u = Some e
                 \<or> GetBlockDevice env (Clientset pe) u = Inr e)))
   \<and> (reachesGeneric env bd bdAPIList pe
        \<and> snd (generateUUID env bd)
        \<and> GetBlockDevice env (Clientset pe) (fst (generateUUID env bd)) = Inr bdAPI
        \<and> ClaimState (Status bdAPI) \<noteq> BlockDeviceUnclaimed
      \<longrightarrow> issued pe (snd (addBlockDevice env bd bdAPIList pe)) =
            [UpdateCall ((ToDevice env (NewDeviceInfoFromBlockDevice env
                                          (bd\<lparr>UUID := fst (generateUUID env bd)\<rparr>)))
                           \<lparr>Annotations := [internalUUIDSchemeAnnotation \<mapsto> gptUUIDScheme]\<rparr>)
               bdAPI]
          \<and> fst (addBlockDevice env bd bdAPIList pe) =
              fst (UpdateBlockDevice env (Clientset pe)
                     ((ToDevice env (NewDeviceInfoFromBlockDevice env
                                       (bd\<lparr>UUID := fst (generateUUID env bd)\<rparr>)))
                        \<lparr>Annotations := [internalUUIDSchemeAnnotation \<mapsto> gptUUIDScheme]\<rparr>)
                     bdAPI)
          \<and> Clientset (snd (addBlockDevice env bd bdAPIList pe)) =
              snd (UpdateBlockDevice env (Clientset pe)
                     ((ToDevice env (NewDeviceInfoFromBlockDevice env
                                       (bd\<lparr>UUID := fst (generateUUID env bd)\<rparr>)))
                        \<lparr>Annotations := [internalUUIDSchemeAnnotation \<mapsto> gptUUIDScheme]\<rparr>)
                     bdAPI))
   \<and> (fst (fst (handleUnmanagedDevices env bd bdAPIList pe))
        \<and> isParentDeviceInUse bd pe = (False, None)
        \<and> InUse (DevUse bd) \<and> UsedBy (DevUse bd) = LocalPV
        \<and> (if snd (generateUUID env bd)
            then GetExistingBlockDeviceResource bdAPIList (fst (generateUUID env bd))
            else None) = None
        \<and> (case getExistingBDWithFsUuid bd bdAPIList of
              Some r \<Rightarrow> Some r
            | None \<Rightarrow> GetExistingBlockDeviceResource bdAPIList (fst (generateLegacyUUID env bd)))
           = Some existing
        \<and> ClaimState (Status existing) \<noteq> BlockDeviceUnclaimed
      \<longrightarrow> issued pe (snd (addBlockDevice env bd bdAPIList pe)) =
            [UpdateCall ((ToDevice env (NewDeviceInfoFromBlockDevice env
                                          (bd\<lparr>UUID := Name existing\<rparr>)))
                           \<lparr>Annotations := [internalUUIDSchemeAnnotation \<mapsto> legacyUUIDScheme,
                                            internalFSUUIDAnnotation \<mapsto>
                                              FileSystemUUID (FSInfo bd)]\<rparr>)
               existing]
          \<and> fst (addBlockDevice env bd bdAPIList pe) =
              fst (UpdateBlockDevice env (Clientset pe)
                     ((ToDevice env (NewDeviceInfoFromBlockDevice env
                                       (bd\<lparr>UUID := Name existing\<rparr>)))
                        \<lparr>Annotations := [internalUUIDSchemeAnnotation \<mapsto> legacyUUIDScheme,
                                         internalFSUUIDAnnotation \<mapsto>
                                           FileSystemUUID (FSInfo bd)]\<rparr>)
                     existing)
          \<and> Clientset (snd (addBlockDevice env bd bdAPIList pe)) =
              snd (UpdateBlockDevice env (Clientset pe)
                     ((ToDevice env (NewDeviceInfoFromBlockDevice env
                                       (bd\<lparr>UUID := Name existing\<rparr>)))
                        \<lparr>Annotations := [internalUUIDSchemeAnnotation \<mapsto> legacyUUIDScheme,
                                         internalFSUUIDAnnotation \<mapsto>
                                           FileSystemUUID (FSInfo bd)]\<rparr>)
                     existing))
   \<and> (fst (fst (handleUnmanagedDevices env bd bdAPIList pe))
        \<and> isParentDeviceInUse bd pe = (False, None)
        \<and> InUse (DevUse bd) \<and> UsedBy (DevUse bd) = CStor
        \<and> (if snd (generateUUID env bd)
            then GetExistingBlockDeviceResource bdAPIList (fst (generateUUID env bd))
            else None) = None
        \<and> (case getExistingBDWithPartitionUUID bd bdAPIList of
              Some r \<Rightarrow> Some r
            | None \<Rightarrow> GetExistingBlockDeviceResource bdAPIList (fst (generateLegacyUUID env bd)))
           = Some existing
        \<and> ClaimState (Status existing) \<noteq> BlockDeviceUnclaimed
      \<longrightarrow> issued pe (snd (addBlockDevice env bd bdAPIList pe)) =
            [UpdateCall ((ToDevice env (NewDeviceInfoFromBlockDevice env
                                          (bd\<lparr>UUID := Name existing\<rparr>)))
                           \<lparr>Annotations := [internalUUIDSchemeAnnotation \<mapsto> legacyUUIDScheme,
                                            internalPartitionUUIDAnnotation \<mapsto>
                                              PartitionTableUUID (PartitionInfo bd)]\<rparr>)
               existing]
          \<and> fst (addBlockDevice env bd bdAPIList pe) =
              fst (UpdateBlockDevice env (Clientset pe)
                     ((ToDevice env (NewDeviceInfoFromBlockDevice env
                                       (bd\<lparr>UUID := Name existing\<rparr>)))
                        \<lparr>Annotations := [internalUUIDSchemeAnnotation \<mapsto> legacyUUIDScheme,
                                         internalPartitionUUIDAnnotation \<mapsto>
                                           PartitionTableUUID (PartitionInfo bd)]\<rparr>)
                     existing)
          \<and> Clientset (snd (addBlockDevice env bd bdAPIList pe)) =
              snd (UpdateBlockDevice env (Clientset pe)
                     ((ToDevice env (NewDeviceInfoFromBlockDevice env
                                       (bd\<lparr>UUID := Name existing\<rparr>)))
                        \<lparr>Annotations := [internalUUIDSchemeAnnotation \<mapsto> legacyUUIDScheme,
                                         internalPartitionUUIDAnnotation \<mapsto>
                                           PartitionTableUUID (PartitionInfo bd)]\<rparr>)
                     existing))
   \<and> ((\<forall>k' r'. Clientset spe k' = Some r' \<longrightarrow> Name r' = k')
        \<and> Clientset spe k = Some r
        \<and> ClaimState (Status r) \<noteq> BlockDeviceUnclaimed
      \<longrightarrow> (\<exists>r'. Clientset (snd (addBlockDevice (specEnv p lg z part) bd bdAPIList spe)) k = Some r'
               \<and> Name r' = Name r
               \<and> ClaimState (Status r') = ClaimState (Status r)
               \<and> (Active (Status r) \<longrightarrow> Active (Status r'))))"
proof (intro conjI impI ballI allI)
  fix c r
  assume "c \<in> set (issued pe (snd (addBlockDevice env bd bdAPIList pe)))"
    and "c = DeactivateCall r"
  then have d: "DeactivateCall r \<in> set (issued pe (snd (addBlockDevice env bd bdAPIList pe)))"
    by simp
  note k = deactivate_addBlockDevice [OF d]
  from k show "ClaimState (Status r) = BlockDeviceUnclaimed" by blast
  from k show "DeviceType (DeviceAttributes bd) = BlockDeviceTypePartition" by blast
  from k show "\<exists>parentBD.
              ((BDHierarchy pe)(DevPath bd \<mapsto> bd\<lparr>UUID := fst (generateUUID env bd)\<rparr>))
                (Parent (DependentDevices bd)) = Some parentBD
              \<and> GetBlockDevice env (Clientset pe) (fst (generateUUID env parentBD)) = Inr r"
    by blast
next
  fix c w e
  assume "c \<in> set (issued pe (snd (addBlockDevice env bd bdAPIList pe)))"
    and "c = UpdateCall w e"
  then have "UpdateCall w e \<in> set (issued pe (snd (addBlockDevice env bd bdAPIList pe)))"
    by simp
  then show "\<exists>u a. w = (ToDevice env (NewDeviceInfoFromBlockDevice env (bd\<lparr>UUID := u\<rparr>)))
                     \<lparr>Annotations := a\<rparr>
              \<and> (u = Name e
                 \<or> GetExistingBlockDeviceResource bdAPIList u = Some e
                 \<or> GetBlockDevice env (Clientset pe) u = Inr e)"
    by (rule update_addBlockDevice)
next
  assume a: "reachesGeneric env bd bdAPIList pe
        \<and> snd (generateUUID env bd)
        \<and> GetBlockDevice env (Clientset pe) (fst (generateUUID env bd)) = Inr bdAPI
        \<and> ClaimState (Status bdAPI) \<noteq> BlockDeviceUnclaimed"
  then have g: "addBlockDevice env bd bdAPIList pe = addBlockDevice_generic env bd bdAPIList pe"
    by (simp add: reachesGeneric_eq)
  show "issued pe (snd (addBlockDevice env bd bdAPIList pe)) =
            [UpdateCall ((ToDevice env (NewDeviceInfoFromBlockDevice env
                                          (bd\<lparr>UUID := fst (generateUUID env bd)\<rparr>)))
                           \<lparr>Annotations := [internalUUIDSchemeAnnotation \<mapsto> gptUUIDScheme]\<rparr>)
               bdAPI]"
    using a
    by (simp add: g addBlockDevice_generic_def addBlockDeviceToHierarchyCache_def
        createOrUpdateWithAnnotation_eq issued_def Let_def)
  show "fst (addBlockDevice env bd bdAPIList pe) =
              fst (UpdateBlockDevice env (Clientset pe)
                     ((ToDevice env (NewDeviceInfoFromBlockDevice env
                                       (bd\<lparr>UUID := fst (generateUUID env bd)\<rparr>)))
                        \<lparr>Annotations := [internalUUIDSchemeAnnotation \<mapsto> gptUUIDScheme]\<rparr>)
                     bdAPI)"
    using a
    by (simp add: g addBlockDevice_generic_def addBlockDeviceToHierarchyCache_def
        createOrUpdateWithAnnotation_eq Let_def)
  show "Clientset (snd (addBlockDevice env bd bdAPIList pe)) =
              snd (UpdateBlockDevice env (Clientset pe)
                     ((ToDevice env (NewDeviceInfoFromBlockDevice env
                                       (bd\<lparr>UUID := fst (generateUUID env bd)\<rparr>)))
                        \<lparr>Annotations := [internalUUIDSchemeAnnotation \<mapsto> gptUUIDScheme]\<rparr>)
                     bdAPI)"
    using a
    by (simp add: g addBlockDevice_generic_def addBlockDeviceToHierarchyCache_def
        createOrUpdateWithAnnotation_eq Let_def)
next
  assume a: "fst (fst (handleUnmanagedDevices env bd bdAPIList pe))
        \<and> isParentDeviceInUse bd pe = (False, None)
        \<and> InUse (DevUse bd) \<and> UsedBy (DevUse bd) = LocalPV
        \<and> (if snd (generateUUID env bd)
            then GetExistingBlockDeviceResource bdAPIList (fst (generateUUID env bd))
            else None) = None
        \<and> (case getExistingBDWithFsUuid bd bdAPIList of
              Some r \<Rightarrow> Some r
            | None \<Rightarrow> GetExistingBlockDeviceResource bdAPIList (fst (generateLegacyUUID env bd)))
           = Some existing
        \<and> ClaimState (Status existing) \<noteq> BlockDeviceUnclaimed"
  have l: "addBlockDevice env bd bdAPIList pe =
           (let w = (ToDevice env (NewDeviceInfoFromBlockDevice env (bd\<lparr>UUID := Name existing\<rparr>)))
                      \<lparr>Annotations := [internalUUIDSchemeAnnotation \<mapsto> legacyUUIDScheme,
                                       internalFSUUIDAnnotation \<mapsto> FileSystemUUID (FSInfo bd)]\<rparr>
            in (fst (UpdateBlockDevice env (Clientset pe) w existing),
                pe\<lparr>Clientset := snd (UpdateBlockDevice env (Clientset pe) w existing),
                   calls := calls pe @ [UpdateCall w existing]\<rparr>))"
    using a by (intro addBlockDevice_LocalPV_claimed) blast+
  show "issued pe (snd (addBlockDevice env bd bdAPIList pe)) =
            [UpdateCall ((ToDevice env (NewDeviceInfoFromBlockDevice env
                                          (bd\<lparr>UUID := Name existing\<rparr>)))
                           \<lparr>Annotations := [internalUUIDSchemeAnnotation \<mapsto> legacyUUIDScheme,
                                            internalFSUUIDAnnotation \<mapsto>
                                              FileSystemUUID (FSInfo bd)]\<rparr>)
               existing]"
    by (simp add: l issued_def Let_def)
  show "fst (addBlockDevice env bd bdAPIList pe) =
              fst (UpdateBlockDevice env (Clientset pe)
                     ((ToDevice env (NewDeviceInfoFromBlockDevice env
                                       (bd\<lparr>UUID := Name existing\<rparr>)))
                        \<lparr>Annotations := [internalUUIDSchemeAnnotation \<mapsto> legacyUUIDScheme,
                                         internalFSUUIDAnnotation \<mapsto>
                                           FileSystemUUID (FSInfo bd)]\<rparr>)
                     existing)"
    by (simp add: l Let_def)
  show "Clientset (snd (addBlockDevice env bd bdAPIList pe)) =
              snd (UpdateBlockDevice env (Clientset pe)
                     ((ToDevice env (NewDeviceInfoFromBlockDevice env
                                       (bd\<lparr>UUID := Name existing\<rparr>)))
                        \<lparr>Annotations := [internalUUIDSchemeAnnotation \<mapsto> legacyUUIDScheme,
                                         internalFSUUIDAnnotation \<mapsto>
                                           FileSystemUUID (FSInfo bd)]\<rparr>)
                     existing)"
    by (simp add: l Let_def)
next
  assume a: "fst (fst (handleUnmanagedDevices env bd bdAPIList pe))
        \<and> isParentDeviceInUse bd pe = (False, None)
        \<and> InUse (DevUse bd) \<and> UsedBy (DevUse bd) = CStor
        \<and> (if snd (generateUUID env bd)
            then GetExistingBlockDeviceResource bdAPIList (fst (generateUUID env bd))
            else None) = None
        \<and> (case getExistingBDWithPartitionUUID bd bdAPIList of
              Some r \<Rightarrow> Some r
            | None \<Rightarrow> GetExistingBlockDeviceResource bdAPIList (fst (generateLegacyUUID env bd)))
           = Some existing
        \<and> ClaimState (Status existing) \<noteq> BlockDeviceUnclaimed"
  have l: "addBlockDevice env bd bdAPIList pe =
           (let w = (ToDevice env (NewDeviceInfoFromBlockDevice env (bd\<lparr>UUID := Name existing\<rparr>)))
                      \<lparr>Annotations := [internalUUIDSchemeAnnotation \<mapsto> legacyUUIDScheme,
                                       internalPartitionUUIDAnnotation \<mapsto>
                                         PartitionTableUUID (PartitionInfo bd)]\<rparr>
            in (fst (UpdateBlockDevice env (Clientset pe) w existing),
                pe\<lparr>Clientset := snd (UpdateBlockDevice env (Clientset pe) w existing),
                   calls := calls pe @ [UpdateCall w existing]\<rparr>))"
    using a by (intro addBlockDevice_CStor_claimed) blast+
  show "issued pe (snd (addBlockDevice env bd bdAPIList pe)) =
            [UpdateCall ((ToDevice env (NewDeviceInfoFromBlockDevice env
                                          (bd\<lparr>UUID := Name existing\<rparr>)))
                           \<lparr>Annotations := [internalUUIDSchemeAnnotation \<mapsto> legacyUUIDScheme,
                                            internalPartitionUUIDAnnotation \<mapsto>
                                              PartitionTableUUID (PartitionInfo bd)]\<rparr>)
               existing]"
    by (simp add: l issued_def Let_def)
  show "fst (addBlockDevice env bd bdAPIList pe) =
              fst (UpdateBlockDevice env (Clientset pe)
                     ((ToDevice env (NewDeviceInfoFromBlockDevice env
                                       (bd\<lparr>UUID := Name existing\<rparr>)))
                        \<lparr>Annotations := [internalUUIDSchemeAnnotation \<mapsto> legacyUUIDScheme,
                                         internalPartitionUUIDAnnotation \<mapsto>
                                           PartitionTableUUID (PartitionInfo bd)]\<rparr>)
                     existing)"
    by (simp add: l Let_def)
  show "Clientset (snd (addBlockDevice env bd bdAPIList pe)) =
              snd (UpdateBlockDevice env (Clientset pe)
                     ((ToDevice env (NewDeviceInfoFromBlockDevice env
                                       (bd\<lparr>UUID := Name existing\<rparr>)))
                        \<lparr>Annotations := [internalUUIDSchemeAnnotation \<mapsto> legacyUUIDScheme,
                                         internalPartitionUUIDAnnotation \<mapsto>
                                           PartitionTableUUID (PartitionInfo bd)]\<rparr>)
                     existing)"
    by (simp add: l Let_def)
next
  assume a: "(\<forall>k' r'. Clientset spe k' = Some r' \<longrightarrow> Name r' = k')
        \<and> Clientset spe k = Some r
        \<and> ClaimState (Status r) \<noteq> BlockDeviceUnclaimed"
  then have wf: "\<forall>k' r'. Clientset spe k' = Some r' \<longrightarrow> Name r' = k'"
    and r: "Clientset spe k = Some r"
    and c: "ClaimState (Status r) \<noteq> BlockDeviceUnclaimed"
    by blast+
  from wf r have n: "Name r = k" by blast
  from claimKept_addBlockDevice [OF wf r c, of p lg z part bd bdAPIList]
  show "\<exists>r'. Clientset (snd (addBlockDevice (specEnv p lg z part) bd bdAPIList spe)) k = Some r'
               \<and> Name r' = Name r
               \<and> ClaimState (Status r') = ClaimState (Status r)
               \<and> (Active (Status r) \<longrightarrow> Active (Status r'))"
    by (auto simp: claimKept_def n split: option.splits)
qed

theorem claimed_resource_only_updated_in_place_witness:
  "reachesGeneric exampleEnv
     (exampleDevice ''sdf'' BlockDeviceTypeDisk [] [] [] False NoEngine)
     [exampleResource ''id-sdf'' BlockDeviceClaimed]
     (exampleController Map.empty [''id-sdf'' \<mapsto> exampleResource ''id-sdf'' BlockDeviceClaimed])
   \<and> GetBlockDevice exampleEnv [''id-sdf'' \<mapsto> exampleResource ''id-sdf'' BlockDeviceClaimed] ''id-sdf''
     = Inr (exampleResource ''id-sdf'' BlockDeviceClaimed)
   \<and> issued
       (exampleController Map.empty [''id-sdf'' \<mapsto> exampleResource ''id-sdf'' BlockDeviceClaimed])
       (snd (addBlockDevice exampleEnv
               (exampleDevice ''sdf'' BlockDeviceTypeDisk [] [] [] False NoEngine)
               [exampleResource ''id-sdf'' BlockDeviceClaimed]
               (exampleController Map.empty
                  [''id-sdf'' \<mapsto> exampleResource ''id-sdf'' BlockDeviceClaimed])))
     = [UpdateCall
          ((Spec_ToDevice ((exampleDevice ''sdf'' BlockDeviceTypeDisk [] [] [] False NoEngine)
                             \<lparr>UUID := ''id-sdf''\<rparr>))
             \<lparr>Annotations := [internalUUIDSchemeAnnotation \<mapsto> gptUUIDScheme]\<rparr>)
          (exampleResource ''id-sdf'' BlockDeviceClaimed)]
   \<and> Clientset
       (snd (addBlockDevice exampleEnv
               (exampleDevice ''sdf'' BlockDeviceTypeDisk [] [] [] False NoEngine)
               [exampleResource ''id-sdf'' BlockDeviceClaimed]
               (exampleController Map.empty
                  [''id-sdf'' \<mapsto> exampleResource ''id-sdf'' BlockDeviceClaimed])))
     = [''id-sdf'' \<mapsto>
          (exampleResource ''id-sdf'' BlockDeviceClaimed)
            \<lparr>Annotations := [internalUUIDSchemeAnnotation \<mapsto> gptUUIDScheme]\<rparr>]
   \<and> issued
       (exampleController
          [''sde'' \<mapsto> exampleDevice ''sde'' BlockDeviceTypeDisk [] [''sde1''] [] False NoEngine]
          [''id-sde'' \<mapsto> exampleResource ''id-sde'' BlockDeviceUnclaimed])
       (snd (addBlockDevice exampleEnv
               (exampleDevice ''sde1'' BlockDeviceTypePartition ''sde'' [] [] False NoEngine)
               [exampleResource ''id-sde'' BlockDeviceUnclaimed]
               (exampleController
                  [''sde'' \<mapsto> exampleDevice ''sde'' BlockDeviceTypeDisk [] [''sde1''] [] False NoEngine]
                  [''id-sde'' \<mapsto> exampleResource ''id-sde'' BlockDeviceUnclaimed])))
     = [DeactivateCall (exampleResource ''id-sde'' BlockDeviceUnclaimed),
        CreateCall
          ((Spec_ToDevice ((exampleDevice ''sde1'' BlockDeviceTypePartition ''sde'' [] [] False NoEngine)
                             \<lparr>UUID := ''id-sde1''\<rparr>))
             \<lparr>Annotations := [internalUUIDSchemeAnnotation \<mapsto> gptUUIDScheme]\<rparr>)]
   \<and> ClaimState (Status (exampleResource ''id-sde'' BlockDeviceUnclaimed)) = BlockDeviceUnclaimed
   \<and> issued
       (exampleController Map.empty
          [''bd-old'' \<mapsto> (exampleResource ''bd-old'' BlockDeviceClaimed)
                           \<lparr>Annotations := [internalFSUUIDAnnotation \<mapsto> ''fs1'']\<rparr>])
       (snd (addBlockDevice exampleEnv
               (exampleDevice ''sdl'' BlockDeviceTypeDisk [] [] [] True LocalPV)
               [(exampleResource ''bd-old'' BlockDeviceClaimed)
                  \<lparr>Annotations := [internalFSUUIDAnnotation \<mapsto> ''fs1'']\<rparr>]
               (exampleController Map.empty
                  [''bd-old'' \<mapsto> (exampleResource ''bd-old'' BlockDeviceClaimed)
                                   \<lparr>Annotations := [internalFSUUIDAnnotation \<mapsto> ''fs1'']\<rparr>])))
     = [UpdateCall
          ((Spec_ToDevice ((exampleDevice ''sdl'' BlockDeviceTypeDisk [] [] [] True LocalPV)
                             \<lparr>UUID := ''bd-old''\<rparr>))
             \<lparr>Annotations := [internalUUIDSchemeAnnotation \<mapsto> legacyUUIDScheme,
                              internalFSUUIDAnnotation \<mapsto> ''fs1'']\<rparr>)
          ((exampleResource ''bd-old'' BlockDeviceClaimed)
             \<lparr>Annotations := [internalFSUUIDAnnotation \<mapsto> ''fs1'']\<rparr>)]
   \<and> Clientset
       (snd (addBlockDevice exampleEnv
               (exampleDevice ''sdl'' BlockDeviceTypeDisk [] [] [] True LocalPV)
               [(exampleResource ''bd-old'' BlockDeviceClaimed)
                  \<lparr>Annotations := [internalFSUUIDAnnotation \<mapsto> ''fs1'']\<rparr>]
               (exampleController Map.empty
                  [''bd-old'' \<mapsto> (exampleResource ''bd-old'' BlockDeviceClaimed)
                                   \<lparr>Annotations := [internalFSUUIDAnnotation \<mapsto> ''fs1'']\<rparr>])))
     = [''bd-old'' \<mapsto>
          (exampleResource ''bd-old'' BlockDeviceClaimed)
            \<lparr>Annotations := [internalUUIDSchemeAnnotation \<mapsto> legacyUUIDScheme,
                             internalFSUUIDAnnotation \<mapsto> ''fs1'']\<rparr>]
   \<and> issued
       (exampleController Map.empty [''old-sdm'' \<mapsto> exampleResource ''old-sdm'' BlockDeviceReleased])
       (snd (addBlockDevice exampleEnv
               (exampleDevice ''sdm'' BlockDeviceTypeDisk [] [] [] True CStor)
               [exampleResource ''old-sdm'' BlockDeviceReleased]
               (exampleController Map.empty
                  [''old-sdm'' \<mapsto> exampleResource ''old-sdm'' BlockDeviceReleased])))
     = [UpdateCall
          ((Spec_ToDevice ((exampleDevice ''sdm'' BlockDeviceTypeDisk [] [] [] True CStor)
                             \<lparr>UUID := ''old-sdm''\<rparr>))
             \<lparr>Annotations := [internalUUIDSchemeAnnotation \<mapsto> legacyUUIDScheme,
                              internalPartitionUUIDAnnotation \<mapsto> ''pt1'']\<rparr>)
          (exampleResource ''old-sdm'' BlockDeviceReleased)]
   \<and> (\<exists>r'. Clientset
              (snd (addBlockDevice exampleEnv
                      (exampleDevice ''sdm'' BlockDeviceTypeDisk [] [] [] True CStor)
                      [exampleResource ''old-sdm'' BlockDeviceReleased]
                      (exampleController Map.empty
                         [''old-sdm'' \<mapsto> exampleResource ''old-sdm'' BlockDeviceReleased])))
              ''old-sdm'' = Some r'
            \<and> Name r' = ''old-sdm''
            \<and> ClaimState (Status r') = BlockDeviceReleased
            \<and> Active (Status r'))"
proof -
  let ?bd = "exampleDevice ''sdf'' BlockDeviceTypeDisk [] [] [] False NoEngine"
  let ?res = "exampleResource ''id-sdf'' BlockDeviceClaimed"
  let ?pe = "exampleController Map.empty [''id-sdf'' \<mapsto> ?res]"
  have r: "reachesGeneric exampleEnv ?bd [?res] ?pe"
    by (simp add: reachesGeneric_def handleUnmanagedDevices_eq deviceInUseByZFSLocalPV_def
        isParentDeviceInUse_def upgradeBD_def exampleDevice_def)
  have g': "examplePrimary ?bd = (''id-sdf'', True)"
    by (simp add: examplePrimary_def exampleDevice_def)
  have g: "generateUUID exampleEnv ?bd = (''id-sdf'', True)"
    by (simp add: exampleEnv_simps g')
  have n: "GetBlockDevice exampleEnv [''id-sdf'' \<mapsto> ?res] ''id-sdf'' = Inr ?res"
    by (simp add: exampleEnv_simps Store_Get_def)
  have c: "ClaimState (Status ?res) \<noteq> BlockDeviceUnclaimed"
    by (simp add: exampleResource_def)
  have s: "Store_Update [''id-sdf'' \<mapsto> ?res]
             ((Spec_ToDevice (?bd\<lparr>UUID := ''id-sdf''\<rparr>))
                \<lparr>Annotations := [internalUUIDSchemeAnnotation \<mapsto> gptUUIDScheme]\<rparr>) ?res
           = (None, [''id-sdf'' \<mapsto>
                ?res\<lparr>Annotations := [internalUUIDSchemeAnnotation \<mapsto> gptUUIDScheme]\<rparr>])"
    by (simp add: Store_Update_def Spec_ToDevice_def exampleResource_def)
  note w = claimed_resource_only_updated_in_place [where pe = ?pe and env = exampleEnv
      and bd = ?bd and bdAPIList = "[?res]" and bdAPI = ?res]
  have a: "reachesGeneric exampleEnv ?bd [?res] ?pe
        \<and> snd (generateUUID exampleEnv ?bd)
        \<and> GetBlockDevice exampleEnv (Clientset ?pe) (fst (generateUUID exampleEnv ?bd)) = Inr ?res
        \<and> ClaimState (Status ?res) \<noteq> BlockDeviceUnclaimed"
    using r g n c by (simp add: exampleController_def)
  from w a have k:
    "issued ?pe (snd (addBlockDevice exampleEnv ?bd [?res] ?pe)) =
       [UpdateCall ((ToDevice exampleEnv (NewDeviceInfoFromBlockDevice exampleEnv
                                          (?bd\<lparr>UUID := fst (generateUUID exampleEnv ?bd)\<rparr>)))
                      \<lparr>Annotations := [internalUUIDSchemeAnnotation \<mapsto> gptUUIDScheme]\<rparr>) ?res]
     \<and> Clientset (snd (addBlockDevice exampleEnv ?bd [?res] ?pe)) =
         snd (UpdateBlockDevice exampleEnv (Clientset ?pe)
                ((ToDevice exampleEnv (NewDeviceInfoFromBlockDevice exampleEnv
                                       (?bd\<lparr>UUID := fst (generateUUID exampleEnv ?bd)\<rparr>)))
                   \<lparr>Annotations := [internalUUIDSchemeAnnotation \<mapsto> gptUUIDScheme]\<rparr>) ?res)"
    by blast
  have i: "issued ?pe (snd (addBlockDevice exampleEnv ?bd [?res] ?pe)) =
             [UpdateCall ((Spec_ToDevice (?bd\<lparr>UUID := ''id-sdf''\<rparr>))
                            \<lparr>Annotations := [internalUUIDSchemeAnnotation \<mapsto> gptUUIDScheme]\<rparr>) ?res]"
    using k by (simp add: g' exampleEnv_simps)
  have f: "Clientset (snd (addBlockDevice exampleEnv ?bd [?res] ?pe)) =
             [''id-sdf'' \<mapsto> ?res\<lparr>Annotations := [internalUUIDSchemeAnnotation \<mapsto> gptUUIDScheme]\<rparr>]"
    using k s by (simp add: g' exampleEnv_simps exampleController_def)
  let ?bd2 = "exampleDevice ''sde1'' BlockDeviceTypePartition ''sde'' [] [] False NoEngine"
  let ?res2 = "exampleResource ''id-sde'' BlockDeviceUnclaimed"
  let ?pe2 = "exampleController
                [''sde'' \<mapsto> exampleDevice ''sde'' BlockDeviceTypeDisk [] [''sde1''] [] False NoEngine]
                [''id-sde'' \<mapsto> ?res2]"
  have i2: "issued ?pe2 (snd (addBlockDevice exampleEnv ?bd2 [?res2] ?pe2)) =
              [DeactivateCall ?res2,
               CreateCall ((Spec_ToDevice (?bd2\<lparr>UUID := ''id-sde1''\<rparr>))
                             \<lparr>Annotations := [internalUUIDSchemeAnnotation \<mapsto> gptUUIDScheme]\<rparr>)]"
    by (simp add: addBlockDevice_eq handleUnmanagedDevices_eq deviceInUseByZFSLocalPV_def
        isParentDeviceInUse_def upgradeBD_def addBlockDevice_generic_def
        addBlockDeviceToHierarchyCache_def createOrUpdateWithAnnotation_eq
        Controller_DeactivateBlockDevice_def issued_def IsNotFound_def
        exampleEnv_simps examplePrimary_def exampleDevice_def exampleController_def
        exampleResource_def Store_Get_def Let_def)
  have "DeactivateCall ?res2 \<in> set (issued ?pe2 (snd (addBlockDevice exampleEnv ?bd2 [?res2] ?pe2)))"
    by (simp add: i2)
  with claimed_resource_only_updated_in_place [where pe = ?pe2 and env = exampleEnv
      and bd = ?bd2 and bdAPIList = "[?res2]"]
  have u2: "ClaimState (Status ?res2) = BlockDeviceUnclaimed"
    by blast
  let ?bd3 = "exampleDevice ''sdl'' BlockDeviceTypeDisk [] [] [] True LocalPV"
  let ?res3 = "(exampleResource ''bd-old'' BlockDeviceClaimed)
                 \<lparr>Annotations := [internalFSUUIDAnnotation \<mapsto> ''fs1'']\<rparr>"
  let ?pe3 = "exampleController Map.empty [''bd-old'' \<mapsto> ?res3]"
  let ?w3 = "(Spec_ToDevice (?bd3\<lparr>UUID := ''bd-old''\<rparr>))
               \<lparr>Annotations := [internalUUIDSchemeAnnotation \<mapsto> legacyUUIDScheme,
                                internalFSUUIDAnnotation \<mapsto> ''fs1'']\<rparr>"
  have a3: "fst (fst (handleUnmanagedDevices exampleEnv ?bd3 [?res3] ?pe3))
        \<and> isParentDeviceInUse ?bd3 ?pe3 = (False, None)
        \<and> InUse (DevUse ?bd3) \<and> UsedBy (DevUse ?bd3) = LocalPV
        \<and> (if snd (generateUUID exampleEnv ?bd3)
            then GetExistingBlockDeviceResource [?res3] (fst (generateUUID exampleEnv ?bd3))
            else None) = None
        \<and> (case getExistingBDWithFsUuid ?bd3 [?res3] of
              Some r \<Rightarrow> Some r
            | None \<Rightarrow> GetExistingBlockDeviceResource [?res3] (fst (generateLegacyUUID exampleEnv ?bd3)))
           = Some ?res3
        \<and> ClaimState (Status ?res3) \<noteq> BlockDeviceUnclaimed"
    by (simp add: handleUnmanagedDevices_eq deviceInUseByZFSLocalPV_def isParentDeviceInUse_def
        getExistingBDWithFsUuid_def exampleEnv_simps examplePrimary_def exampleDevice_def
        exampleResource_def)
  from claimed_resource_only_updated_in_place [where pe = ?pe3 and env = exampleEnv
      and bd = ?bd3 and bdAPIList = "[?res3]" and existing = ?res3] a3
  have k3:
    "issued ?pe3 (snd (addBlockDevice exampleEnv ?bd3 [?res3] ?pe3)) =
       [UpdateCall ((ToDevice exampleEnv (NewDeviceInfoFromBlockDevice exampleEnv
                                          (?bd3\<lparr>UUID := Name ?res3\<rparr>)))
                      \<lparr>Annotations := [internalUUIDSchemeAnnotation \<mapsto> legacyUUIDScheme,
                                       internalFSUUIDAnnotation \<mapsto> FileSystemUUID (FSInfo ?bd3)]\<rparr>)
          ?res3]
     \<and> Clientset (snd (addBlockDevice exampleEnv ?bd3 [?res3] ?pe3)) =
         snd (UpdateBlockDevice exampleEnv (Clientset ?pe3)
                ((ToDevice exampleEnv (NewDeviceInfoFromBlockDevice exampleEnv
                                       (?bd3\<lparr>UUID := Name ?res3\<rparr>)))
                   \<lparr>Annotations := [internalUUIDSchemeAnnotation \<mapsto> legacyUUIDScheme,
                                    internalFSUUIDAnnotation \<mapsto> FileSystemUUID (FSInfo ?bd3)]\<rparr>)
                ?res3)"
    by blast
  have i3: "issued ?pe3 (snd (addBlockDevice exampleEnv ?bd3 [?res3] ?pe3)) = [UpdateCall ?w3 ?res3]"
    using k3 by (simp add: exampleEnv_simps exampleDevice_def exampleResource_def)
  have s3: "Store_Update [''bd-old'' \<mapsto> ?res3] ?w3 ?res3
           = (None, [''bd-old'' \<mapsto>
                (exampleResource ''bd-old'' BlockDeviceClaimed)
                  \<lparr>Annotations := [internalUUIDSchemeAnnotation \<mapsto> legacyUUIDScheme,
                                   internalFSUUIDAnnotation \<mapsto> ''fs1'']\<rparr>])"
    by (simp add: Store_Update_def Spec_ToDevice_def exampleResource_def)
  have f3: "Clientset (snd (addBlockDevice exampleEnv ?bd3 [?res3] ?pe3)) =
             [''bd-old'' \<mapsto>
                (exampleResource ''bd-old'' BlockDeviceClaimed)
                  \<lparr>Annotations := [internalUUIDSchemeAnnotation \<mapsto> legacyUUIDScheme,
                                   internalFSUUIDAnnotation \<mapsto> ''fs1'']\<rparr>]"
    using k3 s3 by (simp add: exampleEnv_simps exampleController_def exampleDevice_def
        exampleResource_def)
  let ?bd4 = "exampleDevice ''sdm'' BlockDeviceTypeDisk [] [] [] True CStor"
  let ?res4 = "exampleResource ''old-sdm'' BlockDeviceReleased"
  let ?pe4 = "exampleController Map.empty [''old-sdm'' \<mapsto> ?res4]"
  let ?w4 = "(Spec_ToDevice (?bd4\<lparr>UUID := ''old-sdm''\<rparr>))
               \<lparr>Annotations := [internalUUIDSchemeAnnotation \<mapsto> legacyUUIDScheme,
                                internalPartitionUUIDAnnotation \<mapsto> ''pt1'']\<rparr>"
  have a4: "fst (fst (handleUnmanagedDevices exampleEnv ?bd4 [?res4] ?pe4))
        \<and> isParentDeviceInUse ?bd4 ?pe4 = (False, None)
        \<and> InUse (DevUse ?bd4) \<and> UsedBy (DevUse ?bd4) = CStor
        \<and> (if snd (generateUUID exampleEnv ?bd4)
            then GetExistingBlockDeviceResource [?res4] (fst (generateUUID exampleEnv ?bd4))
            else None) = None
        \<and> (case getExistingBDWithPartitionUUID ?bd4 [?res4] of
              Some r \<Rightarrow> Some r
            | None \<Rightarrow> GetExistingBlockDeviceResource [?res4] (fst (generateLegacyUUID exampleEnv ?bd4)))
           = Some ?res4
        \<and> ClaimState (Status ?res4) \<noteq> BlockDeviceUnclaimed"
    by (simp add: handleUnmanagedDevices_eq deviceInUseByZFSLocalPV_def isParentDeviceInUse_def
        getExistingBDWithPartitionUUID_def exampleEnv_simps examplePrimary_def exampleLegacy_def
        exampleDevice_def exampleResource_def)
  from claimed_resource_only_updated_in_place [where pe = ?pe4 and env = exampleEnv
      and bd = ?bd4 and bdAPIList = "[?res4]" and existing = ?res4] a4
  have k4:
    "issued ?pe4 (snd (addBlockDevice exampleEnv ?bd4 [?res4] ?pe4)) =
       [UpdateCall ((ToDevice exampleEnv (NewDeviceInfoFromBlockDevice exampleEnv
                                          (?bd4\<lparr>UUID := Name ?res4\<rparr>)))
                      \<lparr>Annotations := [internalUUIDSchemeAnnotation \<mapsto> legacyUUIDScheme,
                                       internalPartitionUUIDAnnotation \<mapsto>
                                         PartitionTableUUID (PartitionInfo ?bd4)]\<rparr>)
          ?res4]"
    by blast
  have i4: "issued ?pe4 (snd (addBlockDevice exampleEnv ?bd4 [?res4] ?pe4)) = [UpdateCall ?w4 ?res4]"
    using k4 by (simp add: exampleEnv_simps exampleDevice_def exampleResource_def)
  have a5: "(\<forall>k' r'. Clientset ?pe4 k' = Some r' \<longrightarrow> Name r' = k')
        \<and> Clientset ?pe4 ''old-sdm'' = Some ?res4
        \<and> ClaimState (Status ?res4) \<noteq> BlockDeviceUnclaimed"
    by (simp add: exampleController_def exampleResource_def)
  from claimed_resource_only_updated_in_place [where spe = ?pe4 and k = "''old-sdm''"
      and r = ?res4 and p = examplePrimary and lg = exampleLegacy
      and z = "\<lambda>bd. (''zfs-'' @ DevPath bd, True)" and part = "\<lambda>d. None"
      and bd = ?bd4 and bdAPIList = "[?res4]"] a5
  have "\<exists>r'. Clientset (snd (addBlockDevice
                    (specEnv examplePrimary exampleLegacy (\<lambda>bd. (''zfs-'' @ DevPath bd, True))
                       (\<lambda>d. None)) ?bd4 [?res4] ?pe4)) ''old-sdm'' = Some r'
               \<and> Name r' = Name ?res4
               \<and> ClaimState (Status r') = ClaimState (Status ?res4)
               \<and> (Active (Status ?res4) \<longrightarrow> Active (Status r'))"
    by blast
  then have e5: "\<exists>r'. Clientset (snd (addBlockDevice exampleEnv ?bd4 [?res4] ?pe4)) ''old-sdm''
                       = Some r'
               \<and> Name r' = ''old-sdm''
               \<and> ClaimState (Status r') = BlockDeviceReleased
               \<and> Active (Status r')"
    unfolding exampleEnv_def [symmetric] by (simp add: exampleResource_def)
  show ?thesis
    using r n i f i2 u2 i3 f3 i4 e5 by blast
qed

subsection \<open>The annotations of written resources\<close>

lemma written_of_calls:
  assumes "calls pe' = calls pe
           \<or> (\<exists>c w. calls pe' = calls pe @ [c] \<and> written c = Some w \<and> P w)"
  shows "\<forall>c \<in> set (issued pe pe'). \<forall>w. written c = Some w \<longrightarrow> P w"
  using assms by (auto simp: issued_def)

lemma written_addBlockDevice_generic:
  assumes "c \<in> set (issued pe (snd (addBlockDevice_generic env bd bdAPIList pe)))"
    and "written c = Some w"
  shows "w = (ToDevice env (NewDeviceInfoFromBlockDevice env (bd\<lparr>UUID := fst (generateUUID env bd)\<rparr>)))
               \<lparr>Annotations := [internalUUIDSchemeAnnotation \<mapsto> gptUUIDScheme]\<rparr>"
  using assms
  unfolding issued_addBlockDevice_generic calls_addBlockDevice_generic_eq
  by (auto simp: Let_def simp del: fun_upd_apply split: if_splits sum.splits option.splits)

lemma issued_createOrUpdateWithFSUUID:
  "issued pe (snd (createOrUpdateWithFSUUID env bd existingBD pe)) =
     [case existingBD of
        Some existing \<Rightarrow>
          UpdateCall ((ToDevice env (NewDeviceInfoFromBlockDevice env bd))
                        \<lparr>Annotations := [internalUUIDSchemeAnnotation \<mapsto> legacyUUIDScheme,
                                         internalFSUUIDAnnotation \<mapsto> FileSystemUUID (FSInfo bd)]\<rparr>)
            existing
      | None \<Rightarrow>
          CreateCall ((ToDevice env (NewDeviceInfoFromBlockDevice env bd))
                        \<lparr>Annotations := [internalUUIDSchemeAnnotation \<mapsto> legacyUUIDScheme,
                                         internalFSUUIDAnnotation \<mapsto> FileSystemUUID (FSInfo bd)]\<rparr>)]"
  by (simp add: createOrUpdateWithFSUUID_def issued_createOrUpdateWithAnnotation Let_def)

lemma issued_createOrUpdateWithPartitionUUID:
  "issued pe (snd (createOrUpdateWithPartitionUUID env bd existingBD pe)) =
     [case existingBD of
        Some existing \<Rightarrow>
          UpdateCall ((ToDevice env (NewDeviceInfoFromBlockDevice env bd))
                        \<lparr>Annotations := [internalUUIDSchemeAnnotation \<mapsto> legacyUUIDScheme,
                                         internalPartitionUUIDAnnotation \<mapsto>
                                           PartitionTableUUID (PartitionInfo bd)]\<rparr>)
            existing
      | None \<Rightarrow>
          CreateCall ((ToDevice env (NewDeviceInfoFromBlockDevice env bd))
                        \<lparr>Annotations := [internalUUIDSchemeAnnotation \<mapsto> legacyUUIDScheme,
                                         internalPartitionUUIDAnnotation \<mapsto>
                                           PartitionTableUUID (PartitionInfo bd)]\<rparr>)]"
  by (simp add: createOrUpdateWithPartitionUUID_def issued_createOrUpdateWithAnnotation Let_def)

lemma calls_upgradeBD_engine:
  "calls (snd (upgradeBD env bd bdAPIList pe)) = calls pe
   \<or> (\<exists>c w. calls (snd (upgradeBD env bd bdAPIList pe)) = calls pe @ [c]
          \<and> written c = Some w
          \<and> (InUse (DevUse bd) \<and> UsedBy (DevUse bd) = LocalPV
               \<and> Annotations w = [internalUUIDSchemeAnnotation \<mapsto> legacyUUIDScheme,
                     internalFSUUIDAnnotation \<mapsto> FileSystemUUID (FSInfo bd)]
             \<or> InUse (DevUse bd) \<and> UsedBy (DevUse bd) = CStor
               \<and> Annotations w = [internalUUIDSchemeAnnotation \<mapsto> legacyUUIDScheme,
                     internalPartitionUUIDAnnotation \<mapsto> PartitionTableUUID (PartitionInfo bd)]))"
  using calls_upgradeDeviceInUseByCStor [of env bd bdAPIList pe]
    calls_upgradeDeviceInUseByLocalPV [of env bd bdAPIList pe]
  by (auto simp: snd_upgradeBD)

lemma issued_handleUnmanagedDevices:
  "\<forall>c \<in> set (issued pe (snd (handleUnmanagedDevices env bd bdAPIList pe))).
     InUse (DevUse bd) \<and> UsedBy (DevUse bd) = ZFSLocalPV
     \<and> c = CreateCall
           ((ToDevice env (NewDeviceInfoFromBlockDevice env
                             (bd\<lparr>UUID := fst (generateUUIDFromPartitionTable env bd)\<rparr>)))
              \<lparr>Labels := (Labels (ToDevice env (NewDeviceInfoFromBlockDevice env
                             (bd\<lparr>UUID := fst (generateUUIDFromPartitionTable env bd)\<rparr>))))
                   (BlockDeviceTagLabel env \<mapsto> EngineName env ZFSLocalPV)\<rparr>)"
proof (cases "InUse (DevUse bd) \<and> UsedBy (DevUse bd) = ZFSLocalPV")
  case True
  then show ?thesis
    using calls_handleUnmanagedDevices [of env bd bdAPIList pe]
    by (auto simp: issued_def)
next
  case False
  then show ?thesis
    by (simp add: handleUnmanagedDevices_silent issued_same)
qed

text \<open>
  Claim C10. A write through \<^verbatim>\<open>createOrUpdateWithAnnotation\<close> is one call, an update
  against the existing resource or a create, and the written resource is the converted
  device with its annotation map replaced by the supplied map;
  \<^verbatim>\<open>createOrUpdateWithFSUUID\<close> supplies exactly \<open>uuid-scheme=legacy\<close> and the
  filesystem UUID, \<^verbatim>\<open>createOrUpdateWithPartitionUUID\<close> exactly \<open>uuid-scheme=legacy\<close>
  and the partition table UUID. Hence every resource written by the generic
  reconciliation carries exactly \<open>uuid-scheme=gpt\<close>; every resource written by the
  LocalPV upgrade carries exactly \<open>uuid-scheme=legacy\<close> and \<open>fsuuid\<close>, every resource
  written by the CStor upgrade exactly \<open>uuid-scheme=legacy\<close> and \<open>partition-uuid\<close>, and
  the upgrade dispatcher writes the first only for a device in use by LocalPV and the
  second only for a device in use by CStor. The only other write of the handler is the
  create of the ZFS-LocalPV path, for a device in use by ZFS-LocalPV: its resource is
  the converted device with the tag label added, so its annotations are the ones of the
  conversion, whatever the conversion is; with the conversion of the spec, which gives
  a new resource no annotation, it carries the tag label and no \<open>uuid-scheme\<close>
  annotation. Over the whole handler every written resource is one of these four, by
  the engine that uses the device.
\<close>

theorem written_annotations:
  "issued pe (snd (createOrUpdateWithAnnotation env annotation bd' existingBD pe)) =
     [case existingBD of
        Some existing \<Rightarrow>
          UpdateCall ((ToDevice env (NewDeviceInfoFromBlockDevice env bd'))\<lparr>Annotations := annotation\<rparr>)
            existing
      | None \<Rightarrow>
          CreateCall ((ToDevice env (NewDeviceInfoFromBlockDevice env bd'))\<lparr>Annotations := annotation\<rparr>)]
   \<and> issued pe (snd (createOrUpdateWithFSUUID env bd' existingBD pe)) =
     [case existingBD of
        Some existing \<Rightarrow>
          UpdateCall ((ToDevice env (NewDeviceInfoFromBlockDevice env bd'))
                        \<lparr>Annotations := [internalUUIDSchemeAnnotation \<mapsto> legacyUUIDScheme,
                                         internalFSUUIDAnnotation \<mapsto> FileSystemUUID (FSInfo bd')]\<rparr>)
            existing
      | None \<Rightarrow>
          CreateCall ((ToDevice env (NewDeviceInfoFromBlockDevice env bd'))
                        \<lparr>Annotations := [internalUUIDSchemeAnnotation \<mapsto> legacyUUIDScheme,
                                         internalFSUUIDAnnotation \<mapsto> FileSystemUUID (FSInfo bd')]\<rparr>)]
   \<and> issued pe (snd (createOrUpdateWithPartitionUUID env bd' existingBD pe)) =
     [case existingBD of
        Some existing \<Rightarrow>
          UpdateCall ((ToDevice env (NewDeviceInfoFromBlockDevice env bd'))
                        \<lparr>Annotations := [internalUUIDSchemeAnnotation \<mapsto> legacyUUIDScheme,
                                         internalPartitionUUIDAnnotation \<mapsto>
                                           PartitionTableUUID (PartitionInfo bd')]\<rparr>)
            existing
      | None \<Rightarrow>
          CreateCall ((ToDevice env (NewDeviceInfoFromBlockDevice env bd'))
                        \<lparr>Annotations := [internalUUIDSchemeAnnotation \<mapsto> legacyUUIDScheme,
                                         internalPartitionUUIDAnnotation \<mapsto>
                                           PartitionTableUUID (PartitionInfo bd')]\<rparr>)]
   \<and> (\<forall>c \<in> set (issued pe (snd (addBlockDevice_generic env bd bdAPIList pe))).
        \<forall>w. written c = Some w \<longrightarrow>
          Annotations w = [internalUUIDSchemeAnnotation \<mapsto> gptUUIDScheme])
   \<and> (\<forall>c \<in> set (issued pe (snd (upgradeDeviceInUseByLocalPV env bd bdAPIList pe))).
        \<forall>w. written c = Some w \<longrightarrow>
          Annotations w = [internalUUIDSchemeAnnotation \<mapsto> legacyUUIDScheme,
                           internalFSUUIDAnnotation \<mapsto> FileSystemUUID (FSInfo bd)])
   \<and> (\<forall>c \<in> set (issued pe (snd (upgradeDeviceInUseByCStor env bd bdAPIList pe))).
        \<forall>w. written c = Some w \<longrightarrow>
          Annotations w = [internalUUIDSchemeAnnotation \<mapsto> legacyUUIDScheme,
                           internalPartitionUUIDAnnotation \<mapsto> PartitionTableUUID (PartitionInfo bd)])
   \<and> (\<forall>c \<in> set (issued pe (snd (upgradeBD env bd bdAPIList pe))).
        \<forall>w. written c = Some w \<longrightarrow>
          InUse (DevUse bd) \<and> UsedBy (DevUse bd) = LocalPV
            \<and> Annotations w = [internalUUIDSchemeAnnotation \<mapsto> legacyUUIDScheme,
                             internalFSUUIDAnnotation \<mapsto> FileSystemUUID (FSInfo bd)]
          \<or> InUse (DevUse bd) \<and> UsedBy (DevUse bd) = CStor
            \<and> Annotations w = [internalUUIDSchemeAnnotation \<mapsto> legacyUUIDScheme,
                             internalPartitionUUIDAnnotation \<mapsto> PartitionTableUUID (PartitionInfo bd)])
   \<and> (\<forall>c \<in> set (issued pe (snd (handleUnmanagedDevices env bd bdAPIList pe))).
        \<exists>w. c = CreateCall w
          \<and> InUse (DevUse bd) \<and> UsedBy (DevUse bd) = ZFSLocalPV
          \<and> Annotations w =
              Annotations (ToDevice env (NewDeviceInfoFromBlockDevice env
                             (bd\<lparr>UUID := fst (generateUUIDFromPartitionTable env bd)\<rparr>)))
          \<and> Labels w =
              (Labels (ToDevice env (NewDeviceInfoFromBlockDevice env
                         (bd\<lparr>UUID := fst (generateUUIDFromPartitionTable env bd)\<rparr>))))
                (BlockDeviceTagLabel env \<mapsto> EngineName env ZFSLocalPV))
   \<and> (\<forall>c \<in> set (issued spe (snd (handleUnmanagedDevices (specEnv p lg z part) bd bdAPIList spe))).
        \<exists>w. c = CreateCall w
          \<and> Annotations w = Map.empty
          \<and> Annotations w internalUUIDSchemeAnnotation = None
          \<and> Labels w = [BlockDeviceTagLabel (specEnv p lg z part) \<mapsto>
                          EngineName (specEnv p lg z part) ZFSLocalPV])
   \<and> (\<forall>c \<in> set (issued pe (snd (addBlockDevice env bd bdAPIList pe))).
        \<forall>w. written c = Some w \<longrightarrow>
          Annotations w = [internalUUIDSchemeAnnotation \<mapsto> gptUUIDScheme]
          \<or> InUse (DevUse bd) \<and> UsedBy (DevUse bd) = LocalPV
            \<and> Annotations w = [internalUUIDSchemeAnnotation \<mapsto> legacyUUIDScheme,
                             internalFSUUIDAnnotation \<mapsto> FileSystemUUID (FSInfo bd)]
          \<or> InUse (DevUse bd) \<and> UsedBy (DevUse bd) = CStor
            \<and> Annotations w = [internalUUIDSchemeAnnotation \<mapsto> legacyUUIDScheme,
                             internalPartitionUUIDAnnotation \<mapsto> PartitionTableUUID (PartitionInfo bd)]
          \<or> InUse (DevUse bd) \<and> UsedBy (DevUse bd) = ZFSLocalPV
            \<and> c = CreateCall w
            \<and> Annotations w =
                Annotations (ToDevice env (NewDeviceInfoFromBlockDevice env
                               (bd\<lparr>UUID := fst (generateUUIDFromPartitionTable env bd)\<rparr>)))
            \<and> Labels w =
                (Labels (ToDevice env (NewDeviceInfoFromBlockDevice env
                           (bd\<lparr>UUID := fst (generateUUIDFromPartitionTable env bd)\<rparr>))))
                  (BlockDeviceTagLabel env \<mapsto> EngineName env ZFSLocalPV))"
proof -
  have a: "issued pe (snd (createOrUpdateWithAnnotation env annotation bd' existingBD pe)) =
     [case existingBD of
        Some existing \<Rightarrow>
          UpdateCall ((ToDevice env (NewDeviceInfoFromBlockDevice env bd'))\<lparr>Annotations := annotation\<rparr>)
            existing
      | None \<Rightarrow>
          CreateCall ((ToDevice env (NewDeviceInfoFromBlockDevice env bd'))\<lparr>Annotations := annotation\<rparr>)]"
    by (rule issued_createOrUpdateWithAnnotation)
  note af = issued_createOrUpdateWithFSUUID [of pe env bd' existingBD]
  note ap = issued_createOrUpdateWithPartitionUUID [of pe env bd' existingBD]
  have g: "\<forall>c \<in> set (issued pe (snd (addBlockDevice_generic env bd bdAPIList pe))).
        \<forall>w. written c = Some w \<longrightarrow>
          Annotations w = [internalUUIDSchemeAnnotation \<mapsto> gptUUIDScheme]"
    using written_addBlockDevice_generic [of _ pe env bd bdAPIList] by fastforce
  have ul: "\<forall>c \<in> set (issued pe (snd (upgradeDeviceInUseByLocalPV env bd bdAPIList pe))).
        \<forall>w. written c = Some w \<longrightarrow>
          Annotations w = [internalUUIDSchemeAnnotation \<mapsto> legacyUUIDScheme,
                           internalFSUUIDAnnotation \<mapsto> FileSystemUUID (FSInfo bd)]"
    by (rule written_of_calls) (rule calls_upgradeDeviceInUseByLocalPV)
  have uc: "\<forall>c \<in> set (issued pe (snd (upgradeDeviceInUseByCStor env bd bdAPIList pe))).
        \<forall>w. written c = Some w \<longrightarrow>
          Annotations w = [internalUUIDSchemeAnnotation \<mapsto> legacyUUIDScheme,
                           internalPartitionUUIDAnnotation \<mapsto> PartitionTableUUID (PartitionInfo bd)]"
    by (rule written_of_calls) (rule calls_upgradeDeviceInUseByCStor)
  have u: "\<forall>c \<in> set (issued pe (snd (upgradeBD env bd bdAPIList pe))).
        \<forall>w. written c = Some w \<longrightarrow>
          InUse (DevUse bd) \<and> UsedBy (DevUse bd) = LocalPV
            \<and> Annotations w = [internalUUIDSchemeAnnotation \<mapsto> legacyUUIDScheme,
                             internalFSUUIDAnnotation \<mapsto> FileSystemUUID (FSInfo bd)]
          \<or> InUse (DevUse bd) \<and> UsedBy (DevUse bd) = CStor
            \<and> Annotations w = [internalUUIDSchemeAnnotation \<mapsto> legacyUUIDScheme,
                             internalPartitionUUIDAnnotation \<mapsto> PartitionTableUUID (PartitionInfo bd)]"
    by (rule written_of_calls) (rule calls_upgradeBD_engine)
  have h: "\<forall>c \<in> set (issued pe (snd (handleUnmanagedDevices env bd bdAPIList pe))).
        \<exists>w. c = CreateCall w
          \<and> InUse (DevUse bd) \<and> UsedBy (DevUse bd) = ZFSLocalPV
          \<and> Annotations w =
              Annotations (ToDevice env (NewDeviceInfoFromBlockDevice env
                             (bd\<lparr>UUID := fst (generateUUIDFromPartitionTable env bd)\<rparr>)))
          \<and> Labels w =
              (Labels (ToDevice env (NewDeviceInfoFromBlockDevice env
                         (bd\<lparr>UUID := fst (generateUUIDFromPartitionTable env bd)\<rparr>))))
                (BlockDeviceTagLabel env \<mapsto> EngineName env ZFSLocalPV)"
    using issued_handleUnmanagedDevices [of pe env bd bdAPIList] by auto
  have hs: "\<forall>c \<in> set (issued spe (snd (handleUnmanagedDevices (specEnv p lg z part) bd bdAPIList spe))).
        \<exists>w. c = CreateCall w
          \<and> Annotations w = Map.empty
          \<and> Annotations w internalUUIDSchemeAnnotation = None
          \<and> Labels w = [BlockDeviceTagLabel (specEnv p lg z part) \<mapsto>
                          EngineName (specEnv p lg z part) ZFSLocalPV]"
    using issued_handleUnmanagedDevices [of spe "specEnv p lg z part" bd bdAPIList]
    by (auto simp: specEnv_simps Spec_ToDevice_def)
  have e: "\<forall>c \<in> set (issued pe (snd (addBlockDevice env bd bdAPIList pe))).
        \<forall>w. written c = Some w \<longrightarrow>
          Annotations w = [internalUUIDSchemeAnnotation \<mapsto> gptUUIDScheme]
          \<or> InUse (DevUse bd) \<and> UsedBy (DevUse bd) = LocalPV
            \<and> Annotations w = [internalUUIDSchemeAnnotation \<mapsto> legacyUUIDScheme,
                             internalFSUUIDAnnotation \<mapsto> FileSystemUUID (FSInfo bd)]
          \<or> InUse (DevUse bd) \<and> UsedBy (DevUse bd) = CStor
            \<and> Annotations w = [internalUUIDSchemeAnnotation \<mapsto> legacyUUIDScheme,
                             internalPartitionUUIDAnnotation \<mapsto> PartitionTableUUID (PartitionInfo bd)]
          \<or> InUse (DevUse bd) \<and> UsedBy (DevUse bd) = ZFSLocalPV
            \<and> c = CreateCall w
            \<and> Annotations w =
                Annotations (ToDevice env (NewDeviceInfoFromBlockDevice env
                               (bd\<lparr>UUID := fst (generateUUIDFromPartitionTable env bd)\<rparr>)))
            \<and> Labels w =
                (Labels (ToDevice env (NewDeviceInfoFromBlockDevice env
                           (bd\<lparr>UUID := fst (generateUUIDFromPartitionTable env bd)\<rparr>))))
                  (BlockDeviceTagLabel env \<mapsto> EngineName env ZFSLocalPV)"
  proof (cases "fst (fst (handleUnmanagedDevices env bd bdAPIList pe))")
    case False
    then have "addBlockDevice env bd bdAPIList pe =
                 (snd (fst (handleUnmanagedDevices env bd bdAPIList pe)),
                  snd (handleUnmanagedDevices env bd bdAPIList pe))"
      by (simp add: addBlockDevice_eq)
    then show ?thesis using h by fastforce
  next
    case True
    show ?thesis
    proof (cases "reachesGeneric env bd bdAPIList pe")
      case True
      then show ?thesis using g by (simp add: reachesGeneric_eq)
    next
      case False
      then have "snd (addBlockDevice env bd bdAPIList pe) = pe
                 \<or> snd (addBlockDevice env bd bdAPIList pe) = snd (upgradeBD env bd bdAPIList pe)"
        using True
        by (auto simp: reachesGeneric_iff addBlockDevice_eq isParentDeviceInUse_def
            split: if_splits option.splits)
      then show ?thesis using u by (auto simp: issued_same)
    qed
  qed
  show ?thesis using a af ap g ul uc u h hs e by blast
qed

theorem written_annotations_witness:
  "issued (exampleController Map.empty Map.empty)
     (snd (createOrUpdateWithAnnotation exampleEnv
             [internalUUIDSchemeAnnotation \<mapsto> gptUUIDScheme]
             ((exampleDevice ''sdg'' BlockDeviceTypeDisk [] [] [] True ZFSLocalPV)\<lparr>UUID := ''id-sdg''\<rparr>)
             None (exampleController Map.empty Map.empty)))
     = [CreateCall
          ((Spec_ToDevice ((exampleDevice ''sdg'' BlockDeviceTypeDisk [] [] [] True ZFSLocalPV)
                             \<lparr>UUID := ''id-sdg''\<rparr>))
             \<lparr>Annotations := [internalUUIDSchemeAnnotation \<mapsto> gptUUIDScheme]\<rparr>)]
   \<and> issued (exampleController Map.empty Map.empty)
       (snd (handleUnmanagedDevices exampleEnv
               (exampleDevice ''sdg'' BlockDeviceTypeDisk [] [] [] True ZFSLocalPV) []
               (exampleController Map.empty Map.empty)))
     = [CreateCall
          ((Spec_ToDevice ((exampleDevice ''sdg'' BlockDeviceTypeDisk [] [] [] True ZFSLocalPV)
                             \<lparr>UUID := ''zfs-sdg''\<rparr>))
             \<lparr>Labels := [''block-device-tag'' \<mapsto> ''zfs-localpv'']\<rparr>)]
   \<and> Annotations
       ((Spec_ToDevice ((exampleDevice ''sdg'' BlockDeviceTypeDisk [] [] [] True ZFSLocalPV)
                          \<lparr>UUID := ''zfs-sdg''\<rparr>))
          \<lparr>Labels := [''block-device-tag'' \<mapsto> ''zfs-localpv'']\<rparr>)
       internalUUIDSchemeAnnotation = None
   \<and> issued (exampleController Map.empty Map.empty)
       (snd (upgradeBD exampleEnv
               (exampleDevice ''sdh'' BlockDeviceTypeDisk [] [] [] True LocalPV) []
               (exampleController Map.empty Map.empty)))
     = [CreateCall
          ((Spec_ToDevice ((exampleDevice ''sdh'' BlockDeviceTypeDisk [] [] [] True LocalPV)
                             \<lparr>UUID := ''old-sdh''\<rparr>))
             \<lparr>Annotations := [internalUUIDSchemeAnnotation \<mapsto> legacyUUIDScheme,
                              internalFSUUIDAnnotation \<mapsto> ''fs1'']\<rparr>)]
   \<and> issued (exampleController Map.empty Map.empty)
       (snd (upgradeBD exampleEnv
               (exampleDevice ''sdj'' BlockDeviceTypeDisk [] [] [] True CStor) []
               (exampleController Map.empty Map.empty)))
     = [CreateCall
          ((Spec_ToDevice ((exampleDevice ''sdj'' BlockDeviceTypeDisk [] [] [] True CStor)
                             \<lparr>UUID := ''old-sdj''\<rparr>))
             \<lparr>Annotations := [internalUUIDSchemeAnnotation \<mapsto> legacyUUIDScheme,
                              internalPartitionUUIDAnnotation \<mapsto> ''pt1'']\<rparr>)]
   \<and> issued (exampleController Map.empty Map.empty)
       (snd (createOrUpdateWithPartitionUUID exampleEnv
               ((exampleDevice ''sdj'' BlockDeviceTypeDisk [] [] [] True CStor)\<lparr>UUID := ''id-sdk''\<rparr>)
               (Some (exampleResource ''id-sdk'' BlockDeviceClaimed))
               (exampleController Map.empty Map.empty)))
     = [UpdateCall
          ((Spec_ToDevice ((exampleDevice ''sdj'' BlockDeviceTypeDisk [] [] [] True CStor)
                             \<lparr>UUID := ''id-sdk''\<rparr>))
             \<lparr>Annotations := [internalUUIDSchemeAnnotation \<mapsto> legacyUUIDScheme,
                              internalPartitionUUIDAnnotation \<mapsto> ''pt1'']\<rparr>)
          (exampleResource ''id-sdk'' BlockDeviceClaimed)]
   \<and> issued (exampleController Map.empty Map.empty)
       (snd (addBlockDevice_generic exampleEnv
               (exampleDevice ''sdi'' BlockDeviceTypeDisk [] [] [] False NoEngine) []
               (exampleController Map.empty Map.empty)))
     = [CreateCall
          ((Spec_ToDevice ((exampleDevice ''sdi'' BlockDeviceTypeDisk [] [] [] False NoEngine)
                             \<lparr>UUID := ''id-sdi''\<rparr>))
             \<lparr>Annotations := [internalUUIDSchemeAnnotation \<mapsto> gptUUIDScheme]\<rparr>)]"
proof -
  let ?bd = "exampleDevice ''sdg'' BlockDeviceTypeDisk [] [] [] True ZFSLocalPV"
  let ?bdl = "exampleDevice ''sdh'' BlockDeviceTypeDisk [] [] [] True LocalPV"
  let ?bdc = "exampleDevice ''sdj'' BlockDeviceTypeDisk [] [] [] True CStor"
  let ?bdg = "exampleDevice ''sdi'' BlockDeviceTypeDisk [] [] [] False NoEngine"
  let ?pe = "exampleController Map.empty Map.empty :: Store Controller"
  let ?z = "(Spec_ToDevice (?bd\<lparr>UUID := ''zfs-sdg''\<rparr>))
              \<lparr>Labels := [''block-device-tag'' \<mapsto> ''zfs-localpv'']\<rparr>"
  let ?wl = "(Spec_ToDevice (?bdl\<lparr>UUID := ''old-sdh''\<rparr>))
               \<lparr>Annotations := [internalUUIDSchemeAnnotation \<mapsto> legacyUUIDScheme,
                                internalFSUUIDAnnotation \<mapsto> ''fs1'']\<rparr>"
  let ?wc = "(Spec_ToDevice (?bdc\<lparr>UUID := ''old-sdj''\<rparr>))
               \<lparr>Annotations := [internalUUIDSchemeAnnotation \<mapsto> legacyUUIDScheme,
                                internalPartitionUUIDAnnotation \<mapsto> ''pt1'']\<rparr>"
  let ?wg = "(Spec_ToDevice (?bdg\<lparr>UUID := ''id-sdi''\<rparr>))
               \<lparr>Annotations := [internalUUIDSchemeAnnotation \<mapsto> gptUUIDScheme]\<rparr>"
  note w = written_annotations [where pe = ?pe and env = exampleEnv
      and annotation = "[internalUUIDSchemeAnnotation \<mapsto> gptUUIDScheme]"
      and bd' = "?bd\<lparr>UUID := ''id-sdg''\<rparr>" and existingBD = None and bd = ?bd
      and bdAPIList = "[]" and spe = ?pe and p = examplePrimary and lg = exampleLegacy
      and z = "\<lambda>bd. (''zfs-'' @ DevPath bd, True)" and part = "\<lambda>d. None"]
  note wl = written_annotations [where pe = ?pe and env = exampleEnv and bd = ?bdl
      and bdAPIList = "[]"]
  note wc = written_annotations [where pe = ?pe and env = exampleEnv and bd = ?bdc
      and bd' = "?bdc\<lparr>UUID := ''id-sdk''\<rparr>"
      and existingBD = "Some (exampleResource ''id-sdk'' BlockDeviceClaimed)"
      and bdAPIList = "[]"]
  note wg = written_annotations [where pe = ?pe and env = exampleEnv and bd = ?bdg
      and bdAPIList = "[]"]
  have a: "issued ?pe (snd (createOrUpdateWithAnnotation exampleEnv
             [internalUUIDSchemeAnnotation \<mapsto> gptUUIDScheme] (?bd\<lparr>UUID := ''id-sdg''\<rparr>) None ?pe))
           = [CreateCall ((Spec_ToDevice (?bd\<lparr>UUID := ''id-sdg''\<rparr>))
                \<lparr>Annotations := [internalUUIDSchemeAnnotation \<mapsto> gptUUIDScheme]\<rparr>)]"
    using w by (simp add: exampleEnv_simps)
  have h: "issued ?pe (snd (handleUnmanagedDevices exampleEnv ?bd [] ?pe)) = [CreateCall ?z]"
    by (simp add: handleUnmanagedDevices_eq deviceInUseByZFSLocalPV_def
        Controller_CreateBlockDevice_def issued_def exampleEnv_simps exampleDevice_def
        exampleController_def Spec_EngineName_def Spec_ToDevice_def Store_Create_def Let_def)
  from w have "\<forall>c \<in> set (issued ?pe (snd (handleUnmanagedDevices
                   (specEnv examplePrimary exampleLegacy (\<lambda>bd. (''zfs-'' @ DevPath bd, True))
                      (\<lambda>d. None)) ?bd [] ?pe))).
        \<exists>w. c = CreateCall w
          \<and> Annotations w = Map.empty
          \<and> Annotations w internalUUIDSchemeAnnotation = None
          \<and> Labels w = [BlockDeviceTagLabel (specEnv examplePrimary exampleLegacy
                                               (\<lambda>bd. (''zfs-'' @ DevPath bd, True)) (\<lambda>d. None)) \<mapsto>
                          EngineName (specEnv examplePrimary exampleLegacy
                                        (\<lambda>bd. (''zfs-'' @ DevPath bd, True)) (\<lambda>d. None)) ZFSLocalPV]"
    by blast
  then have n: "Annotations ?z internalUUIDSchemeAnnotation = None"
    unfolding exampleEnv_def [symmetric] h by simp
  have l: "issued ?pe (snd (upgradeBD exampleEnv ?bdl [] ?pe)) = [CreateCall ?wl]"
    by (simp add: upgradeBD_def upgradeDeviceInUseByLocalPV_def getExistingBDWithFsUuid_def
        createOrUpdateWithFSUUID_def createOrUpdateWithAnnotation_eq issued_def
        exampleEnv_simps examplePrimary_def exampleLegacy_def exampleDevice_def
        exampleController_def Store_Create_def Spec_ToDevice_def Let_def)
  have c: "issued ?pe (snd (upgradeBD exampleEnv ?bdc [] ?pe)) = [CreateCall ?wc]"
    by (simp add: upgradeBD_def upgradeDeviceInUseByCStor_def getExistingBDWithPartitionUUID_def
        createOrUpdateWithPartitionUUID_def createOrUpdateWithAnnotation_eq issued_def
        exampleEnv_simps examplePrimary_def exampleLegacy_def exampleDevice_def
        exampleController_def Store_Create_def Spec_ToDevice_def Let_def)
  have g: "issued ?pe (snd (addBlockDevice_generic exampleEnv ?bdg [] ?pe)) = [CreateCall ?wg]"
    by (simp add: issued_addBlockDevice_generic calls_addBlockDevice_generic_eq
        exampleEnv_simps examplePrimary_def exampleDevice_def exampleController_def
        Store_Get_def IsNotFound_def Let_def)
  from wl have "\<forall>c \<in> set (issued ?pe (snd (upgradeBD exampleEnv ?bdl [] ?pe))).
        \<forall>w. written c = Some w \<longrightarrow>
          InUse (DevUse ?bdl) \<and> UsedBy (DevUse ?bdl) = LocalPV
            \<and> Annotations w = [internalUUIDSchemeAnnotation \<mapsto> legacyUUIDScheme,
                             internalFSUUIDAnnotation \<mapsto> FileSystemUUID (FSInfo ?bdl)]
          \<or> InUse (DevUse ?bdl) \<and> UsedBy (DevUse ?bdl) = CStor
            \<and> Annotations w = [internalUUIDSchemeAnnotation \<mapsto> legacyUUIDScheme,
                             internalPartitionUUIDAnnotation \<mapsto> PartitionTableUUID (PartitionInfo ?bdl)]"
    by blast
  then have "UsedBy (DevUse ?bdl) = LocalPV
            \<and> Annotations ?wl = [internalUUIDSchemeAnnotation \<mapsto> legacyUUIDScheme,
                             internalFSUUIDAnnotation \<mapsto> FileSystemUUID (FSInfo ?bdl)]"
    unfolding l by (simp add: exampleDevice_def)
  from wc have "\<forall>c \<in> set (issued ?pe (snd (upgradeBD exampleEnv ?bdc [] ?pe))).
        \<forall>w. written c = Some w \<longrightarrow>
          InUse (DevUse ?bdc) \<and> UsedBy (DevUse ?bdc) = LocalPV
            \<and> Annotations w = [internalUUIDSchemeAnnotation \<mapsto> legacyUUIDScheme,
                             internalFSUUIDAnnotation \<mapsto> FileSystemUUID (FSInfo ?bdc)]
          \<or> InUse (DevUse ?bdc) \<and> UsedBy (DevUse ?bdc) = CStor
            \<and> Annotations w = [internalUUIDSchemeAnnotation \<mapsto> legacyUUIDScheme,
                             internalPartitionUUIDAnnotation \<mapsto> PartitionTableUUID (PartitionInfo ?bdc)]"
    by blast
  then have "UsedBy (DevUse ?bdc) = CStor
            \<and> Annotations ?wc = [internalUUIDSchemeAnnotation \<mapsto> legacyUUIDScheme,
                             internalPartitionUUIDAnnotation \<mapsto> PartitionTableUUID (PartitionInfo ?bdc)]"
    unfolding c by (simp add: exampleDevice_def)
  have cu: "issued ?pe (snd (createOrUpdateWithPartitionUUID exampleEnv (?bdc\<lparr>UUID := ''id-sdk''\<rparr>)
                               (Some (exampleResource ''id-sdk'' BlockDeviceClaimed)) ?pe))
           = [UpdateCall ((Spec_ToDevice (?bdc\<lparr>UUID := ''id-sdk''\<rparr>))
                            \<lparr>Annotations := [internalUUIDSchemeAnnotation \<mapsto> legacyUUIDScheme,
                                             internalPartitionUUIDAnnotation \<mapsto> ''pt1'']\<rparr>)
                (exampleResource ''id-sdk'' BlockDeviceClaimed)]"
    using wc by (simp add: exampleEnv_simps exampleDevice_def)
  from wg have "\<forall>c \<in> set (issued ?pe (snd (addBlockDevice_generic exampleEnv ?bdg [] ?pe))).
        \<forall>w. written c = Some w \<longrightarrow>
          Annotations w = [internalUUIDSchemeAnnotation \<mapsto> gptUUIDScheme]"
    by blast
  then have "Annotations ?wg = [internalUUIDSchemeAnnotation \<mapsto> gptUUIDScheme]"
    unfolding g by simp
  show ?thesis
    using a h n l c cu g by blast
qed

subsection \<open>Processing an event twice\<close>

lemma upd_twice:
  "snd (Store_Update (snd (Store_Update s w e)) w e) = snd (Store_Update s w e)"
  by (auto simp: Store_Update_def split: option.splits)

lemma create_twice:
  "snd (Store_Create (snd (Store_Create s w)) w) = snd (Store_Create s w)"
  by (auto simp: Store_Create_def split: option.splits)

lemma deactivate_twice:
  "Store_Deactivate (Store_Deactivate s r) r = Store_Deactivate s r"
  by (auto simp: Store_Deactivate_def split: option.splits)

lemma GetExistingBlockDeviceResource_Name:
  "GetExistingBlockDeviceResource bdAPIList uuid = Some existing \<Longrightarrow> Name existing = uuid"
  by (induction bdAPIList) (auto split: if_splits)

lemma generic_store_twice_core:
  fixes s :: Store
  assumes nm: "Name bdAPI = uuid"
    and ex: "\<And>existing. ex = Some existing \<Longrightarrow> Name existing = uuid"
    and gs_def: "\<And>s. gs s =
     (let write = (\<lambda>s'. case ex of
                           Some existing \<Rightarrow> snd (Store_Update s' bdAPI existing)
                         | None \<Rightarrow> snd (Store_Create s' bdAPI));
          guarded = (if hs then s else write s)
      in (case s uuid of
                 Some found \<Rightarrow>
                   if ClaimState (Status found) \<noteq> BlockDeviceUnclaimed
                   then snd (Store_Update s bdAPI found) else write s
               | None \<Rightarrow>
                   if isPart
                   then (case par of
                           None \<Rightarrow> s
                         | Some pp \<Rightarrow>
                             if \<not> fst pp then guarded
                             else (case s (snd pp) of
                                     None \<Rightarrow> guarded
                                   | Some parentBDAPI \<Rightarrow>
                                       if ClaimState (Status parentBDAPI) \<noteq> BlockDeviceUnclaimed
                                       then s
                                       else write (Store_Deactivate s parentBDAPI)))
                   else if ps then s
                   else guarded))"
  shows "gs (gs s) = gs s"
proof (cases "s uuid")
  case (Some found)
  show ?thesis
  proof (cases "ClaimState (Status found) \<noteq> BlockDeviceUnclaimed")
    case True
    with Some nm show ?thesis
      by (cases "s (Name found)"; cases "Name found = uuid")
         (auto simp: gs_def Store_Update_def)
  next
    case False
    with Some nm ex show ?thesis
      by (cases ex) (auto simp: gs_def Store_Update_def Store_Create_def)
  qed
next
  case None
  show ?thesis
  proof (cases ex)
    case (Some existing)
    have w: "\<And>s'. s' uuid = None \<Longrightarrow> snd (Store_Update s' bdAPI existing) = s'"
      using ex [OF Some] by (simp add: Store_Update_def)
    have d: "\<And>r. Store_Deactivate s r uuid = None"
      using None by (auto simp: Store_Deactivate_def split: option.split)
    have dd: "\<And>r q. s q = Some r \<Longrightarrow>
                (case Store_Deactivate s r q of None \<Rightarrow> False
                 | Some r' \<Rightarrow> ClaimState (Status r') = ClaimState (Status r)
                     \<and> Store_Deactivate (Store_Deactivate s r) r' = Store_Deactivate s r)"
      by (auto simp: Store_Deactivate_def split: option.split)
    show ?thesis
    proof (cases "isPart \<and> (\<exists>pp r. par = Some pp \<and> fst pp \<and> s (snd pp) = Some r
                              \<and> ClaimState (Status r) = BlockDeviceUnclaimed)")
      case False
      then have "gs s = s"
        using None Some w by (auto simp: gs_def split: option.split)
      then show ?thesis by simp
    next
      case True
      then obtain pp r where p: "isPart" "par = Some pp" "fst pp" "s (snd pp) = Some r"
        "ClaimState (Status r) = BlockDeviceUnclaimed"
        by blast
      have g1: "gs s = Store_Deactivate s r"
        using None Some p w d by (simp add: gs_def)
      obtain r' where r': "Store_Deactivate s r (snd pp) = Some r'"
        "ClaimState (Status r') = ClaimState (Status r)"
        "Store_Deactivate (Store_Deactivate s r) r' = Store_Deactivate s r"
        using dd [OF p(4)] by (auto split: option.splits)
      have "gs (Store_Deactivate s r) = Store_Deactivate s r"
        using Some p w d r' by (simp add: gs_def)
      with g1 show ?thesis by simp
    qed
  next
    case ex_none: None
    have stable: "\<And>t. t uuid = Some bdAPI \<Longrightarrow> gs t = t"
      using nm ex_none by (auto simp: gs_def Store_Update_def Store_Create_def)
    have d: "\<And>r. Store_Deactivate s r uuid = None"
      using None by (auto simp: Store_Deactivate_def split: option.split)
    have "gs s = s \<or> gs s = s(uuid \<mapsto> bdAPI)
          \<or> (\<exists>r. gs s = (Store_Deactivate s r)(uuid \<mapsto> bdAPI))"
      using None ex_none d nm by (auto simp: gs_def Store_Create_def split: option.split)
    then show ?thesis
      using stable by auto
  qed
qed


lemma addBlockDevice_generic_store_twice:
  "Clientset (snd (addBlockDevice_generic (specEnv p lg z part) bd bdAPIList
                    (snd (addBlockDevice_generic (specEnv p lg z part) bd bdAPIList pe)))) =
   Clientset (snd (addBlockDevice_generic (specEnv p lg z part) bd bdAPIList pe))"
proof (cases "snd (p bd)")
  case False
  then have "\<And>q. Clientset (snd (addBlockDevice_generic (specEnv p lg z part) bd bdAPIList q))
               = Clientset q"
    by (simp add: store_addBlockDevice_generic)
  then show ?thesis by simp
next
  case True
  let ?E = "specEnv p lg z part"
  let ?bd' = "bd\<lparr>UUID := fst (p bd)\<rparr>"
  let ?cache = "(BDHierarchy pe)(DevPath bd \<mapsto> ?bd')"
  let ?pe1 = "snd (addBlockDevice_generic ?E bd bdAPIList pe)"
  define uuid where "uuid = fst (p bd)"
  define bdAPI where "bdAPI = (Spec_ToDevice (bd\<lparr>UUID := uuid\<rparr>))
                                \<lparr>Annotations := [internalUUIDSchemeAnnotation \<mapsto> gptUUIDScheme]\<rparr>"
  define ex where "ex = GetExistingBlockDeviceResource bdAPIList uuid"
  define par where "par = map_option (\<lambda>parentBD. (snd (p parentBD), fst (p parentBD)))
                            (?cache (Parent (DependentDevices bd)))"
  define gs where "gs = (\<lambda>s :: Store.
     (let write = (\<lambda>s'. case ex of
                           Some existing \<Rightarrow> snd (Store_Update s' bdAPI existing)
                         | None \<Rightarrow> snd (Store_Create s' bdAPI));
          guarded = (if Holders (DependentDevices bd) \<noteq> [] then s else write s)
      in (case s uuid of
                 Some found \<Rightarrow>
                   if ClaimState (Status found) \<noteq> BlockDeviceUnclaimed
                   then snd (Store_Update s bdAPI found) else write s
               | None \<Rightarrow>
                   if DeviceType (DeviceAttributes bd) = BlockDeviceTypePartition
                   then (case par of
                           None \<Rightarrow> s
                         | Some pp \<Rightarrow>
                             if \<not> fst pp then guarded
                             else (case s (snd pp) of
                                     None \<Rightarrow> guarded
                                   | Some parentBDAPI \<Rightarrow>
                                       if ClaimState (Status parentBDAPI) \<noteq> BlockDeviceUnclaimed
                                       then s
                                       else write (Store_Deactivate s parentBDAPI)))
                   else if Partitions (DependentDevices bd) \<noteq> [] then s
                   else guarded)))"
  have summary: "Clientset (snd (addBlockDevice_generic ?E bd bdAPIList q)) = gs (Clientset q)"
    if "(BDHierarchy q)(DevPath bd \<mapsto> ?bd') = ?cache" for q
    using True that
    by (simp add: store_addBlockDevice_generic gs_def par_def ex_def bdAPI_def uuid_def Let_def
        del: fun_upd_apply split: option.split)
  have c1: "BDHierarchy ?pe1 = ?cache"
    using True by (simp add: cache_addBlockDevice_generic specEnv_simps)
  have nm: "Name bdAPI = uuid"
    by (simp add: bdAPI_def Spec_ToDevice_def)
  have exn: "\<And>existing. ex = Some existing \<Longrightarrow> Name existing = uuid"
    unfolding ex_def by (rule GetExistingBlockDeviceResource_Name)
  have core: "gs (gs (Clientset pe)) = gs (Clientset pe)"
    by (rule generic_store_twice_core
          [where hs = "Holders (DependentDevices bd) \<noteq> []"
             and isPart = "DeviceType (DeviceAttributes bd) = BlockDeviceTypePartition"
             and par = par and ps = "Partitions (DependentDevices bd) \<noteq> []"
             and gs = gs and ex = ex and bdAPI = bdAPI and uuid = uuid])
       (rule nm, erule exn, unfold gs_def, rule refl)
  have "Clientset (snd (addBlockDevice_generic ?E bd bdAPIList ?pe1)) = gs (Clientset ?pe1)"
    by (rule summary) (simp add: c1)
  also have "Clientset ?pe1 = gs (Clientset pe)"
    by (rule summary) simp
  finally show ?thesis
    using core by (simp add: summary)
qed

lemma deviceInUseByZFSLocalPV_decision:
  "BDHierarchy pe' = BDHierarchy pe \<Longrightarrow>
     fst (fst (deviceInUseByZFSLocalPV env bd bdAPIList pe')) =
     fst (fst (deviceInUseByZFSLocalPV env bd bdAPIList pe))"
  by (simp add: deviceInUseByZFSLocalPV_def Let_def split: option.split)

lemma handleUnmanagedDevices_decision:
  "BDHierarchy pe' = BDHierarchy pe \<Longrightarrow>
     fst (fst (handleUnmanagedDevices env bd bdAPIList pe')) =
     fst (fst (handleUnmanagedDevices env bd bdAPIList pe))"
  using deviceInUseByZFSLocalPV_decision [of pe' pe env bd bdAPIList]
  by (simp add: handleUnmanagedDevices_eq)

lemma handleUnmanagedDevices_not_zfs:
  "fst (fst (handleUnmanagedDevices env bd bdAPIList pe))
   \<Longrightarrow> \<not> (InUse (DevUse bd) \<and> UsedBy (DevUse bd) = ZFSLocalPV)"
  by (auto simp: handleUnmanagedDevices_eq deviceInUseByZFSLocalPV_def Let_def
      split: if_splits option.splits)

lemma deviceInUseByZFSLocalPV_store_twice:
  "Clientset (snd (deviceInUseByZFSLocalPV (specEnv p lg z part) bd bdAPIList
                    (snd (deviceInUseByZFSLocalPV (specEnv p lg z part) bd bdAPIList pe)))) =
   Clientset (snd (deviceInUseByZFSLocalPV (specEnv p lg z part) bd bdAPIList pe))"
proof -
  let ?E = "specEnv p lg z part"
  have store: "Clientset (snd (deviceInUseByZFSLocalPV ?E bd bdAPIList q)) = Clientset q
               \<or> Clientset (snd (deviceInUseByZFSLocalPV ?E bd bdAPIList q)) =
                   snd (Store_Create (Clientset q)
                          ((Spec_ToDevice (bd\<lparr>UUID := fst (z bd)\<rparr>))
                             \<lparr>Labels := (Labels (Spec_ToDevice (bd\<lparr>UUID := fst (z bd)\<rparr>)))
                                (''block-device-tag'' \<mapsto> Spec_EngineName ZFSLocalPV)\<rparr>))" for q
    by (simp add: deviceInUseByZFSLocalPV_def Controller_CreateBlockDevice_def specEnv_simps
        Let_def split: option.split)
  have same: "snd (deviceInUseByZFSLocalPV ?E bd bdAPIList q) \<noteq> q \<longrightarrow>
                Clientset (snd (deviceInUseByZFSLocalPV ?E bd bdAPIList q)) =
                   snd (Store_Create (Clientset q)
                          ((Spec_ToDevice (bd\<lparr>UUID := fst (z bd)\<rparr>))
                             \<lparr>Labels := (Labels (Spec_ToDevice (bd\<lparr>UUID := fst (z bd)\<rparr>)))
                                (''block-device-tag'' \<mapsto> Spec_EngineName ZFSLocalPV)\<rparr>))" for q
    by (simp add: deviceInUseByZFSLocalPV_def Controller_CreateBlockDevice_def specEnv_simps
        Let_def split: option.split)
  show ?thesis
  proof (cases "snd (deviceInUseByZFSLocalPV ?E bd bdAPIList pe) = pe")
    case True
    then show ?thesis by simp
  next
    case False
    with same [of pe] have 1: "Clientset (snd (deviceInUseByZFSLocalPV ?E bd bdAPIList pe)) =
                   snd (Store_Create (Clientset pe)
                          ((Spec_ToDevice (bd\<lparr>UUID := fst (z bd)\<rparr>))
                             \<lparr>Labels := (Labels (Spec_ToDevice (bd\<lparr>UUID := fst (z bd)\<rparr>)))
                                (''block-device-tag'' \<mapsto> Spec_EngineName ZFSLocalPV)\<rparr>))"
      by simp
    show ?thesis
      using store [of "snd (deviceInUseByZFSLocalPV ?E bd bdAPIList pe)"]
      by (auto simp: 1 create_twice)
  qed
qed

lemma handleUnmanagedDevices_store_twice:
  "Clientset (snd (handleUnmanagedDevices (specEnv p lg z part) bd bdAPIList
                    (snd (handleUnmanagedDevices (specEnv p lg z part) bd bdAPIList pe)))) =
   Clientset (snd (handleUnmanagedDevices (specEnv p lg z part) bd bdAPIList pe))"
  by (simp add: snd_handleUnmanagedDevices deviceInUseByZFSLocalPV_store_twice)

lemma upgradeDeviceInUseByLocalPV_decision:
  "fst (fst (upgradeDeviceInUseByLocalPV env bd bdAPIList pe')) =
   fst (fst (upgradeDeviceInUseByLocalPV env bd bdAPIList pe))"
  by (simp add: upgradeDeviceInUseByLocalPV_def Let_def split: option.split)

lemma upgradeDeviceInUseByCStor_decision:
  "fst (fst (upgradeDeviceInUseByCStor env bd bdAPIList pe')) =
   fst (fst (upgradeDeviceInUseByCStor env bd bdAPIList pe))"
  by (simp add: upgradeDeviceInUseByCStor_def Let_def split: option.split)

lemma fst_upgradeBD:
  "fst (fst (upgradeBD env bd bdAPIList pe)) =
     (if \<not> InUse (DevUse bd) then True
      else if UsedBy (DevUse bd) = LocalPV
      then fst (fst (upgradeDeviceInUseByLocalPV env bd bdAPIList pe))
      else if UsedBy (DevUse bd) = CStor
      then fst (fst (upgradeDeviceInUseByCStor env bd bdAPIList pe))
      else True)"
  using upgradeDeviceInUseByCStor_frame [of env bd bdAPIList pe]
    upgradeDeviceInUseByLocalPV_frame [of env bd bdAPIList pe]
  by (auto simp: upgradeBD_def Let_def)

lemma upgradeBD_decision:
  "fst (fst (upgradeBD env bd bdAPIList pe')) = fst (fst (upgradeBD env bd bdAPIList pe))"
  using upgradeDeviceInUseByLocalPV_decision [of env bd bdAPIList pe' pe]
    upgradeDeviceInUseByCStor_decision [of env bd bdAPIList pe' pe]
  by (simp add: fst_upgradeBD)

lemma upgradeDeviceInUseByLocalPV_store_twice:
  "Clientset (snd (upgradeDeviceInUseByLocalPV (specEnv p lg z part) bd bdAPIList
                    (snd (upgradeDeviceInUseByLocalPV (specEnv p lg z part) bd bdAPIList pe)))) =
   Clientset (snd (upgradeDeviceInUseByLocalPV (specEnv p lg z part) bd bdAPIList pe))"
  by (simp add: upgradeDeviceInUseByLocalPV_def createOrUpdateWithFSUUID_def
      store_createOrUpdateWithAnnotation upd_twice create_twice Let_def split: option.split)

lemma upgradeDeviceInUseByCStor_store_twice:
  "Clientset (snd (upgradeDeviceInUseByCStor (specEnv p lg z part) bd bdAPIList
                    (snd (upgradeDeviceInUseByCStor (specEnv p lg z part) bd bdAPIList pe)))) =
   Clientset (snd (upgradeDeviceInUseByCStor (specEnv p lg z part) bd bdAPIList pe))"
  by (simp add: upgradeDeviceInUseByCStor_def createOrUpdateWithPartitionUUID_def
      store_createOrUpdateWithAnnotation upd_twice create_twice Let_def split: option.split)

lemma upgradeBD_store_twice:
  "Clientset (snd (upgradeBD (specEnv p lg z part) bd bdAPIList
                    (snd (upgradeBD (specEnv p lg z part) bd bdAPIList pe)))) =
   Clientset (snd (upgradeBD (specEnv p lg z part) bd bdAPIList pe))"
  by (simp add: snd_upgradeBD upgradeDeviceInUseByLocalPV_store_twice
      upgradeDeviceInUseByCStor_store_twice)

lemma isParentDeviceInUse_cache:
  "BDHierarchy pe' = BDHierarchy pe \<Longrightarrow> isParentDeviceInUse bd pe' = isParentDeviceInUse bd pe"
  by (simp add: isParentDeviceInUse_def)

lemma twice_handle_stops:
  assumes "\<not> fst (fst (handleUnmanagedDevices (specEnv p lg z part) bd bdAPIList pe))"
  shows "Clientset (snd (addBlockDevice (specEnv p lg z part) bd bdAPIList
                    (snd (addBlockDevice (specEnv p lg z part) bd bdAPIList pe)))) =
   Clientset (snd (addBlockDevice (specEnv p lg z part) bd bdAPIList pe))"
proof -
  let ?E = "specEnv p lg z part"
  let ?pe1 = "snd (handleUnmanagedDevices ?E bd bdAPIList pe)"
  have 1: "snd (addBlockDevice ?E bd bdAPIList pe) = ?pe1"
    using assms by (simp add: addBlockDevice_eq)
  have "BDHierarchy ?pe1 = BDHierarchy pe"
    by (simp add: cache_handleUnmanagedDevices)
  then have "\<not> fst (fst (handleUnmanagedDevices ?E bd bdAPIList ?pe1))"
    using assms handleUnmanagedDevices_decision [of ?pe1 pe ?E bd bdAPIList] by simp
  then have "snd (addBlockDevice ?E bd bdAPIList ?pe1) =
               snd (handleUnmanagedDevices ?E bd bdAPIList ?pe1)"
    by (simp add: addBlockDevice_eq)
  then show ?thesis
    unfolding 1 by (simp add: handleUnmanagedDevices_store_twice)
qed

lemma twice_upgrade_stops:
  assumes h: "fst (fst (handleUnmanagedDevices (specEnv p lg z part) bd bdAPIList pe))"
    and par: "isParentDeviceInUse bd pe = (False, None)"
    and u: "\<not> fst (fst (upgradeBD (specEnv p lg z part) bd bdAPIList pe))"
  shows "Clientset (snd (addBlockDevice (specEnv p lg z part) bd bdAPIList
                    (snd (addBlockDevice (specEnv p lg z part) bd bdAPIList pe)))) =
   Clientset (snd (addBlockDevice (specEnv p lg z part) bd bdAPIList pe))"
proof -
  let ?E = "specEnv p lg z part"
  let ?pe1 = "snd (upgradeBD ?E bd bdAPIList pe)"
  have 1: "snd (addBlockDevice ?E bd bdAPIList pe) = ?pe1"
    using h par u by (simp add: addBlockDevice_eq)
  have c: "BDHierarchy ?pe1 = BDHierarchy pe"
    by (simp add: cache_upgradeBD)
  have h1: "fst (fst (handleUnmanagedDevices ?E bd bdAPIList ?pe1))"
    using h handleUnmanagedDevices_decision [OF c, of ?E bd bdAPIList] by simp
  have p1: "isParentDeviceInUse bd ?pe1 = (False, None)"
    using par isParentDeviceInUse_cache [OF c, of bd] by simp
  have u1: "\<not> fst (fst (upgradeBD ?E bd bdAPIList ?pe1))"
    using u upgradeBD_decision [of ?E bd bdAPIList ?pe1 pe] by simp
  have "snd (addBlockDevice ?E bd bdAPIList ?pe1) = snd (upgradeBD ?E bd bdAPIList ?pe1)"
    using h1 p1 u1 by (simp add: addBlockDevice_eq)
  then show ?thesis
    unfolding 1 by (simp add: upgradeBD_store_twice)
qed

lemma twice_generic:
  assumes h: "fst (fst (handleUnmanagedDevices (specEnv p lg z part) bd bdAPIList pe))"
    and par: "isParentDeviceInUse bd pe = (False, None)"
    and u: "fst (fst (upgradeBD (specEnv p lg z part) bd bdAPIList pe))"
  shows "Clientset (snd (addBlockDevice (specEnv p lg z part) bd bdAPIList
                    (snd (addBlockDevice (specEnv p lg z part) bd bdAPIList pe)))) =
   Clientset (snd (addBlockDevice (specEnv p lg z part) bd bdAPIList pe))"
proof -
  let ?E = "specEnv p lg z part"
  let ?pe1 = "snd (addBlockDevice_generic ?E bd bdAPIList pe)"
  have 1: "snd (addBlockDevice ?E bd bdAPIList pe) = ?pe1"
    using h par u by (simp add: addBlockDevice_eq)
  have nz: "\<not> (InUse (DevUse bd) \<and> UsedBy (DevUse bd) = ZFSLocalPV)"
    using h by (rule handleUnmanagedDevices_not_zfs)
  have hs: "snd (handleUnmanagedDevices ?E bd bdAPIList ?pe1) = ?pe1"
    using nz by (rule handleUnmanagedDevices_silent)
  have "fst (fst (upgradeBD ?E bd bdAPIList ?pe1))"
    using u upgradeBD_decision [of ?E bd bdAPIList ?pe1 pe] by simp
  then have u1: "upgradeBD ?E bd bdAPIList ?pe1 = ((True, None), ?pe1)"
    by (rule upgradeBD_continue)
  have "snd (addBlockDevice ?E bd bdAPIList ?pe1) = ?pe1
        \<or> snd (addBlockDevice ?E bd bdAPIList ?pe1) =
            snd (addBlockDevice_generic ?E bd bdAPIList ?pe1)"
    unfolding addBlockDevice_eq [of ?E bd bdAPIList ?pe1] hs u1 by simp
  then show ?thesis
    unfolding 1
    using addBlockDevice_generic_store_twice [of p lg z part bd bdAPIList pe]
    by auto
qed

lemma twice_parent_stops:
  assumes h: "fst (fst (handleUnmanagedDevices (specEnv p lg z part) bd bdAPIList pe))"
    and par: "isParentDeviceInUse bd pe \<noteq> (False, None)"
  shows "snd (addBlockDevice (specEnv p lg z part) bd bdAPIList pe) = pe"
  using h par
  by (cases "isParentDeviceInUse bd pe") (auto simp: addBlockDevice_eq)

text \<open>
  Claim C3. Over the resource store of the spec, for every add event (a device and the
  list snapshot that comes with it), whatever the identifier derivations return and
  whatever the store and the cache hold at the start: processing the event a second
  time, from the store and the cache that the first processing left, leaves the store
  exactly as the first processing left it. The store keeps one record per identifier
  by construction, so no second record appears for an identifier, and since the store
  does not change at all in the second run, no record changes state.
\<close>

theorem addBlockDevice_store_idempotent:
  "Clientset (snd (addBlockDevice (specEnv p lg z part) bd bdAPIList
                    (snd (addBlockDevice (specEnv p lg z part) bd bdAPIList pe)))) =
   Clientset (snd (addBlockDevice (specEnv p lg z part) bd bdAPIList pe))"
proof (cases "fst (fst (handleUnmanagedDevices (specEnv p lg z part) bd bdAPIList pe))")
  case False
  then show ?thesis by (rule twice_handle_stops)
next
  case h: True
  show ?thesis
  proof (cases "isParentDeviceInUse bd pe = (False, None)")
    case False
    with h have "snd (addBlockDevice (specEnv p lg z part) bd bdAPIList pe) = pe"
      by (rule twice_parent_stops)
    then show ?thesis by simp
  next
    case par: True
    show ?thesis
    proof (cases "fst (fst (upgradeBD (specEnv p lg z part) bd bdAPIList pe))")
      case False
      with h par show ?thesis by (rule twice_upgrade_stops)
    next
      case True
      with h par show ?thesis by (rule twice_generic)
    qed
  qed
qed

theorem addBlockDevice_store_idempotent_witness:
  "map (Clientset
     (snd (addBlockDevice exampleEnv
             (exampleDevice ''sde1'' BlockDeviceTypePartition ''sde'' [] [] False NoEngine)
             [exampleResource ''id-sde'' BlockDeviceUnclaimed]
             (snd (addBlockDevice exampleEnv
                     (exampleDevice ''sde1'' BlockDeviceTypePartition ''sde'' [] [] False NoEngine)
                     [exampleResource ''id-sde'' BlockDeviceUnclaimed]
                     (exampleController
                        [''sde'' \<mapsto> exampleDevice ''sde'' BlockDeviceTypeDisk [] [''sde1''] []
                                     False NoEngine]
                        [''id-sde'' \<mapsto> exampleResource ''id-sde'' BlockDeviceUnclaimed]))))))
     [''id-sde'', ''id-sde1'', ''id-sdf'']
   = [Some ((exampleResource ''id-sde'' BlockDeviceUnclaimed)
              \<lparr>Status := \<lparr>ClaimState = BlockDeviceUnclaimed, Active = False\<rparr>\<rparr>),
      Some ((Spec_ToDevice
               ((exampleDevice ''sde1'' BlockDeviceTypePartition ''sde'' [] [] False NoEngine)
                  \<lparr>UUID := ''id-sde1''\<rparr>))
              \<lparr>Annotations := [internalUUIDSchemeAnnotation \<mapsto> gptUUIDScheme]\<rparr>),
      None]"
proof -
  let ?bd = "exampleDevice ''sde1'' BlockDeviceTypePartition ''sde'' [] [] False NoEngine"
  let ?parent = "exampleDevice ''sde'' BlockDeviceTypeDisk [] [''sde1''] [] False NoEngine"
  let ?res = "exampleResource ''id-sde'' BlockDeviceUnclaimed"
  let ?pe = "exampleController [''sde'' \<mapsto> ?parent] [''id-sde'' \<mapsto> ?res]"
  let ?E = "specEnv examplePrimary exampleLegacy (\<lambda>bd. (''zfs-'' @ DevPath bd, True)) (\<lambda>d. None)"
  have r: "reachesGeneric ?E ?bd [?res] ?pe"
    by (simp add: reachesGeneric_def handleUnmanagedDevices_eq deviceInUseByZFSLocalPV_def
        isParentDeviceInUse_def upgradeBD_def exampleDevice_def exampleController_def)
  have g: "addBlockDevice ?E ?bd [?res] ?pe = addBlockDevice_generic ?E ?bd [?res] ?pe"
    by (rule reachesGeneric_eq [OF r])
  have a: "map (Clientset (snd (addBlockDevice ?E ?bd [?res] ?pe))) [''id-sde'', ''id-sde1'', ''id-sdf''] =
          [Some (?res\<lparr>Status := \<lparr>ClaimState = BlockDeviceUnclaimed, Active = False\<rparr>\<rparr>),
           Some ((Spec_ToDevice (?bd\<lparr>UUID := ''id-sde1''\<rparr>))
                            \<lparr>Annotations := [internalUUIDSchemeAnnotation \<mapsto> gptUUIDScheme]\<rparr>),
           None]"
    unfolding g
    by (simp add: store_addBlockDevice_generic examplePrimary_def exampleDevice_def
        exampleController_def exampleResource_def Store_Deactivate_def Store_Create_def
        Spec_ToDevice_def Let_def)
  note b = addBlockDevice_store_idempotent
      [of examplePrimary exampleLegacy "\<lambda>bd. (''zfs-'' @ DevPath bd, True)" "\<lambda>d. None" ?bd "[?res]" ?pe]
  show ?thesis
    unfolding exampleEnv_def b by (rule a)
qed

end
